theory Spec2Isabelle
  imports Complex_Main "HOL-Library.Log_Nat"
begin

section \<open>JavaScript values as the node sees them\<close>

text \<open>
  The node (the \<^verbatim>\<open>Sogni\<close> class with its helpers \<^verbatim>\<open>safeDisconnect\<close>,
  \<^verbatim>\<open>normalizeAppId\<close>, \<^verbatim>\<open>generateUniqueAppId\<close>) reads loosely typed parameter
  bags. A number is a double: \<open>NaN\<close>, an infinity, or a finite value carried as the
  rational it denotes. An object is an association list of its own properties.
\<close>

datatype jsnum = NaN | PosInf | NegInf | Fin rat

datatype jsval =
    JUndefined
  | JNull
  | JBool bool
  | JNum jsnum
  | JStr string
  | JArr "jsval list"
  | JObj "(string \<times> jsval) list"

text \<open>\<^verbatim>\<open>a ?? b\<close>: only \<^verbatim>\<open>undefined\<close> and \<^verbatim>\<open>null\<close> are skipped.\<close>

fun nullish :: "jsval \<Rightarrow> bool" where
  "nullish JUndefined = True"
| "nullish JNull = True"
| "nullish _ = False"

definition coalesce :: "jsval \<Rightarrow> jsval \<Rightarrow> jsval" where
  "coalesce a b = (if nullish a then b else a)"

text \<open>Truthiness, for \<^verbatim>\<open>a || b\<close> and \<^verbatim>\<open>if (a)\<close>.\<close>

fun truthy :: "jsval \<Rightarrow> bool" where
  "truthy JUndefined = False"
| "truthy JNull = False"
| "truthy (JBool b) = b"
| "truthy (JNum NaN) = False"
| "truthy (JNum (Fin r)) = (r \<noteq> 0)"
| "truthy (JNum _) = True"
| "truthy (JStr s) = (s \<noteq> [])"
| "truthy (JArr _) = True"
| "truthy (JObj _) = True"

definition or_else :: "jsval \<Rightarrow> jsval \<Rightarrow> jsval" where
  "or_else a b = (if truthy a then a else b)"

text \<open>
  \<^verbatim>\<open>o.k\<close> on a value that is not nullish: an own property of an object, and
  \<^verbatim>\<open>undefined\<close> for a missing key or a primitive (the keys read by the node are
  never \<^verbatim>\<open>length\<close> or an index).
\<close>

fun get_prop :: "jsval \<Rightarrow> string \<Rightarrow> jsval" where
  "get_prop (JObj kvs) k = (case map_of kvs k of None \<Rightarrow> JUndefined | Some v \<Rightarrow> v)"
| "get_prop _ k = JUndefined"

text \<open>\<^verbatim>\<open>typeof v === 'number' && !Number.isNaN(v)\<close>\<close>

fun is_number_not_nan :: "jsval \<Rightarrow> bool" where
  "is_number_not_nan (JNum NaN) = False"
| "is_number_not_nan (JNum _) = True"
| "is_number_not_nan _ = False"

text \<open>\<^verbatim>\<open>(x as any) || {}\<close>, the guard on every parameter group.\<close>

definition group :: "jsval \<Rightarrow> string \<Rightarrow> jsval" where
  "group additional k = or_else (get_prop additional k) (JObj [])"

section \<open>Arithmetic on doubles\<close>

text \<open>
  The result of an arithmetic step is the exact result rounded to the nearest double, a
  tie going to the even significand (IEEE 754 binary64: 53 bits of significand, exponents
  from \<open>-1022\<close> to \<open>1023\<close>, gradual underflow, overflow to an infinity).
  \<open>binade x\<close> is the exponent of the power of two at or below \<open>\<bar>x\<bar>\<close>. The zero carries no
  sign: no step of the node divides by a zero or tells the two zeros apart.
\<close>

definition binade :: "rat \<Rightarrow> int" where
  "binade x =
     (let (p, q) = quotient_of \<bar>x\<bar>; d = bitlen p - bitlen q
      in if 2 powi d \<le> \<bar>x\<bar> then d else d - 1)"

definition round_half_even :: "rat \<Rightarrow> int" where
  "round_half_even t =
     (let n = \<lfloor>t\<rfloor>; r = t - of_int n
      in if r < 1 / 2 then n else if 1 / 2 < r then n + 1 else if even n then n else n + 1)"

definition to_double :: "rat \<Rightarrow> jsnum" where
  "to_double x =
     (if x = 0 then Fin 0
      else let ulp = 2 powi (max (binade x) (- 1022) - 52);
               r = of_int (round_half_even (x / ulp)) * ulp
           in if 2 powi 1024 \<le> \<bar>r\<bar> then (if 0 < x then PosInf else NegInf) else Fin r)"

fun js_neg :: "jsnum \<Rightarrow> jsnum" where
  "js_neg NaN = NaN"
| "js_neg PosInf = NegInf"
| "js_neg NegInf = PosInf"
| "js_neg (Fin a) = Fin (- a)"

text \<open>\<^verbatim>\<open>a + b\<close> and \<^verbatim>\<open>a - b\<close> on numbers.\<close>

fun js_add :: "jsnum \<Rightarrow> jsnum \<Rightarrow> jsnum" where
  "js_add (Fin a) (Fin b) = to_double (a + b)"
| "js_add NaN b = NaN"
| "js_add a NaN = NaN"
| "js_add PosInf NegInf = NaN"
| "js_add NegInf PosInf = NaN"
| "js_add PosInf b = PosInf"
| "js_add NegInf b = NegInf"
| "js_add (Fin a) b = b"

definition js_sub :: "jsnum \<Rightarrow> jsnum \<Rightarrow> jsnum" where
  "js_sub a b = js_add a (js_neg b)"

fun js_sign :: "jsnum \<Rightarrow> int" where
  "js_sign NaN = 0"
| "js_sign PosInf = 1"
| "js_sign NegInf = - 1"
| "js_sign (Fin a) = (if 0 < a then 1 else if a < 0 then - 1 else 0)"

text \<open>\<^verbatim>\<open>a * b\<close>: an infinity times a zero is \<^verbatim>\<open>NaN\<close>.\<close>

fun js_mul :: "jsnum \<Rightarrow> jsnum \<Rightarrow> jsnum" where
  "js_mul (Fin a) (Fin b) = to_double (a * b)"
| "js_mul NaN b = NaN"
| "js_mul a NaN = NaN"
| "js_mul a b =
     (if js_sign a * js_sign b = 0 then NaN else if 0 < js_sign a * js_sign b then PosInf else NegInf)"

text \<open>\<^verbatim>\<open>a / b\<close>; a zero divisor is the positive zero.\<close>

fun js_div :: "jsnum \<Rightarrow> jsnum \<Rightarrow> jsnum" where
  "js_div (Fin a) (Fin b) =
     (if b = 0 then (if a = 0 then NaN else if 0 < a then PosInf else NegInf)
      else to_double (a / b))"
| "js_div NaN b = NaN"
| "js_div a NaN = NaN"
| "js_div (Fin a) b = Fin 0"
| "js_div a (Fin b) = (if (0 \<le> b) = (a = PosInf) then PosInf else NegInf)"
| "js_div a b = NaN"

text \<open>
  \<^verbatim>\<open>Math.round\<close> rounds to the nearest integer, a half towards plus infinity; the integer
  it gives is a double whenever its argument is one. \<^verbatim>\<open>Math.max\<close> gives \<^verbatim>\<open>NaN\<close> as soon as
  one argument is \<^verbatim>\<open>NaN\<close>.
\<close>

definition math_round :: "rat \<Rightarrow> int" where
  "math_round x = \<lfloor>x + 1 / 2\<rfloor>"

fun js_round :: "jsnum \<Rightarrow> jsnum" where
  "js_round (Fin a) = Fin (of_int (math_round a))"
| "js_round a = a"

fun js_max :: "jsnum \<Rightarrow> jsnum \<Rightarrow> jsnum" where
  "js_max (Fin a) (Fin b) = Fin (max a b)"
| "js_max NaN b = NaN"
| "js_max a NaN = NaN"
| "js_max PosInf b = PosInf"
| "js_max a PosInf = PosInf"
| "js_max NegInf b = b"
| "js_max a NegInf = a"

text \<open>A number that is not above \<open>c\<close>.\<close>

fun at_most :: "rat \<Rightarrow> jsnum \<Rightarrow> bool" where
  "at_most c (Fin r) = (r \<le> c)"
| "at_most c NegInf = True"
| "at_most c n = False"

section \<open>Strings\<close>

text \<open>
  \<^verbatim>\<open>toLowerCase\<close> and \<^verbatim>\<open>trim\<close> on the 8-bit characters of \<open>string\<close>: the letters
  A to Z, and the white space and line terminators of ECMAScript that fit in a byte
  (tab, LF, VT, FF, CR, space, no-break space). The texts the node compares after
  lower-casing are ASCII, so the accented capitals need no rule of their own.
\<close>

definition toLowerChar :: "char \<Rightarrow> char" where
  "toLowerChar c =
     (let n = (of_char c :: nat) in if 65 \<le> n \<and> n \<le> 90 then char_of (n + 32) else c)"

definition toLowerCase :: "string \<Rightarrow> string" where
  "toLowerCase s = map toLowerChar s"

definition startsWith :: "string \<Rightarrow> string \<Rightarrow> bool" where
  "startsWith s p = (take (length p) s = p)"

definition isJsSpace :: "char \<Rightarrow> bool" where
  "isJsSpace c = ((of_char c :: nat) \<in> {9, 10, 11, 12, 13, 32, 160})"

definition trim :: "string \<Rightarrow> string" where
  "trim s = rev (dropWhile isJsSpace (rev (dropWhile isJsSpace s)))"

section \<open>Video generation: the frame count\<close>

text \<open>
  \<^verbatim>\<open>
  const isLtx2Model = videoModelId.toLowerCase().startsWith('ltx2-');
  const frames = isLtx2Model
    ? Math.max(9, Math.round((requestedFrames - 1) / 8) * 8 + 1)
    : requestedFrames;
  \<close>
  Each of the four operations rounds its result to a double.
\<close>

definition ltx2_frames_num :: "jsnum \<Rightarrow> jsnum" where
  "ltx2_frames_num requestedFrames =
     js_max (Fin 9)
       (js_add (js_mul (js_round (js_div (js_sub requestedFrames (Fin 1)) (Fin 8))) (Fin 8)) (Fin 1))"

definition isLtx2Model :: "string \<Rightarrow> bool" where
  "isLtx2Model videoModelId = startsWith (toLowerCase videoModelId) ''ltx2-''"

text \<open>The smallest value of the form \<open>8n+1\<close> that is not less than \<open>f\<close>.\<close>

definition ceil8n1 :: "int \<Rightarrow> int" where
  "ceil8n1 f = 8 * ((f + 6) div 8) + 1"

section \<open>Timeout defaults\<close>

text \<open>
  \<^verbatim>\<open>
  const resolvedTimeoutMs =
    typeof timeoutInput === 'number' && !Number.isNaN(timeoutInput)
      ? timeoutInput
      : network === 'fast' ? 60_000 : 600_000;
  \<close>
  for image generation and image edit, and the same with \<open>120_000\<close> and
  \<open>1200_000\<close> for video generation.
\<close>

definition image_resolvedTimeoutMs :: "jsval \<Rightarrow> jsval \<Rightarrow> jsval" where
  "image_resolvedTimeoutMs timeoutInput network =
     (if is_number_not_nan timeoutInput then timeoutInput
      else if network = JStr ''fast'' then JNum (Fin 60000) else JNum (Fin 600000))"

definition video_resolvedTimeoutMs :: "jsval \<Rightarrow> jsval \<Rightarrow> jsval" where
  "video_resolvedTimeoutMs timeoutInput videoNetwork =
     (if is_number_not_nan timeoutInput then timeoutInput
      else if videoNetwork = JStr ''fast'' then JNum (Fin 120000) else JNum (Fin 1200000))"

section \<open>Thrown values, effects and time\<close>

text \<open>
  What a \<^verbatim>\<open>catch\<close> can receive: the node's own \<^verbatim>\<open>NodeOperationError\<close> (message and
  item index); any other \<^verbatim>\<open>Error\<close> with a string for its message; a value that is not
  an \<^verbatim>\<open>Error\<close> and that \<^verbatim>\<open>String(err)\<close> can print, carried with that text; an
  \<^verbatim>\<open>Error\<close> whose message cannot be printed, because reading \<^verbatim>\<open>err.message\<close> throws (a
  getter, \<open>Some\<close> what it throws) or because the message is a value such as a
  \<^verbatim>\<open>Symbol\<close>, which a template literal refuses (\<open>None\<close>); and a value that is not an
  \<^verbatim>\<open>Error\<close> and has no string conversion, such as \<^verbatim>\<open>Object.create(null)\<close>.
\<close>

datatype thrown =
    NodeOperationError string nat
  | JsError string
  | NonError string
  | OpaqueError "thrown option"
  | OpaqueValue

text \<open>
  \<^verbatim>\<open>`${err instanceof Error ? err.message : String(err)}`\<close>, the text both handlers of
  \<^verbatim>\<open>safeDisconnect\<close> build: it is evaluated before the logger is called, and it throws
  a \<^verbatim>\<open>TypeError\<close> where the value has no text.
\<close>

fun describe_err :: "thrown \<Rightarrow> thrown + string" where
  "describe_err (NodeOperationError m i) = Inr m"
| "describe_err (JsError m) = Inr m"
| "describe_err (NonError s) = Inr s"
| "describe_err (OpaqueError (Some e)) = Inl e"
| "describe_err (OpaqueError None) = Inl (JsError ''Cannot convert a Symbol value to a string'')"
| "describe_err OpaqueValue = Inl (JsError ''Cannot convert object to primitive value'')"

text \<open>
  \<^verbatim>\<open>error instanceof Error ? error.message : 'Unknown error'\<close>, the value stored under
  \<^verbatim>\<open>error\<close> by the item loop: the message is stored as it is, a string or not, and
  reading it may throw.
\<close>

datatype error_text = Message string | NotAString

fun error_message :: "thrown \<Rightarrow> thrown + error_text" where
  "error_message (NodeOperationError m i) = Inr (Message m)"
| "error_message (JsError m) = Inr (Message m)"
| "error_message (NonError s) = Inr (Message ''Unknown error'')"
| "error_message (OpaqueError (Some e)) = Inl e"
| "error_message (OpaqueError None) = Inr NotAString"
| "error_message OpaqueValue = Inr (Message ''Unknown error'')"

text \<open>
  Decimal rendering of an index, a status or a count, as a template literal prints it.
\<close>

definition digit :: "nat \<Rightarrow> char" where
  "digit d = char_of (d + 48)"

fun decimal_of_nat :: "nat \<Rightarrow> string" where
  "decimal_of_nat n = (if n < 10 then [] else decimal_of_nat (n div 10)) @ [digit (n mod 10)]"

declare decimal_of_nat.simps [simp del]

definition decimal_of_int :: "int \<Rightarrow> string" where
  "decimal_of_int k = (if 0 \<le> k then decimal_of_nat (nat k) else CHR ''-'' # decimal_of_nat (nat (- k)))"

text \<open>Reading a decimal back, to tell two renderings apart.\<close>

definition decimal_value :: "string \<Rightarrow> nat" where
  "decimal_value s = foldl (\<lambda>acc c. 10 * acc + (of_char c - 48)) 0 s"

text \<open>
  What the outside can observe of a run: the calls issued on the wrapper and on its
  transport, the lines of the optional debug log, and the console.
\<close>

datatype event =
    Connect string
  | CallDisconnect
  | CallClose
  | CallTerminate
  | CallRemoveAllListeners
  | DebugLog string
  | ConsoleError string thrown

text \<open>
  An asynchronous computation: its outcome (\<open>Inl\<close> what it throws or rejects with),
  the milliseconds it awaited, and the events it caused, in order. The clock is the one
  of the timers: it advances while a promise is awaited, and synchronous steps take no
  time on it.
\<close>

type_synonym 'a eff = "(thrown + 'a) \<times> int \<times> event list"

definition outcome :: "'a eff \<Rightarrow> thrown + 'a" where
  "outcome m = fst m"

definition elapsed :: "'a eff \<Rightarrow> int" where
  "elapsed m = fst (snd m)"

definition events :: "'a eff \<Rightarrow> event list" where
  "events m = snd (snd m)"

definition returns :: "'a \<Rightarrow> 'a eff" where
  "returns a = (Inr a, 0, [])"

definition throws :: "thrown \<Rightarrow> 'a eff" where
  "throws e = (Inl e, 0, [])"

definition emit :: "event \<Rightarrow> unit eff" where
  "emit ev = (Inr (), 0, [ev])"

text \<open>Sequencing: the rest runs only when the first part did not throw.\<close>

definition and_then :: "'a eff \<Rightarrow> ('a \<Rightarrow> 'b eff) \<Rightarrow> 'b eff" where
  "and_then m f =
     (case outcome m of
        Inl e \<Rightarrow> (Inl e, elapsed m, events m)
      | Inr a \<Rightarrow> (outcome (f a), elapsed m + elapsed (f a), events m @ events (f a)))"

text \<open>\<^verbatim>\<open>try { m } catch (err) { h(err) }\<close>\<close>

definition try_catch :: "'a eff \<Rightarrow> (thrown \<Rightarrow> 'a eff) \<Rightarrow> 'a eff" where
  "try_catch m h =
     (case outcome m of
        Inl e \<Rightarrow> (outcome (h e), elapsed m + elapsed (h e), events m @ events (h e))
      | Inr a \<Rightarrow> m)"

text \<open>
  \<^verbatim>\<open>try { m } finally { await c }\<close>: the cleanup always runs; what it throws replaces
  the outcome of the body, and otherwise the body's outcome stands.
\<close>

definition try_finally :: "'a eff \<Rightarrow> unit eff \<Rightarrow> 'a eff" where
  "try_finally m c =
     (case outcome c of
        Inl e \<Rightarrow> (Inl e, elapsed m + elapsed c, events m @ events c)
      | Inr u \<Rightarrow> (outcome m, elapsed m + elapsed c, events m @ events c))"

text \<open>
  \<^verbatim>\<open>debugLogAppId\<close>: prints only when the environment variable
  \<^verbatim>\<open>SOGNI_N8N_DEBUG_APPID\<close> is one of 1, true, yes, on (after trimming and
  lower-casing).
\<close>

definition isAppIdDebugEnabled :: "string \<Rightarrow> bool" where
  "isAppIdDebugEnabled env_var =
     (let raw = toLowerCase (trim env_var)
      in raw = ''1'' \<or> raw = ''true'' \<or> raw = ''yes'' \<or> raw = ''on'')"

definition debugLogAppId :: "string \<Rightarrow> string \<Rightarrow> unit eff" where
  "debugLogAppId env_var message =
     (if \<not> isAppIdDebugEnabled env_var then returns ()
      else emit (DebugLog (''[Sogni] '' @ message)))"

section \<open>Session shutdown: \<^verbatim>\<open>safeDisconnect\<close>\<close>

text \<open>
  The wrapper and its transport are foreign objects; the model gives every property the
  code touches the behaviours it can have. Reading a property may throw (a getter), give
  something that is not a function, or give a function whose call throws or returns.
\<close>

datatype 'a field = Missing | GetterThrows thrown | Present 'a

text \<open>
  The promise \<^verbatim>\<open>Promise.resolve(client.disconnect())\<close>: settled after some
  milliseconds (fulfilled or rejected), or never.
\<close>

datatype promise = Settles nat "thrown + unit" | Hangs

datatype disconnect_call = ThrowsSync thrown | ReturnsPromise promise

record websocket =
  readyState :: "thrown + int option"
  ws_close :: "(thrown + unit) field"
  ws_terminate :: "(thrown + unit) field"
  ws_removeAllListeners :: "(thrown + unit) field"

text \<open>
  One probed field: \<^verbatim>\<open>undefined\<close>/\<^verbatim>\<open>null\<close>, another falsy value, an object taken for
  the socket, or a getter that throws.
\<close>

datatype probe = Nullish | Falsy | Handle websocket | ProbeThrows thrown

record inner_client =
  inner_socket :: probe
  inner_ws :: probe
  inner_websocket :: probe

record client =
  disconnect :: "disconnect_call field"
  socket :: probe
  ws :: probe
  websocket :: probe
  u_socket :: probe
  u_ws :: probe
  u_websocket :: probe
  client_client :: "thrown + inner_client option"

record disconnect_context =
  label :: string
  appId :: "string option"
  timeoutMs :: "int option"

text \<open>
  \<^verbatim>\<open>setTimeout\<close> takes a delay from 1 to \<open>2^31 - 1\<close> milliseconds as it is and replaces
  any other by 1.
\<close>

definition timer_delay :: "int \<Rightarrow> int" where
  "timer_delay ms = (if 1 \<le> ms \<and> ms \<le> 2147483647 then ms else 1)"

text \<open>
  \<^verbatim>\<open>promiseWithTimeout\<close>: \<^verbatim>\<open>Promise.race\<close> of the promise against a timer that rejects
  after \<open>timeout_ms\<close>. The promise is the older of the two: when it settles at the very
  instant the timer is due, it wins.
\<close>

definition promiseWithTimeout :: "promise \<Rightarrow> int \<Rightarrow> string \<Rightarrow> unit eff" where
  "promiseWithTimeout p timeout_ms lbl =
     (let timed_out =
            (Inl (JsError (lbl @ '' timed out after '' @ decimal_of_int timeout_ms @ ''ms'')),
             timer_delay timeout_ms, [])
      in case p of
           Hangs \<Rightarrow> timed_out
         | Settles d r \<Rightarrow> if int d \<le> timer_delay timeout_ms then (r, int d, []) else timed_out)"

text \<open>Step 1 of \<^verbatim>\<open>safeDisconnect\<close>, the body of its first \<^verbatim>\<open>try\<close>.\<close>

definition graceful_disconnect :: "string \<Rightarrow> client \<Rightarrow> int \<Rightarrow> string \<Rightarrow> unit eff" where
  "graceful_disconnect env_var c timeout tag =
     (case disconnect c of
        Missing \<Rightarrow> returns ()
      | GetterThrows e \<Rightarrow> throws e
      | Present call \<Rightarrow>
          and_then (debugLogAppId env_var (''disconnect:start ('' @ tag @ '')'')) (\<lambda>_.
          and_then (emit CallDisconnect) (\<lambda>_.
          and_then (case call of
                      ThrowsSync e \<Rightarrow> throws e
                    | ReturnsPromise p \<Rightarrow>
                        promiseWithTimeout p timeout (''disconnect ('' @ tag @ '')'')) (\<lambda>_.
          debugLogAppId env_var (''disconnect:done ('' @ tag @ '')'')))))"

text \<open>
  The probe \<^verbatim>\<open>client.socket ?? client.ws ?? ... ?? client.client?.websocket\<close>: the first
  field that is not nullish, read left to right.
\<close>

fun first_non_nullish :: "probe list \<Rightarrow> probe" where
  "first_non_nullish [] = Nullish"
| "first_non_nullish (Nullish # ps) = first_non_nullish ps"
| "first_non_nullish (p # ps) = p"

definition inner_probe :: "client \<Rightarrow> (inner_client \<Rightarrow> probe) \<Rightarrow> probe" where
  "inner_probe c sel =
     (case client_client c of
        Inl e \<Rightarrow> ProbeThrows e
      | Inr None \<Rightarrow> Nullish
      | Inr (Some ic) \<Rightarrow> sel ic)"

definition probe_socket :: "client \<Rightarrow> probe" where
  "probe_socket c =
     first_non_nullish
       [socket c, ws c, websocket c, u_socket c, u_ws c, u_websocket c,
        inner_probe c inner_socket, inner_probe c inner_ws, inner_probe c inner_websocket]"

text \<open>\<^verbatim>\<open>if (typeof ws.m === 'function') ws.m();\<close>\<close>

definition call_if_function :: "(thrown + unit) field \<Rightarrow> event \<Rightarrow> unit eff" where
  "call_if_function m ev =
     (case m of
        Missing \<Rightarrow> returns ()
      | GetterThrows e \<Rightarrow> throws e
      | Present r \<Rightarrow> and_then (emit ev) (\<lambda>_. (r, 0, [])))"

text \<open>\<^verbatim>\<open>try { ... } catch { /* ignore */ }\<close>\<close>

definition ignoring :: "unit eff \<Rightarrow> unit eff" where
  "ignoring m = try_catch m (\<lambda>_. returns ())"

text \<open>Step 2, the body of the second \<^verbatim>\<open>try\<close>; ready state 3 is "closed".\<close>

definition hard_close :: "string \<Rightarrow> client \<Rightarrow> string \<Rightarrow> unit eff" where
  "hard_close env_var c tag =
     (case probe_socket c of
        ProbeThrows e \<Rightarrow> throws e
      | Nullish \<Rightarrow> returns ()
      | Falsy \<Rightarrow> returns ()
      | Handle w \<Rightarrow>
          (case readyState w of
             Inl e \<Rightarrow> throws e
           | Inr rs \<Rightarrow>
               and_then (if rs \<noteq> Some 3
                         then and_then (ignoring (call_if_function (ws_close w) CallClose)) (\<lambda>_.
                              ignoring (call_if_function (ws_terminate w) CallTerminate))
                         else returns ()) (\<lambda>_.
               and_then (ignoring (call_if_function (ws_removeAllListeners w) CallRemoveAllListeners)) (\<lambda>_.
               debugLogAppId env_var (''disconnect:hard-close attempted ('' @ tag @ '')'')))))"

definition effective_timeout :: "disconnect_context \<Rightarrow> int" where
  "effective_timeout ctx = (case timeoutMs ctx of Some t \<Rightarrow> if t > 0 then t else 5000 | None \<Rightarrow> 5000)"

definition context_tag :: "disconnect_context \<Rightarrow> string" where
  "context_tag ctx =
     label ctx @ (case appId ctx of
                    None \<Rightarrow> []
                  | Some a \<Rightarrow> if a \<noteq> [] then '' appId='' @ a else [])"

text \<open>
  The body of both \<^verbatim>\<open>catch\<close> blocks: the line is built from the caught value and then
  handed to the logger. Nothing guards the building of the line.
\<close>

definition log_failure :: "string \<Rightarrow> string \<Rightarrow> thrown \<Rightarrow> unit eff" where
  "log_failure env_var prefix err =
     (case describe_err err of
        Inl e \<Rightarrow> throws e
      | Inr description \<Rightarrow> debugLogAppId env_var (prefix @ description))"

text \<open>
  \<^verbatim>\<open>safeDisconnect(client, context)\<close>; \<open>None\<close> is a client that is not there. The second
  \<^verbatim>\<open>try\<close> is reached only when the first \<^verbatim>\<open>try\<close> and its handler have not thrown.
\<close>

definition safeDisconnect :: "string \<Rightarrow> client option \<Rightarrow> disconnect_context \<Rightarrow> unit eff" where
  "safeDisconnect env_var cl ctx =
     (case cl of
        None \<Rightarrow> returns ()
      | Some c \<Rightarrow>
          (let timeout = effective_timeout ctx; tag = context_tag ctx
           in and_then
                (try_catch (graceful_disconnect env_var c timeout tag)
                   (log_failure env_var (''disconnect:error ('' @ tag @ '') '')))
                (\<lambda>_. try_catch (hard_close env_var c tag)
                   (log_failure env_var (''disconnect:hard-close error ('' @ tag @ '') '')))))"

text \<open>The calls a run issued on the transport handle, in order.\<close>

fun is_transport_call :: "event \<Rightarrow> bool" where
  "is_transport_call CallClose = True"
| "is_transport_call CallTerminate = True"
| "is_transport_call CallRemoveAllListeners = True"
| "is_transport_call _ = False"

definition transport_calls :: "'a eff \<Rightarrow> event list" where
  "transport_calls m = filter is_transport_call (events m)"

section \<open>Identities\<close>

text \<open>
  \<^verbatim>\<open>
  function normalizeAppId(appId?: string): string | undefined {
    if (typeof appId !== 'string') return undefined;
    const trimmed = appId.trim();
    return trimmed.length ? trimmed : undefined;
  }
  function generateUniqueAppId(prefix: string): string {
    return `${prefix}-${randomUUID()}`;
  }
  \<close>
  \<^verbatim>\<open>randomUUID()\<close> is the platform's random source: the value it returns at a call is
  an argument of the model.
\<close>

definition normalizeAppId :: "jsval \<Rightarrow> string option" where
  "normalizeAppId app_id =
     (case app_id of
        JStr s \<Rightarrow> (let trimmed = trim s in if length trimmed \<noteq> 0 then Some trimmed else None)
      | _ \<Rightarrow> None)"

definition generateUniqueAppId :: "string \<Rightarrow> string \<Rightarrow> string" where
  "generateUniqueAppId prefix uuid = prefix @ ''-'' @ uuid"

text \<open>\<^verbatim>\<open>const appId = userProvidedAppId ?? generateUniqueAppId('n8n-sogni');\<close> in \<^verbatim>\<open>execute\<close>.\<close>

definition execute_appId :: "jsval \<Rightarrow> string \<Rightarrow> string" where
  "execute_appId credentials_appId uuid =
     (case normalizeAppId credentials_appId of
        Some userProvidedAppId \<Rightarrow> userProvidedAppId
      | None \<Rightarrow> generateUniqueAppId ''n8n-sogni'' uuid)"

text \<open>
  The three \<^verbatim>\<open>loadOptions\<close> methods share one frame: a dedicated identity, a client of
  its own, the lookup itself (its outcome is an argument here: what
  \<^verbatim>\<open>getAvailableModels\<close> and the filtering give), and in \<^verbatim>\<open>finally\<close> the bounded
  disconnect. The credentials are read, and their \<^verbatim>\<open>appId\<close> is not used.
\<close>

definition loadOptions :: "string \<Rightarrow> string \<Rightarrow> jsval \<Rightarrow> string \<Rightarrow> client \<Rightarrow> 'a eff \<Rightarrow> 'a eff" where
  "loadOptions env_var lookup_name credentials_appId uuid c lookup =
     (let app_id = generateUniqueAppId ''n8n-sogni-loadopts'' uuid
      in and_then (debugLogAppId env_var (''loadOptions:'' @ lookup_name @ '' appId='' @ app_id)) (\<lambda>_.
         and_then (emit (Connect app_id)) (\<lambda>_.
         try_finally lookup
           (safeDisconnect env_var (Some c)
              \<lparr>label = ''loadOptions:'' @ lookup_name, appId = Some app_id, timeoutMs = Some 2000\<rparr>))))"

definition getModelOptions :: "string \<Rightarrow> jsval \<Rightarrow> string \<Rightarrow> client \<Rightarrow> 'a eff \<Rightarrow> 'a eff" where
  "getModelOptions env_var = loadOptions env_var ''getModelOptions''"

definition getVideoModelOptions :: "string \<Rightarrow> jsval \<Rightarrow> string \<Rightarrow> client \<Rightarrow> 'a eff \<Rightarrow> 'a eff" where
  "getVideoModelOptions env_var = loadOptions env_var ''getVideoModelOptions''"

definition getImageEditModelOptions :: "string \<Rightarrow> jsval \<Rightarrow> string \<Rightarrow> client \<Rightarrow> 'a eff \<Rightarrow> 'a eff" where
  "getImageEditModelOptions env_var = loadOptions env_var ''getImageEditModelOptions''"

text \<open>
  The copy of the node kept under \<^verbatim>\<open>nodes/Sogni/Sogni.node.ts\<close> has one lookup,
  \<^verbatim>\<open>getModelOptions\<close>, written differently:
  \<^verbatim>\<open>
  const appId = (credentials.appId as string) ||
    `n8n-model-picker-${Date.now()}-${Math.random().toString(36).substr(2, 9)}`;
  ...
  } finally { try { await client.disconnect(); } catch { /* ignore */ } }
  \<close>
  The generated text (clock and pseudo-random suffix) is an argument. The same copy
  takes the identity of \<^verbatim>\<open>execute\<close> from \<^verbatim>\<open>credentials.appId || ...\<close> as well.
\<close>

definition legacy_getModelOptions_appId :: "jsval \<Rightarrow> string \<Rightarrow> jsval" where
  "legacy_getModelOptions_appId credentials_appId generated =
     or_else credentials_appId (JStr (''n8n-model-picker-'' @ generated))"

definition legacy_execute_appId :: "jsval \<Rightarrow> string \<Rightarrow> jsval" where
  "legacy_execute_appId credentials_appId generated =
     or_else credentials_appId (JStr (''n8n-'' @ generated))"

text \<open>
  Its \<^verbatim>\<open>finally\<close> awaits the wrapper's own \<^verbatim>\<open>disconnect\<close> with no timer beside it:
  \<open>None\<close> is a lookup that never returns. A wrapper without a callable
  \<^verbatim>\<open>disconnect\<close> makes the call throw a \<^verbatim>\<open>TypeError\<close>, which the \<^verbatim>\<open>catch\<close> drops like
  any other.
\<close>

definition legacy_disconnect :: "client \<Rightarrow> unit eff option" where
  "legacy_disconnect c =
     (case disconnect c of
        Missing \<Rightarrow> Some (returns ())
      | GetterThrows e \<Rightarrow> Some (returns ())
      | Present (ThrowsSync e) \<Rightarrow> Some (emit CallDisconnect)
      | Present (ReturnsPromise Hangs) \<Rightarrow> None
      | Present (ReturnsPromise (Settles d r)) \<Rightarrow> Some (Inr (), int d, [CallDisconnect]))"

section \<open>Running the items\<close>

text \<open>
  \<^verbatim>\<open>
  for (let i = 0; i < items.length; i++) {
    try { ... returnData.push(...) ... }
    catch (error) {
      if (this.continueOnFail()) {
        returnData.push({ json: { error: error instanceof Error ? error.message : 'Unknown error' } });
        continue;
      }
      throw error;
    }
  }
  return [returnData];
  \<close>
  \<^verbatim>\<open>returnData\<close> only grows. The work on item \<open>i\<close> is \<open>process i\<close>: the records it has
  pushed when it ends or throws, and the run itself (what it throws, the time, the
  events).
\<close>

datatype 'r out_item = Result 'r | ErrorRecord error_text

definition after :: "'a eff \<Rightarrow> 'b eff \<Rightarrow> 'b eff" where
  "after m k = (outcome k, elapsed m + elapsed k, events m @ events k)"

text \<open>
  Every branch but "model / getAll" pushes one record, as its last step, from what the
  work before gave.
\<close>

definition push_last :: "'r eff \<Rightarrow> 'r list \<times> unit eff" where
  "push_last work =
     (case outcome work of
        Inl e \<Rightarrow> ([], (Inl e, elapsed work, events work))
      | Inr r \<Rightarrow> ([r], (Inr (), elapsed work, events work)))"

text \<open>
  "model / getAll" pushes while it goes:
  \<^verbatim>\<open>
  (models as any[]).forEach((model: any) => {
    returnData.push({ json: { id: model.id, name: model.name,
      workerCount: model.workerCount, recommendedSettings: model.recommendedSettings } });
  });
  \<close>
  Reading a property of \<^verbatim>\<open>null\<close> or \<^verbatim>\<open>undefined\<close> throws a \<^verbatim>\<open>TypeError\<close>; the records
  of the models before it are pushed by then.
\<close>

fun model_records :: "jsval list \<Rightarrow> jsval list \<times> thrown option" where
  "model_records [] = ([], None)"
| "model_records (model # rest) =
     (if nullish model
      then ([], Some (JsError (''Cannot read properties of '' @
                               (if model = JNull then ''null'' else ''undefined'') @
                               '' (reading '' @ [CHR 0x27] @ ''id'' @ [CHR 0x27] @ '')'')))
      else (case model_records rest of
              (records, stopped) \<Rightarrow>
                (JObj [(''id'', get_prop model ''id''),
                       (''name'', get_prop model ''name''),
                       (''workerCount'', get_prop model ''workerCount''),
                       (''recommendedSettings'', get_prop model ''recommendedSettings'')] # records,
                 stopped)))"

definition getAll_work :: "jsval list eff \<Rightarrow> jsval list \<times> unit eff" where
  "getAll_work getAvailableModels =
     (case outcome getAvailableModels of
        Inl e \<Rightarrow> ([], (Inl e, elapsed getAvailableModels, events getAvailableModels))
      | Inr models \<Rightarrow>
          (case model_records models of
             (records, stopped) \<Rightarrow>
               (records,
                (case stopped of None \<Rightarrow> Inr () | Some e \<Rightarrow> Inl e,
                 elapsed getAvailableModels, events getAvailableModels))))"

fun item_loop ::
  "bool \<Rightarrow> (nat \<Rightarrow> 'r list \<times> unit eff) \<Rightarrow> nat list \<Rightarrow> 'r out_item list \<Rightarrow> 'r out_item list eff" where
  "item_loop continueOnFail process [] returnData = returns returnData"
| "item_loop continueOnFail process (i # rest) returnData =
     (let pushed = returnData @ map Result (fst (process i)); run = snd (process i)
      in case outcome run of
           Inr ended \<Rightarrow> after run (item_loop continueOnFail process rest pushed)
         | Inl error \<Rightarrow>
             if continueOnFail
             then (case error_message error of
                     Inr message \<Rightarrow>
                       after run (item_loop continueOnFail process rest (pushed @ [ErrorRecord message]))
                   | Inl e \<Rightarrow> (Inl e, elapsed run, events run))
             else (Inl error, elapsed run, events run))"

text \<open>
  \<^verbatim>\<open>execute\<close>: one identity and one client for the run, the items in order, and the
  bounded disconnect in \<^verbatim>\<open>finally\<close>.
\<close>

definition execute ::
  "string \<Rightarrow> string \<Rightarrow> bool \<Rightarrow> jsval \<Rightarrow> string \<Rightarrow> client \<Rightarrow> (nat \<Rightarrow> 'r list \<times> unit eff) \<Rightarrow> nat
     \<Rightarrow> 'r out_item list list eff" where
  "execute env_var node_name continueOnFail credentials_appId uuid c process n_items =
     (let app_id = execute_appId credentials_appId uuid
      in and_then
           (debugLogAppId env_var
              (''execute node=\"'' @ node_name @ ''\" appId='' @ app_id @ '' source='' @
               (case normalizeAppId credentials_appId of
                  Some a \<Rightarrow> ''credentials'' | None \<Rightarrow> ''generated''))) (\<lambda>_.
         and_then (emit (Connect app_id)) (\<lambda>_.
         try_finally
           (and_then (item_loop continueOnFail process [0..<n_items] []) (\<lambda>returnData.
            returns [returnData]))
           (safeDisconnect env_var (Some c)
              \<lparr>label = ''execute'', appId = Some app_id, timeoutMs = Some 5000\<rparr>))))"

section \<open>Resolving the request of an item\<close>

text \<open>
  Coercions are the engine's: \<^verbatim>\<open>JSON.parse\<close> (\<open>None\<close> when it throws), and
  \<^verbatim>\<open>Number(v)\<close> on a string and on an array or object (which may throw a
  \<^verbatim>\<open>TypeError\<close>) are arguments; on the other values \<^verbatim>\<open>Number\<close> is fixed by the
  language.
\<close>

record engine =
  JSON_parse :: "string \<Rightarrow> jsval option"
  StringToNumber :: "string \<Rightarrow> jsnum"
  ObjectToNumber :: "jsval \<Rightarrow> thrown + jsnum"

fun to_number :: "engine \<Rightarrow> jsval \<Rightarrow> thrown + jsnum" where
  "to_number eng JUndefined = Inr NaN"
| "to_number eng JNull = Inr (Fin 0)"
| "to_number eng (JBool b) = Inr (Fin (if b then 1 else 0))"
| "to_number eng (JNum n) = Inr n"
| "to_number eng (JStr s) = Inr (StringToNumber eng s)"
| "to_number eng (JArr vs) = ObjectToNumber eng (JArr vs)"
| "to_number eng (JObj kvs) = ObjectToNumber eng (JObj kvs)"

text \<open>\<^verbatim>\<open>Number.isFinite\<close>\<close>

fun is_finite :: "jsnum \<Rightarrow> bool" where
  "is_finite (Fin r) = True"
| "is_finite _ = False"

text \<open>\<^verbatim>\<open>(v ?? '').trim()\<close>: a value that is neither nullish nor a string has no \<^verbatim>\<open>trim\<close>.\<close>

definition trimmed_text :: "jsval \<Rightarrow> thrown + string" where
  "trimmed_text v =
     (case coalesce v (JStr []) of
        JStr s \<Rightarrow> Inr (trim s)
      | _ \<Rightarrow> Inl (JsError ''trim is not a function''))"

fun str_includes :: "string \<Rightarrow> string \<Rightarrow> bool" where
  "str_includes [] sub = (sub = [])"
| "str_includes (c # cs) sub = (startsWith (c # cs) sub \<or> str_includes cs sub)"

type_synonym buffer = "nat list"

subsection \<open>Image generation\<close>

record image_config =
  ig_modelId :: jsval
  ig_positivePrompt :: jsval
  ig_negativePrompt :: jsval
  ig_stylePrompt :: jsval
  ig_steps :: jsval
  ig_guidance :: jsval
  ig_numberOfMedia :: jsval
  ig_network :: jsval
  ig_tokenType :: jsval
  ig_outputFormat :: jsval
  ig_sizePreset :: jsval
  ig_width :: jsval
  ig_height :: jsval
  ig_seed :: jsval
  ig_waitForCompletion :: bool
  ig_timeout :: jsval

text \<open>
  The \<^verbatim>\<open>projectConfig\<close> of "image / generate" as it is built before the optional
  ControlNet block is attached. The grouped fields come first, the flat legacy shape
  second.
\<close>

definition image_projectConfig :: "jsval \<Rightarrow> jsval \<Rightarrow> jsval \<Rightarrow> jsval \<Rightarrow> image_config" where
  "image_projectConfig modelId positivePrompt networkTop additionalFields =
     (let additional = or_else additionalFields (JObj []);
          gen = group additional ''generationSettings'';
          out = group additional ''output'';
          adv = group additional ''advanced'';
          legacy = additional;
          network = coalesce networkTop (coalesce (get_prop legacy ''network'') (JStr ''fast''));
          timeoutInput = coalesce (get_prop adv ''timeout'') (get_prop legacy ''timeout'')
      in \<lparr>ig_modelId = modelId,
          ig_positivePrompt = positivePrompt,
          ig_negativePrompt =
            coalesce (get_prop gen ''negativePrompt'') (coalesce (get_prop legacy ''negativePrompt'') (JStr [])),
          ig_stylePrompt =
            coalesce (get_prop gen ''stylePrompt'') (coalesce (get_prop legacy ''stylePrompt'') (JStr [])),
          ig_steps = coalesce (get_prop gen ''steps'') (coalesce (get_prop legacy ''steps'') (JNum (Fin 20))),
          ig_guidance =
            coalesce (get_prop gen ''guidance'') (coalesce (get_prop legacy ''guidance'') (JNum (Fin (15 / 2)))),
          ig_numberOfMedia =
            coalesce (get_prop gen ''numberOfMedia'')
              (coalesce (get_prop legacy ''numberOfMedia'')
                 (coalesce (get_prop legacy ''numberOfImages'') (JNum (Fin 1)))),
          ig_network = network,
          ig_tokenType =
            coalesce (get_prop adv ''tokenType'') (coalesce (get_prop legacy ''tokenType'') (JStr ''spark'')),
          ig_outputFormat =
            coalesce (get_prop out ''outputFormat'') (coalesce (get_prop legacy ''outputFormat'') (JStr ''png'')),
          ig_sizePreset = coalesce (get_prop out ''sizePreset'') (get_prop legacy ''sizePreset''),
          ig_width = coalesce (get_prop out ''width'') (get_prop legacy ''width''),
          ig_height = coalesce (get_prop out ''height'') (get_prop legacy ''height''),
          ig_seed = coalesce (get_prop gen ''seed'') (get_prop legacy ''seed''),
          ig_waitForCompletion = True,
          ig_timeout = image_resolvedTimeoutMs timeoutInput network\<rparr>)"

subsection \<open>Named binaries of an item\<close>

text \<open>
  \<^verbatim>\<open>items[i].binary\<close> is a plain object, or is not there (\<open>None\<close>). A name read on it
  is found among its own entries or, failing that, on \<^verbatim>\<open>Object.prototype\<close>, whose
  members are all truthy. An own entry is carried with what
  \<^verbatim>\<open>this.helpers.getBinaryDataBuffer(i, name)\<close> gives for it (the bytes, or what the
  helper throws); \<open>read_inherited\<close> is what the helper gives when it is handed a name
  that leads to a member of \<^verbatim>\<open>Object.prototype\<close>.
\<close>

record binaries =
  own_entry :: "string \<rightharpoonup> (thrown + buffer)"
  read_inherited :: "string \<Rightarrow> thrown + buffer"

definition object_prototype_names :: "string list" where
  "object_prototype_names =
     [''constructor'', ''__defineGetter__'', ''__defineSetter__'', ''hasOwnProperty'',
      ''__lookupGetter__'', ''__lookupSetter__'', ''isPrototypeOf'', ''propertyIsEnumerable'',
      ''toString'', ''valueOf'', ''__proto__'', ''toLocaleString'']"

text \<open>
  \<^verbatim>\<open>items[i].binary?.[name]\<close> and, when that is truthy, the buffer the helper is asked
  for: \<open>None\<close> when the guard \<^verbatim>\<open>!binaryData\<close> holds.
\<close>

definition binary_data :: "binaries option \<Rightarrow> string \<Rightarrow> (thrown + buffer) option" where
  "binary_data binary name =
     (case binary of
        None \<Rightarrow> None
      | Some b \<Rightarrow>
          (case own_entry b name of
             Some r \<Rightarrow> Some r
           | None \<Rightarrow> if name \<in> set object_prototype_names then Some (read_inherited b name) else None))"

text \<open>
  The first context image of an edit:
  \<^verbatim>\<open>
  const binaryData1 = items[i].binary?.[contextImage1Property];
  if (!binaryData1) throw new NodeOperationError(this.getNode(),
    `No binary data found in property "${contextImage1Property}". Please provide a context image.`,
    { itemIndex: i });
  contextImages.push(await this.helpers.getBinaryDataBuffer(i, contextImage1Property));
  \<close>
\<close>

definition required_context_image :: "binaries option \<Rightarrow> nat \<Rightarrow> string \<Rightarrow> thrown + buffer" where
  "required_context_image binary i contextImage1Property =
     (case binary_data binary contextImage1Property of
        None \<Rightarrow>
          Inl (NodeOperationError
                 (''No binary data found in property \"'' @ contextImage1Property @
                  ''\". Please provide a context image.'') i)
      | Some r \<Rightarrow> r)"

text \<open>Context images 2 and 3: pushed when named and found, skipped otherwise.\<close>

definition optional_context_image :: "binaries option \<Rightarrow> string \<Rightarrow> thrown + buffer list" where
  "optional_context_image binary property =
     (if property \<noteq> [] \<and> trim property \<noteq> []
      then (case binary_data binary property of
              None \<Rightarrow> Inr []
            | Some r \<Rightarrow> (case r of Inl e \<Rightarrow> Inl e | Inr buf \<Rightarrow> Inr [buf]))
      else Inr [])"

definition collect_context_images ::
  "binaries option \<Rightarrow> nat \<Rightarrow> string \<Rightarrow> string \<Rightarrow> string \<Rightarrow> thrown + buffer list" where
  "collect_context_images binary i contextImage1Property contextImage2Property contextImage3Property =
     (case required_context_image binary i contextImage1Property of
        Inl e \<Rightarrow> Inl e
      | Inr buf1 \<Rightarrow>
          (case optional_context_image binary contextImage2Property of
             Inl e \<Rightarrow> Inl e
           | Inr second \<Rightarrow>
               (case optional_context_image binary contextImage3Property of
                  Inl e \<Rightarrow> Inl e
                | Inr third \<Rightarrow> Inr ([buf1] @ second @ third))))"

text \<open>
  The reference bindings of a video:
  \<^verbatim>\<open>
  const readOptionalBinaryProperty = async (propertyName, label) => {
    if (!propertyName) return undefined;
    const binaryData = items[i].binary?.[propertyName];
    if (!binaryData) throw new NodeOperationError(this.getNode(),
      `No binary data found in property "${propertyName}" for ${label}.`, { itemIndex: i });
    return this.helpers.getBinaryDataBuffer(i, propertyName);
  };
  \<close>
\<close>

definition readOptionalBinaryProperty ::
  "binaries option \<Rightarrow> nat \<Rightarrow> string \<Rightarrow> string \<Rightarrow> thrown + buffer option" where
  "readOptionalBinaryProperty binary i propertyName lbl =
     (if propertyName = [] then Inr None
      else case binary_data binary propertyName of
             None \<Rightarrow>
               Inl (NodeOperationError
                      (''No binary data found in property \"'' @ propertyName @ ''\" for '' @ lbl @ ''.'') i)
           | Some r \<Rightarrow> (case r of Inl e \<Rightarrow> Inl e | Inr buf \<Rightarrow> Inr (Some buf)))"

text \<open>
  The control image of "image / generate", read when ControlNet is enabled; the property
  name falls back to \<^verbatim>\<open>'data'\<close>:
  \<^verbatim>\<open>
  const imagePropertyName = cn.controlNetImageProperty ?? legacy.controlNetImageProperty ?? 'data';
  const binaryData = items[i].binary?.[imagePropertyName];
  if (!binaryData) throw new NodeOperationError(this.getNode(),
    `No binary data found in property "${imagePropertyName}". Please provide a control image.`,
    { itemIndex: i });
  const imageBuffer = await this.helpers.getBinaryDataBuffer(i, imagePropertyName);
  \<close>
  The name is a string parameter of the form; \<open>toPropertyKey\<close> is the text the language
  reads a name of another type as.
\<close>

definition control_image ::
  "(jsval \<Rightarrow> string) \<Rightarrow> binaries option \<Rightarrow> nat \<Rightarrow> jsval \<Rightarrow> thrown + buffer option" where
  "control_image toPropertyKey binary i additionalFields =
     (let additional = or_else additionalFields (JObj []);
          cn = group additional ''controlNet'';
          legacy = additional;
          enableControlNet =
            coalesce (get_prop cn ''enableControlNet'')
              (coalesce (get_prop legacy ''enableControlNet'') (JBool False))
      in if \<not> truthy enableControlNet then Inr None
         else let imagePropertyName =
                    (case coalesce (get_prop cn ''controlNetImageProperty'')
                            (coalesce (get_prop legacy ''controlNetImageProperty'') (JStr ''data'')) of
                       JStr name \<Rightarrow> name
                     | other \<Rightarrow> toPropertyKey other)
              in case binary_data binary imagePropertyName of
                   None \<Rightarrow>
                     Inl (NodeOperationError
                            (''No binary data found in property \"'' @ imagePropertyName @
                             ''\". Please provide a control image.'') i)
                 | Some r \<Rightarrow> (case r of Inl e \<Rightarrow> Inl e | Inr buf \<Rightarrow> Inr (Some buf)))"

subsection \<open>Image edit\<close>

record edit_config =
  ed_modelId :: string
  ed_positivePrompt :: jsval
  ed_negativePrompt :: jsval
  ed_stylePrompt :: jsval
  ed_steps :: jsval
  ed_guidance :: jsval
  ed_numberOfMedia :: jsval
  ed_network :: jsval
  ed_tokenType :: jsval
  ed_outputFormat :: jsval
  ed_sizePreset :: jsval
  ed_width :: jsval
  ed_height :: jsval
  ed_seed :: jsval
  ed_contextImages :: "buffer list"
  ed_waitForCompletion :: bool
  ed_timeout :: jsval

definition isLightningModel :: "string \<Rightarrow> bool" where
  "isLightningModel modelId = str_includes (toLowerCase modelId) ''lightning''"

definition edit_steps :: "string \<Rightarrow> jsval \<Rightarrow> jsval" where
  "edit_steps modelId stepsInput =
     (if is_number_not_nan stepsInput then stepsInput
      else if isLightningModel modelId then JNum (Fin 4) else JNum (Fin 20))"

definition edit_guidance :: "string \<Rightarrow> jsval \<Rightarrow> jsval" where
  "edit_guidance modelId guidanceInput =
     (if is_number_not_nan guidanceInput then guidanceInput
      else if isLightningModel modelId then JNum (Fin 1) else JNum (Fin 4))"

text \<open>
  The \<^verbatim>\<open>editProjectConfig\<close> of "image / edit"; it is handed to
  \<^verbatim>\<open>client.createImageEditProject\<close> only when it is built.
\<close>

definition edit_projectConfig ::
  "binaries option \<Rightarrow> nat \<Rightarrow> string \<Rightarrow> jsval \<Rightarrow> string \<Rightarrow> string \<Rightarrow> string \<Rightarrow> jsval \<Rightarrow> jsval
     \<Rightarrow> thrown + edit_config" where
  "edit_projectConfig binary i modelId editPrompt contextImage1Property contextImage2Property
       contextImage3Property network imageEditAdditionalFields =
     (let additional = or_else imageEditAdditionalFields (JObj []);
          gen = group additional ''generationSettings'';
          out = group additional ''output'';
          adv = group additional ''advanced''
      in case collect_context_images binary i contextImage1Property contextImage2Property
                contextImage3Property of
           Inl e \<Rightarrow> Inl e
         | Inr contextImages \<Rightarrow>
             Inr \<lparr>ed_modelId = modelId,
                  ed_positivePrompt = editPrompt,
                  ed_negativePrompt = coalesce (get_prop gen ''negativePrompt'') (JStr []),
                  ed_stylePrompt = coalesce (get_prop gen ''stylePrompt'') (JStr []),
                  ed_steps = edit_steps modelId (get_prop gen ''steps''),
                  ed_guidance = edit_guidance modelId (get_prop gen ''guidance''),
                  ed_numberOfMedia = coalesce (get_prop gen ''numberOfMedia'') (JNum (Fin 1)),
                  ed_network = network,
                  ed_tokenType = coalesce (get_prop adv ''tokenType'') (JStr ''spark''),
                  ed_outputFormat = coalesce (get_prop out ''outputFormat'') (JStr ''png''),
                  ed_sizePreset = get_prop out ''sizePreset'',
                  ed_width = get_prop out ''width'',
                  ed_height = get_prop out ''height'',
                  ed_seed = get_prop gen ''seed'',
                  ed_contextImages = contextImages,
                  ed_waitForCompletion = True,
                  ed_timeout = image_resolvedTimeoutMs (get_prop adv ''timeout'') network\<rparr>)"

subsection \<open>Video generation\<close>

definition bind_result :: "thrown + 'a \<Rightarrow> ('a \<Rightarrow> thrown + 'b) \<Rightarrow> thrown + 'b" where
  "bind_result r f = (case r of Inl e \<Rightarrow> Inl e | Inr a \<Rightarrow> f a)"

text \<open>
  The frame count of the request: \<^verbatim>\<open>requestedFrames - 1\<close> coerces its operand with
  \<^verbatim>\<open>Number\<close>; outside the LTX-2 family the value is passed on as it came.
\<close>

definition video_frames :: "engine \<Rightarrow> string \<Rightarrow> jsval \<Rightarrow> thrown + jsval" where
  "video_frames eng videoModelId requestedFrames =
     (if isLtx2Model videoModelId
      then bind_result (to_number eng requestedFrames) (\<lambda>n. Inr (JNum (ltx2_frames_num n)))
      else Inr requestedFrames)"

text \<open>
  The SAM2 coordinates:
  \<^verbatim>\<open>
  const sam2CoordinatesJson = (videoWorkflow.sam2CoordinatesJson ?? '').trim();
  let sam2Coordinates;
  if (sam2CoordinatesJson) {
    let parsed;
    try { parsed = JSON.parse(sam2CoordinatesJson); }
    catch { throw new NodeOperationError(..., 'SAM2 Coordinates must be valid JSON, ...'); }
    if (!Array.isArray(parsed) || parsed.length === 0)
      throw new NodeOperationError(..., 'SAM2 Coordinates must be a non-empty JSON array.');
    sam2Coordinates = parsed.map((point, pointIndex) => {
      const x = Number(point?.x);
      const y = Number(point?.y);
      if (!Number.isFinite(x) || !Number.isFinite(y))
        throw new NodeOperationError(...,
          `SAM2 coordinate at index ${pointIndex} must include numeric x and y values.`);
      return { x, y };
    });
  }
  \<close>
\<close>

definition optional_prop :: "jsval \<Rightarrow> string \<Rightarrow> jsval" where
  "optional_prop v k = (if nullish v then JUndefined else get_prop v k)"

fun sam2_map :: "engine \<Rightarrow> nat \<Rightarrow> nat \<Rightarrow> jsval list \<Rightarrow> thrown + (jsnum \<times> jsnum) list" where
  "sam2_map eng i pointIndex [] = Inr []"
| "sam2_map eng i pointIndex (point # rest) =
     bind_result (to_number eng (optional_prop point ''x'')) (\<lambda>x.
     bind_result (to_number eng (optional_prop point ''y'')) (\<lambda>y.
       if \<not> is_finite x \<or> \<not> is_finite y
       then Inl (NodeOperationError
                   (''SAM2 coordinate at index '' @ decimal_of_nat pointIndex @
                    '' must include numeric x and y values.'') i)
       else (case sam2_map eng i (Suc pointIndex) rest of
               Inl e \<Rightarrow> Inl e
             | Inr points \<Rightarrow> Inr ((x, y) # points))))"

definition sam2_coordinates :: "engine \<Rightarrow> nat \<Rightarrow> jsval \<Rightarrow> thrown + (jsnum \<times> jsnum) list option" where
  "sam2_coordinates eng i raw =
     bind_result (trimmed_text raw) (\<lambda>sam2CoordinatesJson.
       if sam2CoordinatesJson = [] then Inr None
       else case JSON_parse eng sam2CoordinatesJson of
              None \<Rightarrow>
                Inl (NodeOperationError
                       ''SAM2 Coordinates must be valid JSON, e.g. [{\"x\":0.5,\"y\":0.5}]'' i)
            | Some (JArr points) \<Rightarrow>
                if points = []
                then Inl (NodeOperationError ''SAM2 Coordinates must be a non-empty JSON array.'' i)
                else bind_result (sam2_map eng i 0 points) (\<lambda>coords. Inr (Some coords))
            | Some _ \<Rightarrow>
                Inl (NodeOperationError ''SAM2 Coordinates must be a non-empty JSON array.'' i))"




record video_config =
  vd_modelId :: string
  vd_positivePrompt :: jsval
  vd_negativePrompt :: jsval
  vd_stylePrompt :: jsval
  vd_frames :: jsval
  vd_duration :: jsval
  vd_fps :: jsval
  vd_steps :: jsval
  vd_guidance :: jsval
  vd_shift :: jsval
  vd_teacacheThreshold :: jsval
  vd_numberOfMedia :: jsval
  vd_network :: jsval
  vd_tokenType :: jsval
  vd_outputFormat :: jsval
  vd_width :: jsval
  vd_height :: jsval
  vd_seed :: jsval
  vd_sampler :: jsval
  vd_scheduler :: jsval
  vd_referenceImage :: "buffer option"
  vd_referenceImageEnd :: "buffer option"
  vd_referenceAudio :: "buffer option"
  vd_referenceVideo :: "buffer option"
  vd_videoStart :: jsval
  vd_audioStart :: jsval
  vd_audioDuration :: jsval
  vd_trimEndFrame :: jsval
  vd_firstFrameStrength :: jsval
  vd_lastFrameStrength :: jsval
  vd_sam2Coordinates :: "(jsnum \<times> jsnum) list option"
  vd_autoResizeVideoAssets :: jsval
  vd_waitForCompletion :: bool
  vd_timeout :: jsval
  vd_controlNet :: "(jsval \<times> jsval) option"

text \<open>
  The \<^verbatim>\<open>videoProjectConfig\<close> of "video / generate", in the order of the source: the
  frame count, the four property names, the four bindings, the SAM2 coordinates, and
  then the object handed to \<^verbatim>\<open>client.createVideoProject\<close>. Nothing is submitted when
  a step throws.
\<close>

definition video_projectConfig ::
  "engine \<Rightarrow> binaries option \<Rightarrow> nat \<Rightarrow> string \<Rightarrow> jsval \<Rightarrow> jsval \<Rightarrow> jsval \<Rightarrow> thrown + video_config" where
  "video_projectConfig eng binary i videoModelId videoPositivePrompt videoNetwork videoAdditionalFields =
     (let videoAdditional = or_else videoAdditionalFields (JObj []);
          videoSettings = group videoAdditional ''videoSettings'';
          videoInputs = group videoAdditional ''inputs'';
          videoWorkflow = group videoAdditional ''workflowControls'';
          videoOutput = group videoAdditional ''output'';
          videoAdvanced = group videoAdditional ''advanced'';
          requestedFrames = coalesce (get_prop videoSettings ''frames'') (JNum (Fin 30))
      in bind_result (video_frames eng videoModelId requestedFrames) (\<lambda>frames.
         bind_result (trimmed_text (get_prop videoInputs ''referenceImageProperty'')) (\<lambda>referenceImageProperty.
         bind_result (trimmed_text (get_prop videoInputs ''referenceImageEndProperty'')) (\<lambda>referenceImageEndProperty.
         bind_result (trimmed_text (get_prop videoInputs ''referenceAudioProperty'')) (\<lambda>referenceAudioProperty.
         bind_result (trimmed_text (get_prop videoInputs ''referenceVideoProperty'')) (\<lambda>referenceVideoProperty.
         bind_result (readOptionalBinaryProperty binary i referenceImageProperty ''reference image'') (\<lambda>referenceImage.
         bind_result (readOptionalBinaryProperty binary i referenceImageEndProperty ''reference end image'') (\<lambda>referenceImageEnd.
         bind_result (readOptionalBinaryProperty binary i referenceAudioProperty ''reference audio'') (\<lambda>referenceAudio.
         bind_result (readOptionalBinaryProperty binary i referenceVideoProperty ''reference video'') (\<lambda>referenceVideo.
         bind_result (sam2_coordinates eng i (get_prop videoWorkflow ''sam2CoordinatesJson'')) (\<lambda>sam2Coordinates.
           Inr \<lparr>vd_modelId = videoModelId,
                vd_positivePrompt = videoPositivePrompt,
                vd_negativePrompt = coalesce (get_prop videoSettings ''negativePrompt'') (JStr []),
                vd_stylePrompt = coalesce (get_prop videoSettings ''stylePrompt'') (JStr []),
                vd_frames = frames,
                vd_duration = get_prop videoSettings ''duration'',
                vd_fps = coalesce (get_prop videoSettings ''fps'') (JNum (Fin 30)),
                vd_steps = coalesce (get_prop videoSettings ''steps'') (JNum (Fin 20)),
                vd_guidance = coalesce (get_prop videoSettings ''guidance'') (JNum (Fin (15 / 2))),
                vd_shift = get_prop videoSettings ''shift'',
                vd_teacacheThreshold = get_prop videoSettings ''teacacheThreshold'',
                vd_numberOfMedia = coalesce (get_prop videoSettings ''numberOfMedia'') (JNum (Fin 1)),
                vd_network = videoNetwork,
                vd_tokenType = coalesce (get_prop videoAdvanced ''tokenType'') (JStr ''spark''),
                vd_outputFormat = coalesce (get_prop videoOutput ''outputFormat'') (JStr ''mp4''),
                vd_width = coalesce (get_prop videoOutput ''width'') (JNum (Fin 512)),
                vd_height = coalesce (get_prop videoOutput ''height'') (JNum (Fin 512)),
                vd_seed = get_prop videoSettings ''seed'',
                vd_sampler = get_prop videoSettings ''sampler'',
                vd_scheduler = get_prop videoSettings ''scheduler'',
                vd_referenceImage = referenceImage,
                vd_referenceImageEnd = referenceImageEnd,
                vd_referenceAudio = referenceAudio,
                vd_referenceVideo = referenceVideo,
                vd_videoStart = get_prop videoWorkflow ''videoStart'',
                vd_audioStart = get_prop videoWorkflow ''audioStart'',
                vd_audioDuration = get_prop videoWorkflow ''audioDuration'',
                vd_trimEndFrame = coalesce (get_prop videoWorkflow ''trimEndFrame'') (JBool False),
                vd_firstFrameStrength = get_prop videoWorkflow ''firstFrameStrength'',
                vd_lastFrameStrength = get_prop videoWorkflow ''lastFrameStrength'',
                vd_sam2Coordinates = sam2Coordinates,
                vd_autoResizeVideoAssets =
                  coalesce (get_prop videoAdvanced ''autoResizeVideoAssets'') (JBool True),
                vd_waitForCompletion = True,
                vd_timeout = video_resolvedTimeoutMs (get_prop videoAdvanced ''timeout'') videoNetwork,
                vd_controlNet =
                  (if truthy (coalesce (get_prop videoWorkflow ''enableVideoControlNet'') (JBool False))
                   then Some (coalesce (get_prop videoWorkflow ''videoControlNetType'') (JStr ''canny''),
                              get_prop videoWorkflow ''videoControlNetStrength'')
                   else None)\<rparr>)))))))))))"

subsection \<open>Video cost estimate\<close>

text \<open>
  \<^verbatim>\<open>
  if (typeof framesInput === 'number' && !Number.isNaN(framesInput) && framesInput > 0)
    estimateParams.frames = framesInput;
  \<close>
\<close>

fun is_positive_number :: "jsval \<Rightarrow> bool" where
  "is_positive_number (JNum (Fin r)) = (r > 0)"
| "is_positive_number (JNum PosInf) = True"
| "is_positive_number _ = False"

definition estimate_frames :: "jsval \<Rightarrow> jsval option" where
  "estimate_frames framesInput = (if is_positive_number framesInput then Some framesInput else None)"

section \<open>Downloading the results\<close>

text \<open>
  \<^verbatim>\<open>sniffMimeType\<close> looks at the first bytes; \<^verbatim>\<open>toString('ascii')\<close> clears the high bit
  of each byte before the GIF signatures are compared.
\<close>

definition sniffMimeType :: "buffer \<Rightarrow> string option" where
  "sniffMimeType buf =
     (if length buf < 4 then None
      else if take 3 buf = [255, 216, 255] then Some ''image/jpeg''
      else if length buf \<ge> 8 \<and> take 8 buf = [137, 80, 78, 71, 13, 10, 26, 10] then Some ''image/png''
      else if length buf \<ge> 6 \<and>
              (map (\<lambda>b. b mod 128) (take 6 buf) = [71, 73, 70, 56, 55, 97] \<or>
               map (\<lambda>b. b mod 128) (take 6 buf) = [71, 73, 70, 56, 57, 97])
           then Some ''image/gif''
      else None)"

definition extensionFromMime :: "string \<Rightarrow> string" where
  "extensionFromMime mime =
     (if mime = ''image/jpeg'' then ''jpg''
      else if mime = ''image/png'' then ''png''
      else if mime = ''image/gif'' then ''gif''
      else ''bin'')"

record response =
  resp_ok :: bool
  resp_status :: nat
  resp_statusText :: string
  resp_arrayBuffer :: "thrown + buffer"
  resp_headers :: "(string \<times> string) list"

record artifact =
  art_data :: buffer
  art_fileName :: string
  art_mimeType :: string

text \<open>
  What the platform and the host provide to the download loop: \<^verbatim>\<open>fetch\<close> (asked for
  the URL at an index), the first group of the three regular expressions of
  \<^verbatim>\<open>parseContentDispositionFilename\<close>, \<^verbatim>\<open>decodeURIComponent\<close> (which throws on a
  malformed escape) and the host's \<^verbatim>\<open>prepareBinaryData\<close>.
\<close>

record host =
  fetch :: "nat \<Rightarrow> string \<Rightarrow> thrown + response"
  match_filename_star :: "string \<Rightarrow> string option"
  match_filename_quoted :: "string \<Rightarrow> string option"
  match_filename_plain :: "string \<Rightarrow> string option"
  decodeURIComponent :: "string \<Rightarrow> thrown + string"
  prepareBinaryData :: "buffer \<Rightarrow> string \<Rightarrow> string \<Rightarrow> thrown + artifact"

text \<open>\<^verbatim>\<open>a || d\<close> on an optional string: the empty string is falsy too.\<close>

definition or_default :: "string option \<Rightarrow> string \<Rightarrow> string" where
  "or_default a d = (case a of None \<Rightarrow> d | Some s \<Rightarrow> if s \<noteq> [] then s else d)"

definition or_option :: "string option \<Rightarrow> string option \<Rightarrow> string option" where
  "or_option a b = (case a of None \<Rightarrow> b | Some s \<Rightarrow> if s \<noteq> [] then a else b)"

definition parseContentDispositionFilename :: "host \<Rightarrow> string option \<Rightarrow> thrown + string option" where
  "parseContentDispositionFilename h header =
     (case header of
        None \<Rightarrow> Inr None
      | Some hdr \<Rightarrow>
          if hdr = [] then Inr None
          else case match_filename_star h hdr of
                 Some g \<Rightarrow> bind_result (decodeURIComponent h g) (\<lambda>name. Inr (Some name))
               | None \<Rightarrow>
                   (case or_option (match_filename_quoted h hdr) (match_filename_plain h hdr) of
                      Some g \<Rightarrow> Inr (Some (trim (filter (\<lambda>c. c \<noteq> CHR 0x22) g)))
                    | None \<Rightarrow> Inr None))"

text \<open>\<^verbatim>\<open>resp.headers.forEach((v, k) => { headers[k.toLowerCase()] = v; })\<close>\<close>

definition normalize_headers :: "(string \<times> string) list \<Rightarrow> (string \<rightharpoonup> string)" where
  "normalize_headers hs = fold (\<lambda>(k, v) m. m(toLowerCase k \<mapsto> v)) hs Map.empty"

definition image_slot :: "nat \<Rightarrow> string" where
  "image_slot imgIndex = (if imgIndex = 0 then ''image'' else ''image_'' @ decimal_of_nat imgIndex)"

definition video_slot :: "nat \<Rightarrow> string" where
  "video_slot vidIndex = (if vidIndex = 0 then ''video'' else ''video_'' @ decimal_of_nat vidIndex)"

text \<open>
  The body of the \<^verbatim>\<open>try\<close> for one image URL. \<open>fallback\<close> is \<^verbatim>\<open>'sogni'\<close> for
  generation and \<^verbatim>\<open>'sogni_edit'\<close> for an edit.
\<close>

definition download_image :: "host \<Rightarrow> string option \<Rightarrow> string \<Rightarrow> nat \<Rightarrow> string \<Rightarrow> thrown + artifact" where
  "download_image h projectId fallback imgIndex imageUrl =
     bind_result (fetch h imgIndex imageUrl) (\<lambda>resp.
       if \<not> resp_ok resp
       then Inl (JsError (''Failed to download image: '' @ decimal_of_nat (resp_status resp) @
                          '' '' @ resp_statusText resp))
       else bind_result (resp_arrayBuffer resp) (\<lambda>bodyBuffer.
         let headers = normalize_headers (resp_headers resp);
             headerCt = or_option (headers ''content-type'') (headers ''Content-Type'');
             mimeType = or_default (or_option headerCt (sniffMimeType bodyBuffer)) ''application/octet-stream'';
             headerCd = or_option (headers ''content-disposition'') (headers ''Content-Disposition'')
         in bind_result (parseContentDispositionFilename h headerCd) (\<lambda>cdFilename.
              let guessedExt = extensionFromMime mimeType;
                  defaultNameBase =
                    (case projectId of Some p \<Rightarrow> p | None \<Rightarrow> fallback) @ ''_'' @ decimal_of_nat imgIndex;
                  filename =
                    or_default cdFilename (defaultNameBase @ ''.'' @ or_default (Some guessedExt) ''bin'')
              in prepareBinaryData h bodyBuffer filename mimeType)))"

text \<open>
  The loop over \<^verbatim>\<open>r.imageUrls\<close>: a failure of the body is caught, written to the console
  with its index, and the loop goes on; a success stores the artifact under its slot.
  \<open>what\<close> is \<^verbatim>\<open>'image'\<close> or \<^verbatim>\<open>'edited image'\<close> in the console line.
\<close>

fun download_images_loop ::
  "host \<Rightarrow> string option \<Rightarrow> string \<Rightarrow> string \<Rightarrow> nat \<Rightarrow> string list
     \<Rightarrow> (string \<rightharpoonup> artifact) \<times> event list \<Rightarrow> (string \<rightharpoonup> artifact) \<times> event list" where
  "download_images_loop h projectId fallback what imgIndex [] st = st"
| "download_images_loop h projectId fallback what imgIndex (imageUrl # rest) (binary, console) =
     (case download_image h projectId fallback imgIndex imageUrl of
        Inr art \<Rightarrow>
          download_images_loop h projectId fallback what (Suc imgIndex) rest
            (binary(image_slot imgIndex \<mapsto> art), console)
      | Inl downloadError \<Rightarrow>
          download_images_loop h projectId fallback what (Suc imgIndex) rest
            (binary,
             console @ [ConsoleError (''Failed to download '' @ what @ '' '' @
                                      decimal_of_nat imgIndex @ '':'') downloadError]))"

text \<open>\<^verbatim>\<open>if (downloadImages !== false && r.imageUrls && r.imageUrls.length > 0)\<close>\<close>

definition download_images ::
  "host \<Rightarrow> jsval \<Rightarrow> string option \<Rightarrow> string \<Rightarrow> string \<Rightarrow> string list
     \<Rightarrow> (string \<rightharpoonup> artifact) \<times> event list" where
  "download_images h downloadImages projectId fallback what imageUrls =
     (if downloadImages \<noteq> JBool False \<and> imageUrls \<noteq> []
      then download_images_loop h projectId fallback what 0 imageUrls (Map.empty, [])
      else (Map.empty, []))"

text \<open>The same for videos; the type and the extension come from the output format.\<close>

definition download_video :: "host \<Rightarrow> string \<Rightarrow> string option \<Rightarrow> nat \<Rightarrow> string \<Rightarrow> thrown + artifact" where
  "download_video h outputFormat videoProjectId vidIndex videoUrl =
     bind_result (fetch h vidIndex videoUrl) (\<lambda>resp.
       if \<not> resp_ok resp
       then Inl (JsError (''Failed to download video: '' @ decimal_of_nat (resp_status resp) @
                          '' '' @ resp_statusText resp))
       else bind_result (resp_arrayBuffer resp) (\<lambda>bodyBuffer.
         let headers = normalize_headers (resp_headers resp);
             headerCt = or_option (headers ''content-type'') (headers ''Content-Type'');
             mimeType = or_default headerCt (''video/'' @ outputFormat);
             headerCd = or_option (headers ''content-disposition'') (headers ''Content-Disposition'')
         in bind_result (parseContentDispositionFilename h headerCd) (\<lambda>cdFilename.
              let defaultNameBase =
                    (case videoProjectId of Some p \<Rightarrow> p | None \<Rightarrow> ''sogni_video'') @ ''_'' @
                    decimal_of_nat vidIndex;
                  filename = or_default cdFilename (defaultNameBase @ ''.'' @ outputFormat)
              in prepareBinaryData h bodyBuffer filename mimeType)))"

fun download_videos_loop ::
  "host \<Rightarrow> string \<Rightarrow> string option \<Rightarrow> nat \<Rightarrow> string list
     \<Rightarrow> (string \<rightharpoonup> artifact) \<times> event list \<Rightarrow> (string \<rightharpoonup> artifact) \<times> event list" where
  "download_videos_loop h outputFormat videoProjectId vidIndex [] st = st"
| "download_videos_loop h outputFormat videoProjectId vidIndex (videoUrl # rest) (binary, console) =
     (case download_video h outputFormat videoProjectId vidIndex videoUrl of
        Inr art \<Rightarrow>
          download_videos_loop h outputFormat videoProjectId (Suc vidIndex) rest
            (binary(video_slot vidIndex \<mapsto> art), console)
      | Inl downloadError \<Rightarrow>
          download_videos_loop h outputFormat videoProjectId (Suc vidIndex) rest
            (binary,
             console @ [ConsoleError (''Failed to download video '' @ decimal_of_nat vidIndex @ '':'')
                          downloadError]))"

definition download_videos ::
  "host \<Rightarrow> jsval \<Rightarrow> string \<Rightarrow> string option \<Rightarrow> string list \<Rightarrow> (string \<rightharpoonup> artifact) \<times> event list" where
  "download_videos h downloadVideos outputFormat videoProjectId videoUrls =
     (if downloadVideos \<noteq> JBool False \<and> videoUrls \<noteq> []
      then download_videos_loop h outputFormat videoProjectId 0 videoUrls (Map.empty, [])
      else (Map.empty, []))"

section \<open>Inputs for the examples\<close>

definition png_bytes :: buffer where
  "png_bytes = [137, 80, 78, 71, 13, 10, 26, 10, 0, 0, 0, 13]"

text \<open>
  An engine that knows four JSON texts and the number of the empty string; it agrees with
  the language on every input the examples below give it.
\<close>

definition example_engine :: engine where
  "example_engine =
     \<lparr>JSON_parse = map_of
        [(''[{\"x\":null,\"y\":null}]'', JArr [JObj [(''x'', JNull), (''y'', JNull)]]),
         (''[{\"x\":0.5,\"y\":0.5}]'',
          JArr [JObj [(''x'', JNum (Fin (1 / 2))), (''y'', JNum (Fin (1 / 2)))]]),
         (''[{\"x\":0.5,\"y\":0.5},{\"x\":0.25}]'',
          JArr [JObj [(''x'', JNum (Fin (1 / 2))), (''y'', JNum (Fin (1 / 2)))],
                JObj [(''x'', JNum (Fin (1 / 4)))]]),
         (''{\"x\":0.5,\"y\":0.5}'',
          JObj [(''x'', JNum (Fin (1 / 2))), (''y'', JNum (Fin (1 / 2)))])],
      StringToNumber = (\<lambda>s. if s = [] then Fin 0 else NaN),
      ObjectToNumber = (\<lambda>v. Inr NaN)\<rparr>"

text \<open>
  A connected client whose graceful disconnect never settles and whose socket, found under
  \<^verbatim>\<open>client.client.ws\<close>, is open and throws from \<^verbatim>\<open>close\<close>; and the same client after
  the shutdown: disconnect rejects at once and the socket reports "closed".
\<close>

definition stuck_socket :: websocket where
  "stuck_socket =
     \<lparr>readyState = Inr (Some 1),
      ws_close = Present (Inl (JsError ''WebSocket was closed before the connection was established'')),
      ws_terminate = Present (Inr ()),
      ws_removeAllListeners = Present (Inr ())\<rparr>"

definition stuck_client :: client where
  "stuck_client =
     \<lparr>disconnect = Present (ReturnsPromise Hangs),
      socket = Nullish, ws = Nullish, websocket = Nullish,
      u_socket = Nullish, u_ws = Nullish, u_websocket = Nullish,
      client_client =
        Inr (Some \<lparr>inner_socket = Nullish, inner_ws = Handle stuck_socket, inner_websocket = Nullish\<rparr>)\<rparr>"

definition closed_client :: client where
  "closed_client =
     stuck_client
       \<lparr>disconnect := Present (ReturnsPromise (Settles 0 (Inl (JsError ''Not connected'')))),
        client_client :=
          Inr (Some \<lparr>inner_socket = Nullish,
                     inner_ws = Handle (stuck_socket\<lparr>readyState := Inr (Some 3)\<rparr>),
                     inner_websocket = Nullish\<rparr>)\<rparr>"

definition execute_context :: disconnect_context where
  "execute_context = \<lparr>label = ''execute'', appId = Some ''n8n-sogni-x'', timeoutMs = Some 5000\<rparr>"

text \<open>Three items; the work on the second one throws for want of its context image.\<close>

definition example_process :: "nat \<Rightarrow> nat list \<times> unit eff" where
  "example_process i =
     push_last
       (if i = 1
        then throws (NodeOperationError
                       ''No binary data found in property \"data\". Please provide a context image.'' 1)
        else returns i)"

text \<open>
  One item of "model / getAll" for which the service lists a model and then \<^verbatim>\<open>null\<close>.
\<close>

definition listed_model :: jsval where
  "listed_model =
     JObj [(''id'', JStr ''flux1-schnell-fp8''), (''name'', JStr ''Flux.1 Schnell''),
           (''workerCount'', JNum (Fin 12))]"

definition getAll_process :: "nat \<Rightarrow> jsval list \<times> unit eff" where
  "getAll_process i = getAll_work (returns [listed_model, JNull])"

text \<open>
  A client whose \<^verbatim>\<open>disconnect\<close> rejects with \<^verbatim>\<open>Object.create(null)\<close>, its socket open
  under \<^verbatim>\<open>client.client.ws\<close>.
\<close>

definition rude_client :: client where
  "rude_client = stuck_client\<lparr>disconnect := Present (ReturnsPromise (Settles 0 (Inl OpaqueValue)))\<rparr>"

text \<open>
  An item whose binary object holds one entry, \<^verbatim>\<open>data\<close>; handed a member of
  \<^verbatim>\<open>Object.prototype\<close>, the helper fails on the missing \<^verbatim>\<open>data\<close> field of what it
  is given.
\<close>

definition example_binaries :: "binaries option" where
  "example_binaries =
     Some \<lparr>own_entry = [''data'' \<mapsto> Inr png_bytes],
           read_inherited = (\<lambda>name.
             Inl (JsError ''The first argument must be of type string or an instance of Buffer, ArrayBuffer, or Array or an Array-like Object. Received undefined''))\<rparr>"

definition example_uuid :: string where
  "example_uuid = ''123e4567-e89b-42d3-a456-426614174000''"

text \<open>
  A host for the result URLs: the second request is answered 404, the fourth is rejected,
  the others deliver a PNG without headers.
\<close>

definition example_host :: host where
  "example_host =
     \<lparr>fetch = (\<lambda>k url.
        if k = 1
        then Inr \<lparr>resp_ok = False, resp_status = 404, resp_statusText = ''Not Found'',
                  resp_arrayBuffer = Inr [], resp_headers = []\<rparr>
        else if k = 3 then Inl (JsError ''fetch failed'')
        else Inr \<lparr>resp_ok = True, resp_status = 200, resp_statusText = ''OK'',
                  resp_arrayBuffer = Inr png_bytes, resp_headers = []\<rparr>),
      match_filename_star = (\<lambda>h. None),
      match_filename_quoted = (\<lambda>h. None),
      match_filename_plain = (\<lambda>h. None),
      decodeURIComponent = (\<lambda>s. Inr s),
      prepareBinaryData = (\<lambda>buf name mime.
        Inr \<lparr>art_data = buf, art_fileName = name, art_mimeType = mime\<rparr>)\<rparr>"

definition example_urls :: "string list" where
  "example_urls = [''https://cdn/one'', ''https://cdn/two'', ''https://cdn/three'']"

section \<open>Doubles\<close>

text \<open>\<open>binade x\<close> is the exponent of the binade of \<open>x\<close>.\<close>

lemma pos_quot:
  assumes "0 < (a::rat)" "quotient_of a = (p, q)"
  shows "0 < p" "0 < q" "a = of_int p / of_int q"
proof -
  show q: "0 < q" using assms(2) by (rule quotient_of_denom_pos)
  show a: "a = of_int p / of_int q" using assms(2) by (rule quotient_of_div)
  show "0 < p" using assms(1) q unfolding a by (simp add: zero_less_divide_iff)
qed

lemma bitlen_powi:
  assumes "0 < (n::int)"
  shows "2 powi (bitlen n - 1) \<le> (of_int n :: rat)" "(of_int n :: rat) < 2 powi (bitlen n)"
proof -
  from assms have b1: "1 \<le> bitlen n" by (auto simp: bitlen_alt_def)
  have lo: "2 ^ nat (bitlen n - 1) \<le> n" and hi: "n < 2 ^ nat (bitlen n)"
    using bitlen_bounds [OF assms] by auto
  have "(2::rat) powi (bitlen n - 1) = 2 ^ nat (bitlen n - 1)"
    using b1 by (simp add: power_int_def)
  also have "\<dots> = of_int (2 ^ nat (bitlen n - 1))" by simp
  also have "\<dots> \<le> of_int n" using lo by (simp only: of_int_le_iff)
  finally show "2 powi (bitlen n - 1) \<le> (of_int n :: rat)" .
  have "(of_int n :: rat) < of_int (2 ^ nat (bitlen n))" using hi by (simp only: of_int_less_iff)
  also have "\<dots> = 2 ^ nat (bitlen n)" by simp
  also have "\<dots> = 2 powi (bitlen n)" using b1 by (simp add: power_int_def)
  finally show "(of_int n :: rat) < 2 powi (bitlen n)" .
qed

lemma binade_bounds:
  assumes "x \<noteq> 0"
  shows "2 powi (binade x) \<le> \<bar>x\<bar>" "\<bar>x\<bar> < 2 powi (binade x + 1)"
proof -
  obtain p q where pq: "quotient_of \<bar>x\<bar> = (p, q)" by (cases "quotient_of \<bar>x\<bar>")
  from assms have pos: "0 < \<bar>x\<bar>" by simp
  note f = pos_quot [OF pos pq]
  define d where "d = bitlen p - bitlen q"
  have two: "(0::rat) < 2 powi k" for k by (simp add: zero_less_power_int)
  have qpos: "(0::rat) < of_int q" using f(2) by simp
  have up: "\<bar>x\<bar> < 2 powi (d + 1)"
  proof -
    have "of_int p < (2::rat) powi (bitlen p)" by (rule bitlen_powi(2) [OF f(1)])
    also have "\<dots> = 2 powi (d + 1) * 2 powi (bitlen q - 1)"
      by (simp add: d_def power_int_add [symmetric])
    also have "\<dots> \<le> 2 powi (d + 1) * of_int q"
      using bitlen_powi(1) [OF f(2)] two [of "d + 1"] by (simp add: mult_left_mono)
    finally have "of_int p / of_int q < (2::rat) powi (d + 1)"
      using qpos by (simp add: pos_divide_less_eq)
    then show ?thesis using f(3) by simp
  qed
  have lo: "2 powi (d - 1) < \<bar>x\<bar>"
  proof -
    have "(2::rat) powi (d - 1) * of_int q < 2 powi (d - 1) * 2 powi (bitlen q)"
      using bitlen_powi(2) [OF f(2)] two [of "d - 1"] by (simp add: mult_strict_left_mono)
    also have "\<dots> = 2 powi (bitlen p - 1)"
      by (simp add: d_def power_int_add [symmetric])
    also have "\<dots> \<le> of_int p" by (rule bitlen_powi(1) [OF f(1)])
    finally have "(2::rat) powi (d - 1) < of_int p / of_int q"
      using qpos by (simp add: pos_less_divide_eq)
    then show ?thesis using f(3) by simp
  qed
  have b: "binade x = (if 2 powi d \<le> \<bar>x\<bar> then d else d - 1)"
    by (simp add: binade_def pq d_def Let_def)
  show "2 powi (binade x) \<le> \<bar>x\<bar>" using lo by (simp add: b)
  show "\<bar>x\<bar> < 2 powi (binade x + 1)" using up by (simp add: b)
qed

lemma powi_less_D: "(2::rat) powi a < 2 powi b \<Longrightarrow> a < b"
proof (rule ccontr)
  assume lt: "(2::rat) powi a < 2 powi b" and "\<not> a < b"
  then have "b \<le> a" by simp
  then have "(2::rat) powi b \<le> 2 powi a" by (rule power_int_increasing) simp
  with lt show False by simp
qed

lemma binade_eq:
  assumes "2 powi e \<le> \<bar>x\<bar>" "\<bar>x\<bar> < 2 powi (e + 1)"
  shows "binade x = e"
proof -
  have "(0::rat) < 2 powi e" by (simp add: zero_less_power_int)
  then have "0 < \<bar>x\<bar>" using assms(1) by (rule less_le_trans)
  then have nz: "x \<noteq> 0" by simp
  note b = binade_bounds [OF nz]
  have "(2::rat) powi e < 2 powi (binade x + 1)" using assms(1) b(2) by simp
  then have 1: "e < binade x + 1" by (rule powi_less_D)
  have "(2::rat) powi (binade x) < 2 powi (e + 1)" using assms(2) b(1) by simp
  then have 2: "binade x < e + 1" by (rule powi_less_D)
  from 1 2 show ?thesis by simp
qed

lemma round_half_even_of_int [simp]: "round_half_even (of_int j) = j"
  by (simp add: round_half_even_def)

lemma to_double_exact:
  assumes x: "x = of_int m * 2 powi k" and m: "\<bar>m\<bar> < 2 ^ 53" and k: "- 1074 \<le> k"
    and fin: "\<bar>x\<bar> < 2 powi 1024"
  shows "to_double x = Fin x"
proof (cases "x = 0")
  case True
  then show ?thesis by (simp add: to_double_def)
next
  case False
  define e where "e = max (binade x) (- 1022)"
  have two: "(0::rat) < 2 powi j" for j by (simp add: zero_less_power_int)
  have "\<bar>x\<bar> = of_int \<bar>m\<bar> * 2 powi k" unfolding x using two [of k] by (simp add: abs_mult)
  also have "\<dots> < of_int (2 ^ 53) * 2 powi k"
    using m two [of k] by (intro mult_strict_right_mono) (simp_all only: of_int_less_iff)
  also have "\<dots> = 2 powi (k + 53)" by (simp add: power_int_add)
  finally have "\<bar>x\<bar> < 2 powi (k + 53)" .
  with binade_bounds(1) [OF False] have "(2::rat) powi (binade x) < 2 powi (k + 53)" by simp
  then have "binade x < k + 53" by (rule powi_less_D)
  with k have e: "0 \<le> k - e + 52" by (simp add: e_def)
  have "x / 2 powi (e - 52) = of_int m * (2 powi k / 2 powi (e - 52))" unfolding x by simp
  also have "2 powi k / 2 powi (e - 52) = (2::rat) powi (k - e + 52)"
  proof -
    have "2 powi k / 2 powi (e - 52) = (2::rat) powi (k - (e - 52))"
      by (simp add: power_int_diff)
    also have "\<dots> = 2 powi (k - e + 52)"
      by (rule arg_cong [where f = "\<lambda>j. 2 powi j"]) simp
    finally show ?thesis .
  qed
  also have "\<dots> = 2 ^ nat (k - e + 52)" using e by (simp add: power_int_def)
  finally have q: "x / 2 powi (e - 52) = of_int (m * 2 ^ nat (k - e + 52))" by simp
  have restored: "of_int (m * 2 ^ nat (k - e + 52)) * 2 powi (e - 52) = x"
    unfolding q [symmetric] using two [of "e - 52"] by simp
  have r: "of_int (round_half_even (x / 2 powi (e - 52))) * 2 powi (e - 52) = x"
    unfolding q round_half_even_of_int by (rule restored)
  have nb: "\<not> 2 powi 1024 \<le> \<bar>x\<bar>" using fin by (simp only: not_le)
  show ?thesis
    unfolding to_double_def Let_def e_def [symmetric] r by (simp only: False nb if_False)
qed

lemma below_overflow: "\<bar>x\<bar> < 2 ^ 64 \<Longrightarrow> \<bar>x :: rat\<bar> < 2 powi 1024"
proof -
  assume "\<bar>x\<bar> < 2 ^ 64"
  also have "(2::rat) ^ 64 = 2 powi 64" by simp
  also have "\<dots> \<le> 2 powi 1024" by (rule power_int_increasing) simp_all
  finally show ?thesis .
qed

lemma to_double_scaled:
  assumes "\<bar>m\<bar> < 2 ^ 53" "- 8 \<le> k" "k \<le> 8"
  shows "to_double (of_int m * 2 powi k) = Fin (of_int m * 2 powi k)"
proof (rule to_double_exact [OF refl assms(1)])
  show "- 1074 \<le> k" using assms(2) by simp
  have two: "(0::rat) < 2 powi j" for j by (simp add: zero_less_power_int)
  have "\<bar>of_int m * 2 powi k\<bar> = (of_int \<bar>m\<bar> :: rat) * 2 powi k"
    using two [of k] by (simp add: abs_mult)
  also have "\<dots> \<le> of_int \<bar>m\<bar> * 2 powi 8"
    using assms(3) by (intro mult_left_mono power_int_increasing) simp_all
  also have "\<dots> < of_int (2 ^ 53) * 2 powi 8"
    using assms(1) two [of 8] by (intro mult_strict_right_mono) (simp_all only: of_int_less_iff)
  also have "\<dots> < 2 ^ 64" by simp
  finally show "\<bar>of_int m * 2 powi k\<bar> < (2::rat) powi 1024" by (rule below_overflow)
qed

lemma to_double_int: "\<bar>n\<bar> < 2 ^ 53 \<Longrightarrow> to_double (of_int n) = Fin (of_int n)"
  using to_double_scaled [of n 0] by simp

lemma to_double_eighth: "\<bar>n\<bar> < 2 ^ 53 \<Longrightarrow> to_double (of_int n / 8) = Fin (of_int n / 8)"
  using to_double_scaled [of n "- 3"] by (simp add: power_int_minus_divide)

lemma to_double_times8: "\<bar>n\<bar> < 2 ^ 53 \<Longrightarrow> to_double (of_int n * 8) = Fin (of_int n * 8)"
  using to_double_scaled [of n 3] by simp

lemma math_round_frames: "math_round ((of_int f - 1) / 8) = (f + 3) div 8"
proof -
  have e: "(of_int f - 1) / 8 + 1 / 2 = (of_int (f + 3) :: rat) / of_int 8"
    by (simp add: field_simps)
  have "\<lfloor>(of_int (f + 3) :: rat) / of_int 8\<rfloor> = (f + 3) div 8"
    by (rule floor_divide_of_int_eq)
  then show ?thesis
    unfolding math_round_def e .
qed

lemma ltx2_frames_exact:
  assumes "0 < f" "f \<le> 2 ^ 53 - 4"
  shows "ltx2_frames_num (Fin (of_int f)) = Fin (of_int (max 9 (8 * ((f + 3) div 8) + 1)))"
proof -
  define k where "k = (f + 3) div 8"
  have a: "to_double (of_int f - 1) = Fin (of_int f - 1)"
    using to_double_int [of "f - 1"] assms by simp
  have b: "to_double ((of_int f - 1) / 8) = Fin ((of_int f - 1) / 8)"
    using to_double_eighth [of "f - 1"] assms by simp
  have "f \<le> 9007199254740988" using assms(2) by simp
  with assms(1) have "0 \<le> (f + 3) div 8" "(f + 3) div 8 < 1125899906842624" by presburger+
  then have kb: "0 \<le> k" "k < 2 ^ 50" unfolding k_def by simp_all
  have c: "to_double (of_int k * 8) = Fin (of_int k * 8)"
    using to_double_times8 [of k] kb by simp
  have d: "to_double (of_int k * 8 + 1) = Fin (of_int k * 8 + 1)"
    using to_double_int [of "k * 8 + 1"] kb by simp
  show ?thesis
    unfolding ltx2_frames_num_def js_sub_def
    by (simp add: a b c d math_round_frames k_def [symmetric] max_def)
qed

lemma to_double_tie: "to_double (2 ^ 53 + 1) = Fin (2 ^ 53)"
proof -
  have e: "binade (2 ^ 53 + 1) = 53" by (rule binade_eq) simp_all
  have half: "\<lfloor>(9007199254740993 :: rat) / 2\<rfloor> = 4503599627370496"
    using floor_divide_of_int_eq [of 9007199254740993 2, where ?'a = rat] by simp
  have r: "round_half_even (9007199254740993 / 2) = 4503599627370496"
    by (simp add: round_half_even_def Let_def half)
  have nb: "\<not> (2::rat) powi 1024 \<le> \<bar>2 ^ 53\<bar>" by simp
  show ?thesis
    unfolding to_double_def Let_def e by (simp add: r)
qed

lemma ltx2_frames_beyond: "ltx2_frames_num (Fin (2 ^ 53 - 3)) = Fin (2 ^ 53)"
proof -
  have a: "to_double (2 ^ 53 - 3 - 1) = Fin (2 ^ 53 - 4)"
    using to_double_int [of "2 ^ 53 - 4"] by simp
  have b: "to_double ((2 ^ 53 - 4) / 8) = Fin ((2 ^ 53 - 4) / 8)"
    using to_double_eighth [of "2 ^ 53 - 4"] by simp
  have r: "math_round (2251799813685247 / 2) = 1125899906842624"
    using math_round_frames [of 9007199254740989] by simp
  have c: "to_double (2 ^ 50 * 8) = Fin (2 ^ 53)"
    using to_double_times8 [of "2 ^ 50"] by simp
  show ?thesis
    unfolding ltx2_frames_num_def js_sub_def
    using a b c to_double_tie by (simp add: r)
qed

lemma round_half_even_le: "t \<le> of_int N \<Longrightarrow> round_half_even t \<le> N"
proof -
  assume le: "t \<le> of_int N"
  then have f: "\<lfloor>t\<rfloor> \<le> N" by (simp add: floor_le_iff)
  show ?thesis
  proof (cases "\<lfloor>t\<rfloor> = N")
    case True
    have "of_int \<lfloor>t\<rfloor> \<le> t" by simp
    with le True have "t - of_int \<lfloor>t\<rfloor> = 0" by simp
    then show ?thesis using True by (simp add: round_half_even_def Let_def)
  next
    case False
    with f have "\<lfloor>t\<rfloor> + 1 \<le> N" by simp
    then show ?thesis by (simp add: round_half_even_def Let_def)
  qed
qed

lemma to_double_nonpos:
  assumes "x \<le> 0"
  shows "at_most 0 (to_double x)"
proof (cases "x = 0")
  case True
  then show ?thesis by (simp add: to_double_def)
next
  case False
  define u :: rat where "u = 2 powi (max (binade x) (- 1022) - 52)"
  have u: "0 < u" by (simp add: u_def)
  have "x / u \<le> of_int 0" using assms u by (simp add: divide_le_0_iff)
  then have "round_half_even (x / u) \<le> 0" by (rule round_half_even_le)
  then have "of_int (round_half_even (x / u)) * u \<le> 0"
    using u by (simp add: mult_le_0_iff)
  then show ?thesis
    using False assms by (simp add: to_double_def Let_def u_def [symmetric])
qed

lemma to_double_at_most_one:
  assumes "x \<le> 1"
  shows "at_most 1 (to_double x)"
proof (cases "x \<le> 0")
  case True
  then have "at_most 0 (to_double x)" by (rule to_double_nonpos)
  then show ?thesis by (cases "to_double x") simp_all
next
  case False
  then have pos: "0 < x" by simp
  define e where "e = max (binade x) (- 1022)"
  define u :: rat where "u = 2 powi (e - 52)"
  have u: "0 < u" by (simp add: u_def)
  have "(2::rat) powi (binade x) \<le> \<bar>x\<bar>" using pos by (intro binade_bounds(1)) simp
  also have "\<bar>x\<bar> < 2 powi 1" using assms pos by simp
  finally have "binade x < 1" by (rule powi_less_D)
  then have e: "0 \<le> 52 - e" by (simp add: e_def)
  have "1 / u = 2 powi (52 - e)"
    unfolding u_def by (simp add: power_int_minus_divide [symmetric])
  also have "\<dots> = 2 ^ nat (52 - e)" using e by (simp add: power_int_def)
  finally have inv: "1 / u = of_int (2 ^ nat (52 - e))" by simp
  have "x / u \<le> 1 / u" using assms u by (simp add: divide_le_cancel)
  then have "round_half_even (x / u) \<le> 2 ^ nat (52 - e)"
    unfolding inv by (rule round_half_even_le)
  then have "of_int (round_half_even (x / u)) \<le> (of_int (2 ^ nat (52 - e)) :: rat)"
    by (simp only: of_int_le_iff)
  then have "of_int (round_half_even (x / u)) * u \<le> (1 / u) * u"
    unfolding inv using u by (intro mult_right_mono) simp_all
  then have r1: "of_int (round_half_even (x / u)) * u \<le> 1" using u by simp
  have "0 \<le> \<lfloor>x / u\<rfloor>" using pos u by simp
  then have "0 \<le> round_half_even (x / u)" by (simp add: round_half_even_def Let_def)
  then have r0: "0 \<le> of_int (round_half_even (x / u)) * u" using u by simp
  have "\<bar>of_int (round_half_even (x / u)) * u\<bar> < 2 ^ 64" using r0 r1 by simp
  then have "\<bar>of_int (round_half_even (x / u)) * u\<bar> < 2 powi 1024" by (rule below_overflow)
  then have nb: "\<not> 2 powi 1024 \<le> \<bar>of_int (round_half_even (x / u)) * u\<bar>"
    by (simp only: not_le)
  have "to_double x = Fin (of_int (round_half_even (x / u)) * u)"
    unfolding to_double_def Let_def e_def [symmetric] u_def [symmetric]
    using pos by (simp only: nb if_False) simp
  then show ?thesis using r1 by simp
qed

lemma ltx2_frames_nonpos:
  assumes "r \<le> 0"
  shows "ltx2_frames_num (Fin r) = Fin 9"
proof -
  define s1 where "s1 = js_sub (Fin r) (Fin 1)"
  define s2 where "s2 = js_div s1 (Fin 8)"
  define s3 where "s3 = js_round s2"
  define s4 where "s4 = js_mul s3 (Fin 8)"
  define s5 where "s5 = js_add s4 (Fin 1)"
  have 1: "at_most 0 s1"
    unfolding s1_def js_sub_def using assms by (simp add: to_double_nonpos)
  have 2: "at_most 0 s2"
    unfolding s2_def using 1 by (cases s1) (simp_all add: to_double_nonpos divide_le_0_iff)
  have 3: "at_most 0 s3"
    unfolding s3_def using 2 by (cases s2) (simp_all add: math_round_def floor_le_iff)
  have 4: "at_most 0 s4"
    unfolding s4_def using 3 by (cases s3) (simp_all add: to_double_nonpos mult_le_0_iff)
  have 5: "at_most 1 s5"
    unfolding s5_def using 4 by (cases s4) (simp_all add: to_double_at_most_one)
  have "js_max (Fin 9) s5 = Fin 9" using 5 by (cases s5) (simp_all add: max_def)
  then show ?thesis
    unfolding ltx2_frames_num_def s5_def s4_def s3_def s2_def s1_def .
qed

lemma ltx2_frames_int:
  assumes "f \<le> 2 ^ 53 - 4"
  shows "ltx2_frames_num (Fin (of_int f)) = Fin (of_int (max 9 (8 * ((f + 3) div 8) + 1)))"
proof (cases "0 < f")
  case True
  then show ?thesis using assms by (rule ltx2_frames_exact)
next
  case False
  then have "(of_int f :: rat) \<le> 0" by simp
  then have "ltx2_frames_num (Fin (of_int f)) = Fin 9" by (rule ltx2_frames_nonpos)
  moreover have "max 9 (8 * ((f + 3) div 8) + 1) = 9" using False by (simp add: max_def)
  ultimately show ?thesis by simp
qed

section \<open>The frame count of the LTX-2 family\<close>

lemma video_frames_ltx2:
  "isLtx2Model m \<Longrightarrow> f \<le> 2 ^ 53 - 4 \<Longrightarrow>
   video_frames eng m (JNum (Fin (of_int f))) =
     Inr (JNum (Fin (of_int (max 9 (8 * ((f + 3) div 8) + 1)))))"
  by (simp add: video_frames_def bind_result_def ltx2_frames_int)

lemma isLtx2Model_example: "isLtx2Model ''ltx2-19b''"
  by (simp add: isLtx2Model_def startsWith_def toLowerCase_def toLowerChar_def)

lemma isLtx2Model_ignores_case: "isLtx2Model ''LTX2-19b''"
  by code_simp

lemma not_isLtx2Model_example: "\<not> isLtx2Model ''wan_v2.2-14b-fp8_t2v''"
  by (simp add: isLtx2Model_def startsWith_def toLowerCase_def toLowerChar_def)

text \<open>\<open>ceil8n1 f\<close> is the least value \<open>8n+1\<close> that is not below \<open>f\<close>.\<close>

lemma ceil8n1_least:
  "f \<le> ceil8n1 f \<and> ceil8n1 f mod 8 = 1 \<and> (f \<le> 8 * n + 1 \<longrightarrow> ceil8n1 f \<le> 8 * n + 1)"
  unfolding ceil8n1_def by presburger

text \<open>
  Claim C9 says the frame count of an LTX-2 model is congruent to 1 modulo 8 for every
  integer. The node computes in doubles: from \<open>2^53 - 3\<close> requested frames on, the sum
  \<open>8n + 1\<close> is no double and is rounded to an even number. \<open>2^53 - 3\<close> is a double
  itself, and the node gives \<open>2^53\<close> for it.
\<close>

theorem ltx2_frames_leave_the_form:
  "isLtx2Model ''ltx2-19b''
   \<and> to_double (of_int (2 ^ 53 - 3)) = Fin (of_int (2 ^ 53 - 3))
   \<and> video_frames example_engine ''ltx2-19b'' (JNum (Fin (of_int (2 ^ 53 - 3))))
       = Inr (JNum (Fin (of_int (2 ^ 53))))
   \<and> (2 ^ 53 :: int) mod 8 = 0"
proof -
  have a: "to_double (of_int (2 ^ 53 - 3)) = Fin (of_int (2 ^ 53 - 3))"
    by (rule to_double_int) simp
  have b: "video_frames example_engine ''ltx2-19b'' (JNum (Fin (of_int (2 ^ 53 - 3))))
       = Inr (JNum (Fin (of_int (2 ^ 53))))"
    using ltx2_frames_beyond isLtx2Model_example by (simp add: video_frames_def bind_result_def)
  have c: "(2 ^ 53 :: int) mod 8 = 0" by simp
  show ?thesis by (intro conjI isLtx2Model_example a b c)
qed

text \<open>
  Claim C9, as amended. For every integer frame count up to \<open>2^53 - 4\<close>, zero and the
  negative ones included, the frame count the node computes for a model of the LTX-2
  family is at least 9 and congruent to 1 modulo 8.
\<close>

theorem ltx2_frames_floor_and_residue:
  assumes "isLtx2Model videoModelId" and "f \<le> 2 ^ 53 - 4"
  shows "\<exists>q. video_frames eng videoModelId (JNum (Fin (of_int f))) = Inr (JNum (Fin (of_int q)))
           \<and> 9 \<le> q \<and> q mod 8 = 1"
proof -
  let ?q = "max 9 (8 * ((f + 3) div 8) + 1)"
  have "9 \<le> ?q" by simp
  moreover have "?q mod 8 = 1" by (simp add: max_def)
  ultimately show ?thesis using video_frames_ltx2 [OF assms] by blast
qed

theorem ltx2_frames_floor_and_residue_witness:
  "isLtx2Model ''ltx2-19b'' \<and> (- 20 :: int) \<le> 2 ^ 53 - 4
   \<and> (\<exists>q. video_frames example_engine ''ltx2-19b'' (JNum (Fin (of_int (- 20)))) =
           Inr (JNum (Fin (of_int q)))
       \<and> 9 \<le> q \<and> q mod 8 = 1)
   \<and> (2 ^ 53 - 4 :: int) \<le> 2 ^ 53 - 4
   \<and> (\<exists>q. video_frames example_engine ''ltx2-19b'' (JNum (Fin (of_int (2 ^ 53 - 4)))) =
           Inr (JNum (Fin (of_int q)))
       \<and> 9 \<le> q \<and> q mod 8 = 1)"
proof -
  have low: "(- 20 :: int) \<le> 2 ^ 53 - 4" by simp
  have top: "(2 ^ 53 - 4 :: int) \<le> 2 ^ 53 - 4" by simp
  note a = ltx2_frames_floor_and_residue [OF isLtx2Model_example low, of example_engine]
  note b = ltx2_frames_floor_and_residue [OF isLtx2Model_example top, of example_engine]
  show ?thesis by (intro conjI isLtx2Model_example low a top b)
qed

text \<open>
  Claim C4 says the frame count of an LTX-2 model is rounded up, so that it is never below
  the requested one. The node rounds to the nearest value \<open>8n+1\<close>: 27 requested frames
  become 25.
\<close>

theorem ltx2_frames_not_rounded_up:
  "video_frames example_engine ''ltx2-19b'' (JNum (Fin 27)) = Inr (JNum (Fin 25))
   \<and> (25 :: rat) < 27"
  using video_frames_ltx2 [OF isLtx2Model_example, of 27 example_engine] by simp

text \<open>
  Claim C4, as amended. For every integer \<open>f\<close> up to \<open>2^53 - 4\<close> and every LTX-2 model
  the resolved frame count is \<open>f\<close> rounded to the nearest value \<open>8n+1\<close>, a tie going up,
  and raised to 9: it has the form \<open>8n+1\<close>, is at least 9, is at most the larger of 9
  and the least \<open>8n+1\<close> not below \<open>f\<close>, is within 4 of \<open>f\<close> when \<open>f\<close> is at least 5, is
  \<open>f + 4\<close> when \<open>f\<close> lies midway between two values of the form, is 9 up to 12, and is
  \<open>f\<close> itself when \<open>f\<close> already has the form and is at least 9. Outside the family the
  requested value is passed through.
\<close>

theorem ltx2_frames_nearest:
  "(isLtx2Model videoModelId \<and> f \<le> 2 ^ 53 - 4 \<longrightarrow>
      (\<exists>q. video_frames eng videoModelId (JNum (Fin (of_int f))) = Inr (JNum (Fin (of_int q)))
          \<and> q mod 8 = 1 \<and> 9 \<le> q \<and> q \<le> max 9 (ceil8n1 f)
          \<and> (5 \<le> f \<longrightarrow> \<bar>q - f\<bar> \<le> 4)
          \<and> (5 \<le> f \<and> f mod 8 = 5 \<longrightarrow> q = f + 4)
          \<and> (f \<le> 12 \<longrightarrow> q = 9)
          \<and> (9 \<le> f \<and> f mod 8 = 1 \<longrightarrow> q = f)))
   \<and> (\<not> isLtx2Model videoModelId \<longrightarrow>
        video_frames eng videoModelId requestedFrames = Inr requestedFrames)"
proof (intro conjI impI)
  assume h: "isLtx2Model videoModelId \<and> f \<le> 2 ^ 53 - 4"
  let ?q = "max 9 (8 * ((f + 3) div 8) + 1)"
  have 1: "?q mod 8 = 1" by (simp add: max_def)
  have 2: "9 \<le> ?q" by simp
  have 3: "?q \<le> max 9 (ceil8n1 f)" unfolding ceil8n1_def by (simp add: max_def) presburger
  have 4: "5 \<le> f \<longrightarrow> \<bar>?q - f\<bar> \<le> 4" by (simp add: max_def) presburger
  have 5: "5 \<le> f \<and> f mod 8 = 5 \<longrightarrow> ?q = f + 4" by (simp add: max_def) presburger
  have 6: "f \<le> 12 \<longrightarrow> ?q = 9" by (simp add: max_def) presburger
  have 7: "9 \<le> f \<and> f mod 8 = 1 \<longrightarrow> ?q = f" by (simp add: max_def) presburger
  have v: "video_frames eng videoModelId (JNum (Fin (of_int f))) = Inr (JNum (Fin (of_int ?q)))"
    using h by (intro video_frames_ltx2) simp_all
  show "\<exists>q. video_frames eng videoModelId (JNum (Fin (of_int f))) = Inr (JNum (Fin (of_int q)))
          \<and> q mod 8 = 1 \<and> 9 \<le> q \<and> q \<le> max 9 (ceil8n1 f)
          \<and> (5 \<le> f \<longrightarrow> \<bar>q - f\<bar> \<le> 4)
          \<and> (5 \<le> f \<and> f mod 8 = 5 \<longrightarrow> q = f + 4)
          \<and> (f \<le> 12 \<longrightarrow> q = 9)
          \<and> (9 \<le> f \<and> f mod 8 = 1 \<longrightarrow> q = f)"
    using v 1 2 3 4 5 6 7 by blast
next
  assume "\<not> isLtx2Model videoModelId"
  then show "video_frames eng videoModelId requestedFrames = Inr requestedFrames"
    by (simp add: video_frames_def)
qed

theorem ltx2_frames_nearest_witness:
  "isLtx2Model ''ltx2-19b'' \<and> (30 :: int) \<le> 2 ^ 53 - 4 \<and> (5::int) \<le> 30
   \<and> video_frames example_engine ''ltx2-19b'' (JNum (Fin 30)) = Inr (JNum (Fin 33))
   \<and> (9::int) \<le> 33 \<and> (33::int) mod 8 = 1
   \<and> video_frames example_engine ''ltx2-19b'' (JNum (Fin 33)) = Inr (JNum (Fin 33))
   \<and> (5::int) \<le> 13 \<and> (13::int) mod 8 = 5
   \<and> video_frames example_engine ''ltx2-19b'' (JNum (Fin 13)) = Inr (JNum (Fin 17))
   \<and> (12::int) \<le> 12
   \<and> video_frames example_engine ''ltx2-19b'' (JNum (Fin 12)) = Inr (JNum (Fin 9))
   \<and> \<not> isLtx2Model ''wan_v2.2-14b-fp8_t2v''
   \<and> video_frames example_engine ''wan_v2.2-14b-fp8_t2v'' (JNum (Fin 30)) = Inr (JNum (Fin 30))"
proof -
  have in_range: "isLtx2Model ''ltx2-19b'' \<and> (30 :: int) \<le> 2 ^ 53 - 4"
    "isLtx2Model ''ltx2-19b'' \<and> (33 :: int) \<le> 2 ^ 53 - 4"
    "isLtx2Model ''ltx2-19b'' \<and> (13 :: int) \<le> 2 ^ 53 - 4"
    "isLtx2Model ''ltx2-19b'' \<and> (12 :: int) \<le> 2 ^ 53 - 4"
    using isLtx2Model_example by simp_all
  from ltx2_frames_nearest [of "''ltx2-19b''" 30 example_engine JNull, THEN conjunct1, THEN mp,
         OF in_range(1)]
  obtain q :: int where q:
    "video_frames example_engine ''ltx2-19b'' (JNum (Fin (of_int 30))) = Inr (JNum (Fin (of_int q)))"
    "q mod 8 = 1" "9 \<le> q" "q \<le> max 9 (ceil8n1 30)" "\<bar>q - 30\<bar> \<le> 4"
    by auto
  have "ceil8n1 30 = 33" by (simp add: ceil8n1_def)
  with q have "q = 33" by presburger
  with q(1) have a: "video_frames example_engine ''ltx2-19b'' (JNum (Fin 30)) = Inr (JNum (Fin 33))"
    by simp
  from ltx2_frames_nearest [of "''ltx2-19b''" 33 example_engine JNull, THEN conjunct1, THEN mp,
         OF in_range(2)]
  obtain r :: int where r:
    "video_frames example_engine ''ltx2-19b'' (JNum (Fin (of_int 33))) = Inr (JNum (Fin (of_int r)))"
    "r = 33"
    by auto
  then have k: "video_frames example_engine ''ltx2-19b'' (JNum (Fin 33)) = Inr (JNum (Fin 33))"
    by simp
  from ltx2_frames_nearest [of "''ltx2-19b''" 13 example_engine JNull, THEN conjunct1, THEN mp,
         OF in_range(3)]
  obtain s :: int where s:
    "video_frames example_engine ''ltx2-19b'' (JNum (Fin (of_int 13))) = Inr (JNum (Fin (of_int s)))"
    "s = 13 + 4"
    by auto
  then have tie: "video_frames example_engine ''ltx2-19b'' (JNum (Fin 13)) = Inr (JNum (Fin 17))"
    by simp
  from ltx2_frames_nearest [of "''ltx2-19b''" 12 example_engine JNull, THEN conjunct1, THEN mp,
         OF in_range(4)]
  obtain u :: int where u:
    "video_frames example_engine ''ltx2-19b'' (JNum (Fin (of_int 12))) = Inr (JNum (Fin (of_int u)))"
    "u = 9"
    by auto
  then have low: "video_frames example_engine ''ltx2-19b'' (JNum (Fin 12)) = Inr (JNum (Fin 9))"
    by simp
  from ltx2_frames_nearest [of "''wan_v2.2-14b-fp8_t2v''" 0 example_engine "JNum (Fin 30)"]
    not_isLtx2Model_example
  have b: "video_frames example_engine ''wan_v2.2-14b-fp8_t2v'' (JNum (Fin 30)) = Inr (JNum (Fin 30))"
    by simp
  show ?thesis using a k tie low b isLtx2Model_example not_isLtx2Model_example by simp
qed

section \<open>Effects: what the combinators give\<close>

lemma outcome_returns [simp]: "outcome (returns a) = Inr a"
  and elapsed_returns [simp]: "elapsed (returns a) = 0"
  and events_returns [simp]: "events (returns a) = []"
  by (simp_all add: outcome_def elapsed_def events_def returns_def)

lemma outcome_throws [simp]: "outcome (throws e) = Inl e"
  and elapsed_throws [simp]: "elapsed (throws e) = 0"
  and events_throws [simp]: "events (throws e) = []"
  by (simp_all add: outcome_def elapsed_def events_def throws_def)

lemma outcome_emit [simp]: "outcome (emit ev) = Inr ()"
  and elapsed_emit [simp]: "elapsed (emit ev) = 0"
  and events_emit [simp]: "events (emit ev) = [ev]"
  by (simp_all add: outcome_def elapsed_def events_def emit_def)

lemma eff_triple [simp]: "outcome (r, t, evs) = r" "elapsed (r, t, evs) = t" "events (r, t, evs) = evs"
  by (simp_all add: outcome_def elapsed_def events_def)

lemma outcome_debugLogAppId [simp]: "outcome (debugLogAppId env_var msg) = Inr ()"
  and elapsed_debugLogAppId [simp]: "elapsed (debugLogAppId env_var msg) = 0"
  by (simp_all add: debugLogAppId_def)

lemma transport_debugLogAppId [simp]: "filter is_transport_call (events (debugLogAppId env_var msg)) = []"
  by (simp add: debugLogAppId_def)

lemma outcome_and_then:
  "outcome (and_then m f) = (case outcome m of Inl e \<Rightarrow> Inl e | Inr a \<Rightarrow> outcome (f a))"
  by (simp add: and_then_def split: sum.splits)

lemma elapsed_and_then:
  "elapsed (and_then m f) = (case outcome m of Inl e \<Rightarrow> elapsed m | Inr a \<Rightarrow> elapsed m + elapsed (f a))"
  by (simp add: and_then_def split: sum.splits)

lemma events_and_then:
  "events (and_then m f) = (case outcome m of Inl e \<Rightarrow> events m | Inr a \<Rightarrow> events m @ events (f a))"
  by (simp add: and_then_def split: sum.splits)

lemma outcome_try_catch:
  "outcome (try_catch m h) = (case outcome m of Inl e \<Rightarrow> outcome (h e) | Inr a \<Rightarrow> Inr a)"
  by (simp add: try_catch_def split: sum.splits)

lemma elapsed_try_catch:
  "elapsed (try_catch m h) = (case outcome m of Inl e \<Rightarrow> elapsed m + elapsed (h e) | Inr a \<Rightarrow> elapsed m)"
  by (simp add: try_catch_def split: sum.splits)

lemma events_try_catch:
  "events (try_catch m h) = (case outcome m of Inl e \<Rightarrow> events m @ events (h e) | Inr a \<Rightarrow> events m)"
  by (simp add: try_catch_def split: sum.splits)

lemmas eff_simps = outcome_and_then elapsed_and_then events_and_then
  outcome_try_catch elapsed_try_catch events_try_catch

section \<open>Session shutdown\<close>

lemma timer_delay_bound: "0 < t \<Longrightarrow> 1 \<le> timer_delay t \<and> timer_delay t \<le> t"
  by (simp add: timer_delay_def)

lemma promiseWithTimeout_bound:
  "0 < t \<Longrightarrow> 0 \<le> elapsed (promiseWithTimeout p t l) \<and> elapsed (promiseWithTimeout p t l) \<le> t"
  using timer_delay_bound [of t]
  by (cases p) (simp_all add: promiseWithTimeout_def Let_def)

text \<open>
  The race: a promise that settles by the time the timer is due decides the outcome, at
  the moment it settles; one that settles later, or never, is given up when the timer
  fires.
\<close>

lemma promiseWithTimeout_race:
  "int d \<le> timer_delay t \<Longrightarrow> promiseWithTimeout (Settles d r) t l = (r, int d, [])"
  "timer_delay t < int d \<Longrightarrow>
     promiseWithTimeout (Settles d r) t l
       = (Inl (JsError (l @ '' timed out after '' @ decimal_of_int t @ ''ms'')), timer_delay t, [])"
  "promiseWithTimeout Hangs t l
     = (Inl (JsError (l @ '' timed out after '' @ decimal_of_int t @ ''ms'')), timer_delay t, [])"
  by (simp_all add: promiseWithTimeout_def Let_def)

lemma graceful_disconnect_bound:
  assumes "0 < t"
  shows "0 \<le> elapsed (graceful_disconnect env_var c t tag) \<and> elapsed (graceful_disconnect env_var c t tag) \<le> t"
proof (cases "disconnect c")
  case Missing
  then show ?thesis using assms by (simp add: graceful_disconnect_def)
next
  case (GetterThrows e)
  then show ?thesis using assms by (simp add: graceful_disconnect_def)
next
  case (Present call)
  show ?thesis
  proof (cases call)
    case (ThrowsSync e)
    with Present show ?thesis using assms by (simp add: graceful_disconnect_def eff_simps)
  next
    case (ReturnsPromise p)
    with Present show ?thesis
      using promiseWithTimeout_bound [OF assms, of p "''disconnect ('' @ tag @ '')''"]
      by (simp add: graceful_disconnect_def eff_simps split: sum.splits)
  qed
qed

lemma outcome_ignoring [simp]: "outcome (ignoring m) = Inr ()"
  by (simp add: ignoring_def eff_simps split: sum.splits)

lemma elapsed_call_if_function [simp]: "elapsed (call_if_function m ev) = 0"
  by (cases m) (simp_all add: call_if_function_def eff_simps)

lemma elapsed_ignoring_call [simp]: "elapsed (ignoring (call_if_function m ev)) = 0"
  by (simp add: ignoring_def eff_simps split: sum.splits)

lemma elapsed_hard_close [simp]: "elapsed (hard_close env_var c tag) = 0"
  by (simp add: hard_close_def eff_simps split: probe.splits sum.splits)

lemma effective_timeout_pos: "0 < effective_timeout ctx"
  by (simp add: effective_timeout_def split: option.splits)

lemma elapsed_log_failure [simp]: "elapsed (log_failure env_var prefix err) = 0"
  by (simp add: log_failure_def split: sum.splits)

lemma outcome_log_failure:
  "outcome (log_failure env_var prefix err)
     = (case describe_err err of Inl e \<Rightarrow> Inl e | Inr description \<Rightarrow> Inr ())"
  by (simp add: log_failure_def split: sum.splits)

text \<open>
  \<^verbatim>\<open>safeDisconnect\<close> never awaits longer than its timeout, and what it throws, when it
  throws, is what the rendering of a caught value threw.
\<close>

lemma safeDisconnect_bound:
  "0 \<le> elapsed (safeDisconnect env_var cl ctx) \<and> elapsed (safeDisconnect env_var cl ctx) \<le> effective_timeout ctx"
proof (cases cl)
  case None
  then show ?thesis using effective_timeout_pos [of ctx] by (simp add: safeDisconnect_def)
next
  case (Some c)
  note t = effective_timeout_pos [of ctx]
  from graceful_disconnect_bound [OF t, of env_var c "context_tag ctx"] Some
  show ?thesis
    by (simp add: safeDisconnect_def Let_def eff_simps split: sum.splits)
qed

lemma safeDisconnect_throws_only_from_a_handler:
  "outcome (safeDisconnect env_var cl ctx) = Inl e' \<Longrightarrow> \<exists>e. describe_err e = Inl e'"
  by (cases cl)
    (auto simp add: safeDisconnect_def Let_def eff_simps outcome_log_failure split: sum.splits)

lemma probe_stuck_client: "probe_socket stuck_client = Handle stuck_socket"
  by (simp add: probe_socket_def stuck_client_def inner_probe_def)

lemma probe_closed_client:
  "probe_socket closed_client = Handle (stuck_socket\<lparr>readyState := Inr (Some 3)\<rparr>)"
  by (simp add: probe_socket_def closed_client_def stuck_client_def inner_probe_def)

lemma probe_rude_client: "probe_socket rude_client = Handle stuck_socket"
  by (simp add: probe_socket_def rude_client_def stuck_client_def inner_probe_def)

text \<open>The three example clients, with the debug log off.\<close>

lemma debugLogAppId_off [simp]: "debugLogAppId [] msg = returns ()"
  by (simp add: debugLogAppId_def isAppIdDebugEnabled_def trim_def toLowerCase_def)

lemmas shutdown_defs =
  safeDisconnect_def Let_def effective_timeout_def graceful_disconnect_def hard_close_def
  probe_socket_def inner_probe_def promiseWithTimeout_def timer_delay_def log_failure_def
  ignoring_def call_if_function_def and_then_def try_catch_def returns_def throws_def emit_def
  outcome_def elapsed_def events_def

lemma safeDisconnect_stuck_client:
  "safeDisconnect [] (Some stuck_client) \<lparr>label = l, appId = a, timeoutMs = Some 5000\<rparr>
     = (Inr (), 5000, [CallDisconnect, CallClose, CallTerminate, CallRemoveAllListeners])"
  by (simp add: stuck_client_def stuck_socket_def shutdown_defs)

lemma safeDisconnect_closed_client:
  "0 < t \<Longrightarrow>
   safeDisconnect [] (Some closed_client) \<lparr>label = l, appId = a, timeoutMs = Some t\<rparr>
     = (Inr (), 0, [CallDisconnect, CallRemoveAllListeners])"
  by (simp add: closed_client_def stuck_client_def stuck_socket_def shutdown_defs)

lemma safeDisconnect_rude_client:
  "0 < t \<Longrightarrow>
   safeDisconnect [] (Some rude_client) \<lparr>label = l, appId = a, timeoutMs = Some t\<rparr>
     = (Inl (JsError ''Cannot convert object to primitive value''), 0, [CallDisconnect])"
  by (simp add: rude_client_def stuck_client_def stuck_socket_def shutdown_defs)

text \<open>
  Claim C1 says \<^verbatim>\<open>safeDisconnect\<close> never throws, whatever the wrapper does. Both of its
  \<^verbatim>\<open>catch\<close> blocks build a line from the caught value before they log it, and nothing
  guards that step. A \<^verbatim>\<open>disconnect\<close> that rejects with \<^verbatim>\<open>Object.create(null)\<close> makes the
  first handler throw a \<^verbatim>\<open>TypeError\<close>: \<^verbatim>\<open>safeDisconnect\<close> rejects with it, and the open
  socket found under \<^verbatim>\<open>client.client.ws\<close> receives none of \<^verbatim>\<open>close\<close>, \<^verbatim>\<open>terminate\<close>,
  \<^verbatim>\<open>removeAllListeners\<close>. The second handler throws in the same way, for instance on an
  \<^verbatim>\<open>Error\<close> whose message is a \<^verbatim>\<open>Symbol\<close>. The same wrapper rejecting with an ordinary
  \<^verbatim>\<open>Error\<close>, or never settling, is shut down as the claim says.
\<close>

theorem safeDisconnect_throws_on_an_unprintable_rejection:
  "disconnect rude_client = Present (ReturnsPromise (Settles 0 (Inl OpaqueValue)))
   \<and> probe_socket rude_client = Handle stuck_socket
   \<and> readyState stuck_socket = Inr (Some 1)
   \<and> outcome (safeDisconnect [] (Some rude_client) execute_context)
       = Inl (JsError ''Cannot convert object to primitive value'')
   \<and> events (safeDisconnect [] (Some rude_client) execute_context) = [CallDisconnect]
   \<and> transport_calls (safeDisconnect [] (Some rude_client) execute_context) = []
   \<and> outcome (log_failure [] ''disconnect:hard-close error (execute) '' (OpaqueError None))
       = Inl (JsError ''Cannot convert a Symbol value to a string'')
   \<and> disconnect closed_client = Present (ReturnsPromise (Settles 0 (Inl (JsError ''Not connected''))))
   \<and> outcome (safeDisconnect [] (Some closed_client) execute_context) = Inr ()
   \<and> outcome (safeDisconnect [] (Some stuck_client) execute_context) = Inr ()
   \<and> elapsed (safeDisconnect [] (Some stuck_client) execute_context) = 5000
   \<and> transport_calls (safeDisconnect [] (Some stuck_client) execute_context)
       = [CallClose, CallTerminate, CallRemoveAllListeners]"
  by (simp add: execute_context_def safeDisconnect_rude_client safeDisconnect_closed_client
      safeDisconnect_stuck_client probe_rude_client transport_calls_def outcome_log_failure)
    (simp add: rude_client_def closed_client_def stuck_client_def stuck_socket_def)

section \<open>The item loop\<close>

lemma after_simps [simp]:
  "outcome (after m k) = outcome k"
  "elapsed (after m k) = elapsed m + elapsed k"
  "events (after m k) = events m @ events k"
  by (simp_all add: after_def)

text \<open>What item \<open>i\<close> contributes to the returned records under continue-on-fail.\<close>

lemma item_loop_continue:
  assumes "\<forall>i \<in> set idxs. \<forall>e. outcome (snd (process i)) = Inl e \<longrightarrow> (\<exists>m. error_message e = Inr m)"
  shows "outcome (item_loop True process idxs returnData) =
     Inr (returnData @ concat (map (\<lambda>i. map Result (fst (process i)) @
                                        (case outcome (snd (process i)) of
                                           Inr ended \<Rightarrow> []
                                         | Inl e \<Rightarrow> (case error_message e of
                                                       Inr m \<Rightarrow> [ErrorRecord m]
                                                     | Inl e' \<Rightarrow> []))) idxs))"
  using assms
proof (induction idxs arbitrary: returnData)
  case Nil
  show ?case by simp
next
  case (Cons i rest)
  then have rest: "\<forall>i \<in> set rest. \<forall>e. outcome (snd (process i)) = Inl e \<longrightarrow> (\<exists>m. error_message e = Inr m)"
    by simp
  show ?case
  proof (cases "outcome (snd (process i))")
    case (Inr ended)
    then show ?thesis by (simp add: Let_def Cons.IH [OF rest])
  next
    case (Inl e)
    with Cons.prems obtain m where m: "error_message e = Inr m" by auto
    with Inl show ?thesis by (simp add: Let_def Cons.IH [OF rest])
  qed
qed

lemma item_loop_abort_value:
  assumes "outcome (snd (process k)) = Inl e"
    and "\<forall>j \<in> set pre. outcome (snd (process j)) = Inr ()"
  shows "item_loop False process (pre @ k # post) returnData
           = (Inl e, sum_list (map (\<lambda>i. elapsed (snd (process i))) (pre @ [k])),
              concat (map (\<lambda>i. events (snd (process i))) (pre @ [k])))"
  using assms(2)
proof (induction pre arbitrary: returnData)
  case Nil
  show ?case using assms(1) by (simp add: Let_def)
next
  case (Cons j pre)
  then have p: "outcome (snd (process j)) = Inr ()" by simp
  from Cons have ih: "item_loop False process (pre @ k # post) (returnData @ map Result (fst (process j)))
           = (Inl e, sum_list (map (\<lambda>i. elapsed (snd (process i))) (pre @ [k])),
              concat (map (\<lambda>i. events (snd (process i))) (pre @ [k])))"
    by simp
  show ?case using p by (simp add: Let_def after_def ih)
qed

lemma item_loop_abort:
  assumes "outcome (snd (process k)) = Inl e"
    and "\<forall>j \<in> set pre. outcome (snd (process j)) = Inr ()"
  shows "outcome (item_loop False process (pre @ k # post) returnData) = Inl e"
    and "item_loop False process (pre @ k # post) returnData
           = item_loop False process (pre @ [k]) returnData"
proof -
  note v = item_loop_abort_value [OF assms]
  show "outcome (item_loop False process (pre @ k # post) returnData) = Inl e"
    by (simp add: v)
  show "item_loop False process (pre @ k # post) returnData
           = item_loop False process (pre @ [k]) returnData"
    by (simp add: v [of post] v [of "[]"])
qed

lemma upt_split:
  assumes "k < n"
  shows "[0..<n] = [0..<k] @ k # [Suc k..<n]"
proof -
  have "[0..<n] = [0..<k] @ [k..<n]"
    using assms upt_add_eq_append [of 0 k "n - k"] by simp
  also have "[k..<n] = k # [Suc k..<n]"
    using assms by (rule upt_conv_Cons)
  finally show ?thesis .
qed

text \<open>
  The outcome of \<^verbatim>\<open>execute\<close>: what \<^verbatim>\<open>safeDisconnect\<close> throws in \<^verbatim>\<open>finally\<close>, and
  otherwise the outcome of the loop.
\<close>

lemma outcome_execute:
  "outcome (execute env_var node_name cof cred uuid c process n)
     = (case outcome (safeDisconnect env_var (Some c)
                        \<lparr>label = ''execute'', appId = Some (execute_appId cred uuid),
                           timeoutMs = Some 5000\<rparr>) of
          Inl e \<Rightarrow> Inl e
        | Inr returned \<Rightarrow>
            (case outcome (item_loop cof process [0..<n] []) of
               Inl e \<Rightarrow> Inl e
             | Inr rd \<Rightarrow> Inr [rd]))"
  by (simp add: execute_def Let_def eff_simps try_finally_def split: sum.splits)

lemma push_last_throws:
  "outcome work = Inl e \<Longrightarrow> push_last work = ([], (Inl e, elapsed work, events work))"
  by (simp add: push_last_def)

lemma push_last_returns:
  "outcome work = Inr r \<Longrightarrow> push_last work = ([r], (Inr (), elapsed work, events work))"
  by (simp add: push_last_def)

lemma getAll_process_value:
  "getAll_process i =
     ([JObj [(''id'', JStr ''flux1-schnell-fp8''), (''name'', JStr ''Flux.1 Schnell''),
             (''workerCount'', JNum (Fin 12)), (''recommendedSettings'', JUndefined)]],
      (Inl (JsError (''Cannot read properties of null (reading '' @ [CHR 0x27] @ ''id'' @
                     [CHR 0x27] @ '')'')), 0, []))"
  by (simp add: getAll_process_def getAll_work_def listed_model_def)

lemma closing_closed_client:
  "outcome (safeDisconnect [] (Some closed_client)
              \<lparr>label = ''execute'', appId = Some (execute_appId JUndefined example_uuid),
                 timeoutMs = Some 5000\<rparr>) = Inr ()"
  by (simp add: safeDisconnect_closed_client)

lemma closing_rude_client:
  "outcome (safeDisconnect [] (Some rude_client)
              \<lparr>label = ''execute'', appId = Some (execute_appId JUndefined example_uuid),
                 timeoutMs = Some 5000\<rparr>)
     = Inl (JsError ''Cannot convert object to primitive value'')"
  by (simp add: safeDisconnect_rude_client)

text \<open>
  A run whose only item succeeds is still rejected when the shutdown in \<^verbatim>\<open>finally\<close>
  throws.
\<close>

lemma run_is_rejected_when_the_shutdown_throws:
  "outcome (item_loop False example_process [0..<1] []) = Inr [Result 0]
   \<and> outcome (execute [] ''Sogni AI'' False JUndefined example_uuid rude_client example_process 1)
       = Inl (JsError ''Cannot convert object to primitive value'')"
  by (simp add: outcome_execute closing_rude_client example_process_def push_last_def Let_def)

text \<open>
  Claim C8 says the record \<^verbatim>\<open>{ error: message }\<close> is pushed in place of the result of
  the item that threw. \<^verbatim>\<open>returnData\<close> only grows: what the item had pushed before it
  threw stays. An item of "model / getAll" for which the service lists a model and then
  \<^verbatim>\<open>null\<close> leaves the record of the model, followed by the error record.
\<close>

theorem partial_records_stay_beside_the_error_record:
  "outcome (snd (getAll_process 0))
     = Inl (JsError (''Cannot read properties of null (reading '' @ [CHR 0x27] @ ''id'' @
                     [CHR 0x27] @ '')''))
   \<and> outcome (execute [] ''Sogni AI'' True JUndefined example_uuid closed_client getAll_process 1)
       = Inr [[Result (JObj [(''id'', JStr ''flux1-schnell-fp8''), (''name'', JStr ''Flux.1 Schnell''),
                             (''workerCount'', JNum (Fin 12)), (''recommendedSettings'', JUndefined)]),
               ErrorRecord (Message (''Cannot read properties of null (reading '' @ [CHR 0x27] @
                                     ''id'' @ [CHR 0x27] @ '')''))]]"
  by (simp add: outcome_execute closing_closed_client getAll_process_value Let_def)

text \<open>
  Claim C8, as amended. When the work on an item throws and the host's continue-on-fail
  policy is on, the record \<^verbatim>\<open>{ error: message }\<close> is pushed after the records the item
  had pushed itself, and the loop goes on with the next item: the returned list is, item
  by item, the item's own records followed by its error record when it threw. A branch
  that pushes as its last step has pushed nothing when it throws, so that there the error
  record stands where the item's record would have been. When the policy is off, the
  error leaves the loop, and the run is the one in which the later items do not exist.
  The error is what \<^verbatim>\<open>execute\<close> rejects with, and the list what it returns, when the
  \<^verbatim>\<open>safeDisconnect\<close> of its \<^verbatim>\<open>finally\<close> returns; the list is stated for runs in which
  the message of every thrown value can be read.
\<close>

theorem per_item_error_policy:
  "(outcome (safeDisconnect env_var (Some c)
               \<lparr>label = ''execute'', appId = Some (execute_appId cred uuid),
                  timeoutMs = Some 5000\<rparr>) = Inr ()
      \<and> (\<forall>i<n. \<forall>e. outcome (snd (process i)) = Inl e \<longrightarrow> (\<exists>m. error_message e = Inr m))
    \<longrightarrow> outcome (execute env_var node_name True cred uuid c process n)
         = Inr [concat (map (\<lambda>i. map Result (fst (process i)) @
                                  (case outcome (snd (process i)) of
                                     Inr ended \<Rightarrow> []
                                   | Inl e \<Rightarrow> (case error_message e of
                                                 Inr m \<Rightarrow> [ErrorRecord m]
                                               | Inl e' \<Rightarrow> []))) [0..<n])])
   \<and> (outcome work = Inl e \<longrightarrow> fst (push_last work) = [] \<and> outcome (snd (push_last work)) = Inl e)
   \<and> error_message (NodeOperationError text i) = Inr (Message text)
   \<and> error_message (JsError text) = Inr (Message text)
   \<and> (k < n \<and> outcome (snd (process k)) = Inl e \<and> (\<forall>j<k. outcome (snd (process j)) = Inr ())
      \<longrightarrow> outcome (item_loop False process [0..<n] []) = Inl e
        \<and> (outcome (safeDisconnect env_var (Some c)
                       \<lparr>label = ''execute'', appId = Some (execute_appId cred uuid),
                          timeoutMs = Some 5000\<rparr>) = Inr ()
             \<longrightarrow> outcome (execute env_var node_name False cred uuid c process n) = Inl e)
        \<and> execute env_var node_name False cred uuid c process n
            = execute env_var node_name False cred uuid c process (Suc k))"
proof (intro conjI impI)
  assume h: "outcome (safeDisconnect env_var (Some c)
               \<lparr>label = ''execute'', appId = Some (execute_appId cred uuid),
                  timeoutMs = Some 5000\<rparr>) = Inr ()
      \<and> (\<forall>i<n. \<forall>e. outcome (snd (process i)) = Inl e \<longrightarrow> (\<exists>m. error_message e = Inr m))"
  then have readable:
    "\<forall>i \<in> set [0..<n]. \<forall>e. outcome (snd (process i)) = Inl e \<longrightarrow> (\<exists>m. error_message e = Inr m)"
    by simp
  show "outcome (execute env_var node_name True cred uuid c process n)
         = Inr [concat (map (\<lambda>i. map Result (fst (process i)) @
                                  (case outcome (snd (process i)) of
                                     Inr ended \<Rightarrow> []
                                   | Inl e \<Rightarrow> (case error_message e of
                                                 Inr m \<Rightarrow> [ErrorRecord m]
                                               | Inl e' \<Rightarrow> []))) [0..<n])]"
    using h by (simp add: outcome_execute item_loop_continue [OF readable])
next
  assume "outcome work = Inl e"
  then show "fst (push_last work) = []" "outcome (snd (push_last work)) = Inl e"
    by (simp_all add: push_last_def)
next
  show "error_message (NodeOperationError text i) = Inr (Message text)" by simp
  show "error_message (JsError text) = Inr (Message text)" by simp
next
  assume h: "k < n \<and> outcome (snd (process k)) = Inl e \<and> (\<forall>j<k. outcome (snd (process j)) = Inr ())"
  then have pre: "\<forall>j \<in> set [0..<k]. outcome (snd (process j)) = Inr ()" by simp
  from h have split: "[0..<n] = [0..<k] @ k # [Suc k..<n]" by (simp add: upt_split)
  have short: "[0..<Suc k] = [0..<k] @ [k]" by simp
  from h have ek: "outcome (snd (process k)) = Inl e" by simp
  have loop: "outcome (item_loop False process [0..<n] []) = Inl e"
    "item_loop False process [0..<n] [] = item_loop False process [0..<Suc k] []"
    unfolding split short
    using item_loop_abort [OF ek pre, of "[Suc k..<n]" "[]"] by simp_all
  show "outcome (item_loop False process [0..<n] []) = Inl e" by (rule loop(1))
  show "execute env_var node_name False cred uuid c process n
            = execute env_var node_name False cred uuid c process (Suc k)"
    unfolding execute_def loop(2) ..
  assume "outcome (safeDisconnect env_var (Some c)
                       \<lparr>label = ''execute'', appId = Some (execute_appId cred uuid),
                          timeoutMs = Some 5000\<rparr>) = Inr ()"
  then show "outcome (execute env_var node_name False cred uuid c process n) = Inl e"
    by (simp add: outcome_execute loop(1))
qed

theorem per_item_error_policy_witness:
  "outcome (safeDisconnect [] (Some closed_client)
              \<lparr>label = ''execute'', appId = Some (execute_appId JUndefined example_uuid),
                 timeoutMs = Some 5000\<rparr>) = Inr ()
   \<and> outcome (execute [] ''Sogni AI'' True JUndefined example_uuid closed_client example_process 3)
       = Inr [[Result 0,
               ErrorRecord
                 (Message ''No binary data found in property \"data\". Please provide a context image.''),
               Result 2]]
   \<and> outcome (throws (NodeOperationError
                 ''No binary data found in property \"data\". Please provide a context image.'' 1)
               :: nat eff)
       = Inl (NodeOperationError
                ''No binary data found in property \"data\". Please provide a context image.'' 1)
   \<and> fst (example_process 1) = []
   \<and> (1::nat) < 3
   \<and> outcome (snd (example_process 1))
       = Inl (NodeOperationError
                ''No binary data found in property \"data\". Please provide a context image.'' 1)
   \<and> outcome (snd (example_process 0)) = Inr ()
   \<and> outcome (item_loop False example_process [0..<3] [])
       = Inl (NodeOperationError
                ''No binary data found in property \"data\". Please provide a context image.'' 1)
   \<and> outcome (execute [] ''Sogni AI'' False JUndefined example_uuid closed_client example_process 3)
       = Inl (NodeOperationError
                ''No binary data found in property \"data\". Please provide a context image.'' 1)
   \<and> execute [] ''Sogni AI'' False JUndefined example_uuid closed_client example_process 3
       = execute [] ''Sogni AI'' False JUndefined example_uuid closed_client example_process 2"
proof -
  let ?e = "NodeOperationError
              ''No binary data found in property \"data\". Please provide a context image.'' 1"
  have upt3: "[0..<3] = [0, 1, 2]" by (simp add: upt_rec)
  have two: "Suc 1 = 2" by simp
  have first: "outcome (snd (example_process 0)) = Inr ()"
    by (simp add: example_process_def push_last_def)
  have prior: "\<forall>j<1. outcome (snd (example_process j)) = Inr ()"
    using first by simp
  have thrown: "outcome (snd (example_process 1)) = Inl ?e"
    by (simp add: example_process_def push_last_def)
  have work: "outcome (throws ?e :: nat eff) = Inl ?e" by simp
  have readable:
    "\<forall>i<3. \<forall>e. outcome (snd (example_process i)) = Inl e \<longrightarrow> (\<exists>m. error_message e = Inr m)"
    by (auto simp add: example_process_def push_last_def)
  note policy = per_item_error_policy
         [where env_var = "[]" and c = closed_client and cred = JUndefined and uuid = example_uuid
            and n = 3 and process = example_process and node_name = "''Sogni AI''"
            and work = "throws ?e :: nat eff" and e = ?e and k = 1]
  have closing: "outcome (safeDisconnect [] (Some closed_client)
              \<lparr>label = ''execute'', appId = Some (execute_appId JUndefined example_uuid),
                 timeoutMs = Some 5000\<rparr>) = Inr ()"
    by (rule closing_closed_client)
  have hyp1: "outcome (safeDisconnect [] (Some closed_client)
              \<lparr>label = ''execute'', appId = Some (execute_appId JUndefined example_uuid),
                 timeoutMs = Some 5000\<rparr>) = Inr ()
      \<and> (\<forall>i<3. \<forall>e. outcome (snd (example_process i)) = Inl e \<longrightarrow> (\<exists>m. error_message e = Inr m))"
    by (intro conjI closing readable)
  from policy [THEN conjunct1, THEN mp, OF hyp1] have continued:
    "outcome (execute [] ''Sogni AI'' True JUndefined example_uuid closed_client example_process 3)
       = Inr [[Result 0,
               ErrorRecord
                 (Message ''No binary data found in property \"data\". Please provide a context image.''),
               Result 2]]"
    by (simp add: upt3 example_process_def push_last_def)
  from policy [THEN conjunct2, THEN conjunct1, THEN mp, OF work] have nothing_pushed:
    "fst (example_process 1) = []"
    by (simp add: example_process_def)
  have lt: "(1::nat) < 3" by simp
  have hyp: "(1::nat) < 3 \<and> outcome (snd (example_process 1)) = Inl ?e
     \<and> (\<forall>j<1. outcome (snd (example_process j)) = Inr ())"
    by (intro conjI lt thrown prior)
  note stopped = policy [THEN conjunct2, THEN conjunct2, THEN conjunct2, THEN conjunct2, THEN mp, OF hyp]
  note left_loop = stopped [THEN conjunct1]
  note aborted = stopped [THEN conjunct2, THEN conjunct1, THEN mp, OF closing]
  note cut = stopped [THEN conjunct2, THEN conjunct2]
  show ?thesis
    by (intro conjI closing continued work nothing_pushed lt thrown first left_loop aborted
          cut [unfolded two])
qed

section \<open>Identities\<close>

lemma normalizeAppId_string:
  "normalizeAppId (JStr s) = (if trim s = [] then None else Some (trim s))"
  by (simp add: normalizeAppId_def Let_def)

lemma normalizeAppId_not_string:
  "\<forall>s. v \<noteq> JStr s \<Longrightarrow> normalizeAppId v = None"
  by (cases v) (simp_all add: normalizeAppId_def)

lemma generated_identities_apart:
  assumes "length u1 = length u2"
  shows "generateUniqueAppId ''n8n-sogni'' u1 \<noteq> generateUniqueAppId ''n8n-sogni-loadopts'' u2"
proof
  assume "generateUniqueAppId ''n8n-sogni'' u1 = generateUniqueAppId ''n8n-sogni-loadopts'' u2"
  then have "length (generateUniqueAppId ''n8n-sogni'' u1)
           = length (generateUniqueAppId ''n8n-sogni-loadopts'' u2)"
    by simp
  with assms show False by (simp add: generateUniqueAppId_def)
qed

lemma events_try_finally: "events (try_finally m c) = events m @ events c"
  by (simp add: try_finally_def split: sum.splits)

text \<open>
  The lookups of the newer node: the identity is generated whatever the credentials hold,
  and \<^verbatim>\<open>safeDisconnect\<close> runs on every path.
\<close>

lemma loadOptions_events:
  "events (loadOptions env_var lookup_name cred uuid c lookup) =
     events (debugLogAppId env_var
               (''loadOptions:'' @ lookup_name @ '' appId='' @ generateUniqueAppId ''n8n-sogni-loadopts'' uuid))
     @ [Connect (generateUniqueAppId ''n8n-sogni-loadopts'' uuid)]
     @ events lookup
     @ events (safeDisconnect env_var (Some c)
                 \<lparr>label = ''loadOptions:'' @ lookup_name,
                  appId = Some (generateUniqueAppId ''n8n-sogni-loadopts'' uuid),
                  timeoutMs = Some 2000\<rparr>)"
  by (simp add: loadOptions_def Let_def eff_simps events_try_finally split: sum.splits)

lemma loadOptions_ignores_credentials:
  "loadOptions env_var lookup_name cred uuid c lookup = loadOptions env_var lookup_name cred' uuid c lookup"
  by (simp add: loadOptions_def)

lemma trim_example: "trim '' my-app '' = ''my-app''"
  by code_simp

text \<open>
  In the newer node an override is used in its trimmed form, and a blank or missing one
  gives way to a generated identity.
\<close>

lemma execute_appId_cases:
  "trim s \<noteq> [] \<Longrightarrow> execute_appId (JStr s) uuid = trim s"
  "trim s = [] \<Longrightarrow> execute_appId (JStr s) uuid = ''n8n-sogni-'' @ uuid"
  "\<forall>s. v \<noteq> JStr s \<Longrightarrow> execute_appId v uuid = ''n8n-sogni-'' @ uuid"
  by (simp_all add: execute_appId_def normalizeAppId_string normalizeAppId_not_string
      generateUniqueAppId_def)

lemma override_is_trimmed:
  "execute_appId (JStr '' my-app '') example_uuid = ''my-app''"
  by (simp add: execute_appId_def normalizeAppId_string trim_example)

lemma newer_lookup_events:
  "events (getModelOptions [] (JStr ''my-app'') example_uuid closed_client (returns [''flux1-schnell-fp8'']))
     = [Connect ''n8n-sogni-loadopts-123e4567-e89b-42d3-a456-426614174000'',
        CallDisconnect, CallRemoveAllListeners]"
proof -
  have closing: "events (safeDisconnect [] (Some closed_client)
                     \<lparr>label = ''loadOptions:'' @ ''getModelOptions'',
                      appId = Some (generateUniqueAppId ''n8n-sogni-loadopts'' example_uuid),
                      timeoutMs = Some 2000\<rparr>) = [CallDisconnect, CallRemoveAllListeners]"
    by (simp add: safeDisconnect_closed_client)
  have quiet: "events (debugLogAppId [] msg) = []" for msg
    by simp
  show ?thesis
    unfolding getModelOptions_def loadOptions_events closing quiet
    by (simp add: generateUniqueAppId_def example_uuid_def)
qed

text \<open>
  Claim C2 says every model-option lookup allocates an identity of its own, never the
  caller's, and closes its session through \<^verbatim>\<open>close()\<close>. The copy of the node under
  \<^verbatim>\<open>nodes/Sogni/Sogni.node.ts\<close> does neither. With \<^verbatim>\<open>my-app\<close> in the credentials its
  \<^verbatim>\<open>getModelOptions\<close> connects as \<^verbatim>\<open>my-app\<close>, the identity its \<^verbatim>\<open>execute\<close> connects
  with; and it awaits the wrapper's \<^verbatim>\<open>disconnect\<close> with no bound, so that it never returns
  when that promise never settles. The newer node, given the same credentials, connects
  its lookup as \<^verbatim>\<open>n8n-sogni-loadopts-<uuid>\<close> and ends it with \<^verbatim>\<open>safeDisconnect\<close>.
\<close>

theorem legacy_lookup_reuses_the_override:
  "legacy_getModelOptions_appId (JStr ''my-app'') ''1700000000000-k3j9x2m1q'' = JStr ''my-app''
   \<and> legacy_execute_appId (JStr ''my-app'') ''1700000000001-a8b7c6d5e'' = JStr ''my-app''
   \<and> disconnect stuck_client = Present (ReturnsPromise Hangs)
   \<and> legacy_disconnect stuck_client = None
   \<and> events (getModelOptions [] (JStr ''my-app'') example_uuid closed_client (returns [''flux1-schnell-fp8'']))
       = [Connect ''n8n-sogni-loadopts-123e4567-e89b-42d3-a456-426614174000'',
          CallDisconnect, CallRemoveAllListeners]
   \<and> execute_appId (JStr ''my-app'') example_uuid = ''my-app''"
proof -
  have t: "trim ''my-app'' = ''my-app''" by code_simp
  have a: "legacy_getModelOptions_appId (JStr ''my-app'') ''1700000000000-k3j9x2m1q'' = JStr ''my-app''"
    by (simp add: legacy_getModelOptions_appId_def or_else_def)
  have b: "legacy_execute_appId (JStr ''my-app'') ''1700000000001-a8b7c6d5e'' = JStr ''my-app''"
    by (simp add: legacy_execute_appId_def or_else_def)
  have c: "disconnect stuck_client = Present (ReturnsPromise Hangs)"
    by (simp add: stuck_client_def)
  have d: "legacy_disconnect stuck_client = None"
    by (simp add: legacy_disconnect_def c)
  have e: "execute_appId (JStr ''my-app'') example_uuid = ''my-app''"
    using execute_appId_cases(1) [of "''my-app''" example_uuid] t by simp
  show ?thesis by (intro conjI a b c d newer_lookup_events e)
qed

section \<open>What a built request holds\<close>

lemma bind_result_Inr: "(bind_result r f = Inr b) = (\<exists>a. r = Inr a \<and> f a = Inr b)"
  by (cases r) (simp_all add: bind_result_def)

lemma bind_result_Inl: "(bind_result r f = Inl e) = (r = Inl e \<or> (\<exists>a. r = Inr a \<and> f a = Inl e))"
  by (cases r) (simp_all add: bind_result_def)

lemma not_number_when_nullish: "nullish v \<Longrightarrow> \<not> is_number_not_nan v"
  by (cases v) simp_all

lemma image_timeout_never_nan: "image_resolvedTimeoutMs t n \<noteq> JNum NaN"
  by (cases t rule: is_number_not_nan.cases) (simp_all add: image_resolvedTimeoutMs_def)

lemma video_timeout_never_nan: "video_resolvedTimeoutMs t n \<noteq> JNum NaN"
  by (cases t rule: is_number_not_nan.cases) (simp_all add: video_resolvedTimeoutMs_def)

lemma edit_steps_never_nan: "edit_steps m v \<noteq> JNum NaN"
  by (cases v rule: is_number_not_nan.cases) (simp_all add: edit_steps_def)

lemma edit_guidance_never_nan: "edit_guidance m v \<noteq> JNum NaN"
  by (cases v rule: is_number_not_nan.cases) (simp_all add: edit_guidance_def)

lemma video_projectConfig_built:
  assumes "video_projectConfig eng binary i videoModelId videoPositivePrompt videoNetwork videoAdditionalFields
             = Inr vcfg"
  shows "vd_timeout vcfg =
           video_resolvedTimeoutMs
             (get_prop (group (or_else videoAdditionalFields (JObj [])) ''advanced'') ''timeout'')
             videoNetwork"
    and "video_frames eng videoModelId
           (coalesce (get_prop (group (or_else videoAdditionalFields (JObj [])) ''videoSettings'') ''frames'')
              (JNum (Fin 30))) = Inr (vd_frames vcfg)"
    and "sam2_coordinates eng i
           (get_prop (group (or_else videoAdditionalFields (JObj [])) ''workflowControls'')
              ''sam2CoordinatesJson'') = Inr (vd_sam2Coordinates vcfg)"
    and "\<exists>name. trimmed_text (get_prop (group (or_else videoAdditionalFields (JObj [])) ''inputs'')
                           ''referenceImageProperty'') = Inr name
              \<and> readOptionalBinaryProperty binary i name ''reference image''
                  = Inr (vd_referenceImage vcfg)"
    and "\<exists>name. trimmed_text (get_prop (group (or_else videoAdditionalFields (JObj [])) ''inputs'')
                           ''referenceImageEndProperty'') = Inr name
              \<and> readOptionalBinaryProperty binary i name ''reference end image''
                  = Inr (vd_referenceImageEnd vcfg)"
    and "\<exists>name. trimmed_text (get_prop (group (or_else videoAdditionalFields (JObj [])) ''inputs'')
                           ''referenceAudioProperty'') = Inr name
              \<and> readOptionalBinaryProperty binary i name ''reference audio''
                  = Inr (vd_referenceAudio vcfg)"
    and "\<exists>name. trimmed_text (get_prop (group (or_else videoAdditionalFields (JObj [])) ''inputs'')
                           ''referenceVideoProperty'') = Inr name
              \<and> readOptionalBinaryProperty binary i name ''reference video''
                  = Inr (vd_referenceVideo vcfg)"
  using assms
  by (auto simp add: video_projectConfig_def Let_def bind_result_Inr)

lemma edit_projectConfig_built:
  assumes "edit_projectConfig binary i modelId editPrompt p1 p2 p3 network editFields = Inr ecfg"
  shows "ed_timeout ecfg =
           image_resolvedTimeoutMs
             (get_prop (group (or_else editFields (JObj [])) ''advanced'') ''timeout'') network"
    and "ed_steps ecfg =
           edit_steps modelId (get_prop (group (or_else editFields (JObj [])) ''generationSettings'') ''steps'')"
    and "ed_guidance ecfg =
           edit_guidance modelId
             (get_prop (group (or_else editFields (JObj [])) ''generationSettings'') ''guidance'')"
    and "collect_context_images binary i p1 p2 p3 = Inr (ed_contextImages ecfg)"
  using assms
  by (auto simp add: edit_projectConfig_def Let_def split: sum.splits)

lemma image_projectConfig_timeout:
  "ig_timeout (image_projectConfig modelId positivePrompt networkTop additionalFields) =
     image_resolvedTimeoutMs
       (coalesce (get_prop (group (or_else additionalFields (JObj [])) ''advanced'') ''timeout'')
                 (get_prop (or_else additionalFields (JObj [])) ''timeout''))
       (ig_network (image_projectConfig modelId positivePrompt networkTop additionalFields))"
  by (simp add: image_projectConfig_def Let_def)


section \<open>Timeouts\<close>

text \<open>
  Claim C3. When no source gives a timeout, the resolved timeout follows the network tier:
  60000 ms (fast) and 600000 ms (otherwise, that is relaxed) for image generation and
  image edit, 120000 ms and 1200000 ms for video generation; for each tier the video
  default is strictly larger than the image default.
\<close>

theorem timeout_defaults_by_network:
  "(nullish (get_prop (group (or_else additionalFields (JObj [])) ''advanced'') ''timeout'')
      \<and> nullish (get_prop (or_else additionalFields (JObj [])) ''timeout'')
    \<longrightarrow> ig_timeout (image_projectConfig modelId positivePrompt networkTop additionalFields)
          = (if ig_network (image_projectConfig modelId positivePrompt networkTop additionalFields)
                = JStr ''fast''
             then JNum (Fin 60000) else JNum (Fin 600000)))
   \<and> (nullish (get_prop (group (or_else editFields (JObj [])) ''advanced'') ''timeout'')
      \<and> edit_projectConfig binary i editModelId editPrompt p1 p2 p3 network editFields = Inr ecfg
    \<longrightarrow> ed_timeout ecfg
          = (if network = JStr ''fast'' then JNum (Fin 60000) else JNum (Fin 600000)))
   \<and> (nullish (get_prop (group (or_else videoFields (JObj [])) ''advanced'') ''timeout'')
      \<and> video_projectConfig eng binary i videoModelId videoPrompt videoNetwork videoFields = Inr vcfg
    \<longrightarrow> vd_timeout vcfg
          = (if videoNetwork = JStr ''fast'' then JNum (Fin 120000) else JNum (Fin 1200000)))
   \<and> (\<exists>a b. image_resolvedTimeoutMs JUndefined tier = JNum (Fin a)
            \<and> video_resolvedTimeoutMs JUndefined tier = JNum (Fin b) \<and> a < b)"
proof (intro conjI impI)
  assume "nullish (get_prop (group (or_else additionalFields (JObj [])) ''advanced'') ''timeout'')
      \<and> nullish (get_prop (or_else additionalFields (JObj [])) ''timeout'')"
  then have "nullish (coalesce (get_prop (group (or_else additionalFields (JObj [])) ''advanced'') ''timeout'')
                 (get_prop (or_else additionalFields (JObj [])) ''timeout''))"
    by (simp add: coalesce_def)
  then show "ig_timeout (image_projectConfig modelId positivePrompt networkTop additionalFields)
          = (if ig_network (image_projectConfig modelId positivePrompt networkTop additionalFields)
                = JStr ''fast''
             then JNum (Fin 60000) else JNum (Fin 600000))"
    unfolding image_projectConfig_timeout
    by (simp add: image_resolvedTimeoutMs_def not_number_when_nullish)
next
  assume "nullish (get_prop (group (or_else editFields (JObj [])) ''advanced'') ''timeout'')
      \<and> edit_projectConfig binary i editModelId editPrompt p1 p2 p3 network editFields = Inr ecfg"
  then show "ed_timeout ecfg
          = (if network = JStr ''fast'' then JNum (Fin 60000) else JNum (Fin 600000))"
    using edit_projectConfig_built(1) [of binary i editModelId editPrompt p1 p2 p3 network editFields ecfg]
    by (simp add: image_resolvedTimeoutMs_def not_number_when_nullish)
next
  assume "nullish (get_prop (group (or_else videoFields (JObj [])) ''advanced'') ''timeout'')
      \<and> video_projectConfig eng binary i videoModelId videoPrompt videoNetwork videoFields = Inr vcfg"
  then show "vd_timeout vcfg
          = (if videoNetwork = JStr ''fast'' then JNum (Fin 120000) else JNum (Fin 1200000))"
    using video_projectConfig_built(1)
            [of eng binary i videoModelId videoPrompt videoNetwork videoFields vcfg]
    by (simp add: video_resolvedTimeoutMs_def not_number_when_nullish)
next
  show "\<exists>a b. image_resolvedTimeoutMs JUndefined tier = JNum (Fin a)
            \<and> video_resolvedTimeoutMs JUndefined tier = JNum (Fin b) \<and> a < b"
    by (simp add: image_resolvedTimeoutMs_def video_resolvedTimeoutMs_def)
qed

lemma example_video_request_is_built:
  "\<exists>vcfg. video_projectConfig example_engine None 0 ''wan_v2.2-14b-fp8_t2v''
             (JStr ''a cat'') (JStr ''fast'') (JObj []) = Inr vcfg"
  by (simp add: video_projectConfig_def Let_def bind_result_def group_def or_else_def coalesce_def
        video_frames_def not_isLtx2Model_example trimmed_text_def trim_def
        readOptionalBinaryProperty_def sam2_coordinates_def binary_data_def)

theorem timeout_defaults_by_network_witness:
  "nullish (get_prop (group (or_else (JObj []) (JObj [])) ''advanced'') ''timeout'')
   \<and> nullish (get_prop (or_else (JObj []) (JObj [])) ''timeout'')
   \<and> ig_timeout (image_projectConfig (JStr ''flux1-schnell-fp8'') (JStr ''a cat'') (JStr ''fast'') (JObj []))
       = JNum (Fin 60000)
   \<and> ig_timeout (image_projectConfig (JStr ''flux1-schnell-fp8'') (JStr ''a cat'') (JStr ''relaxed'') (JObj []))
       = JNum (Fin 600000)
   \<and> (\<exists>vcfg. video_projectConfig example_engine None 0 ''wan_v2.2-14b-fp8_t2v''
                (JStr ''a cat'') (JStr ''fast'') (JObj []) = Inr vcfg
             \<and> vd_timeout vcfg = JNum (Fin 120000))
   \<and> (\<exists>ecfg. edit_projectConfig example_binaries 0 ''qwen_image_edit_2511_fp8''
                (JStr ''make the sky orange'') ''data'' [] [] (JStr ''relaxed'') (JObj []) = Inr ecfg
             \<and> ed_timeout ecfg = JNum (Fin 600000))"
proof -
  have n1: "nullish (get_prop (group (or_else (JObj []) (JObj [])) ''advanced'') ''timeout'')"
    by (simp add: group_def or_else_def)
  have n2: "nullish (get_prop (or_else (JObj []) (JObj [])) ''timeout'')"
    by (simp add: or_else_def)
  have net: "ig_network (image_projectConfig m p (JStr t) (JObj [])) = JStr t" for m p t
    by (simp add: image_projectConfig_def Let_def coalesce_def)
  note fast = timeout_defaults_by_network
    [where additionalFields = "JObj []" and modelId = "JStr ''flux1-schnell-fp8''"
       and positivePrompt = "JStr ''a cat''" and networkTop = "JStr ''fast''",
     THEN conjunct1, THEN mp, OF conjI [OF n1 n2]]
  note relaxed = timeout_defaults_by_network
    [where additionalFields = "JObj []" and modelId = "JStr ''flux1-schnell-fp8''"
       and positivePrompt = "JStr ''a cat''" and networkTop = "JStr ''relaxed''",
     THEN conjunct1, THEN mp, OF conjI [OF n1 n2]]
  have a: "ig_timeout (image_projectConfig (JStr ''flux1-schnell-fp8'') (JStr ''a cat'') (JStr ''fast'') (JObj []))
       = JNum (Fin 60000)"
    using fast by (simp add: net)
  have b: "ig_timeout (image_projectConfig (JStr ''flux1-schnell-fp8'') (JStr ''a cat'') (JStr ''relaxed'') (JObj []))
       = JNum (Fin 600000)"
    using relaxed by (simp add: net)
  from example_video_request_is_built obtain vcfg where
    built: "video_projectConfig example_engine None 0 ''wan_v2.2-14b-fp8_t2v''
              (JStr ''a cat'') (JStr ''fast'') (JObj []) = Inr vcfg"
    by blast
  note video = timeout_defaults_by_network
    [where videoFields = "JObj []" and eng = example_engine and binary = None and i = 0
       and videoModelId = "''wan_v2.2-14b-fp8_t2v''" and videoPrompt = "JStr ''a cat''"
       and videoNetwork = "JStr ''fast''" and vcfg = vcfg,
     THEN conjunct2, THEN conjunct2, THEN conjunct1, THEN mp, OF conjI [OF n1 built]]
  have c: "\<exists>vcfg. video_projectConfig example_engine None 0 ''wan_v2.2-14b-fp8_t2v''
                (JStr ''a cat'') (JStr ''fast'') (JObj []) = Inr vcfg
             \<and> vd_timeout vcfg = JNum (Fin 120000)"
    using built video by auto
  have "\<exists>ecfg. edit_projectConfig example_binaries 0 ''qwen_image_edit_2511_fp8''
                (JStr ''make the sky orange'') ''data'' [] [] (JStr ''relaxed'') (JObj []) = Inr ecfg"
    by (simp add: edit_projectConfig_def Let_def collect_context_images_def
          required_context_image_def optional_context_image_def binary_data_def example_binaries_def)
  then obtain ecfg where
    edited: "edit_projectConfig example_binaries 0 ''qwen_image_edit_2511_fp8''
                (JStr ''make the sky orange'') ''data'' [] [] (JStr ''relaxed'') (JObj []) = Inr ecfg"
    by blast
  note edit = timeout_defaults_by_network
    [where editFields = "JObj []" and binary = example_binaries and i = 0
       and editModelId = "''qwen_image_edit_2511_fp8''" and editPrompt = "JStr ''make the sky orange''"
       and ?p1.0 = "''data''" and ?p2.0 = "[]" and ?p3.0 = "[]"
       and network = "JStr ''relaxed''" and ecfg = ecfg,
     THEN conjunct2, THEN conjunct1, THEN mp, OF conjI [OF n1 edited]]
  have d: "\<exists>ecfg. edit_projectConfig example_binaries 0 ''qwen_image_edit_2511_fp8''
                (JStr ''make the sky orange'') ''data'' [] [] (JStr ''relaxed'') (JObj []) = Inr ecfg
             \<and> ed_timeout ecfg = JNum (Fin 600000)"
    using edited edit by auto
  show ?thesis by (intro conjI n1 n2 a b c d)
qed

section \<open>Fields that arrive as NaN\<close>

text \<open>
  Claim C5 says a numeric field that arrives as NaN is treated as if it were undefined: the
  resolver goes on to the next source or to the default, and NaN is never the resolved
  value. Image generation resolves \<^verbatim>\<open>steps\<close> (and guidance, and the seed) with \<^verbatim>\<open>??\<close>
  alone, which stops at NaN: with NaN in the grouped field and 30 in the legacy field the
  request carries NaN, where an undefined grouped field gives 30. The timeout is guarded,
  but only after the sources are merged: NaN in the grouped field hides 5000 in the legacy
  field and gives the default of the tier. The edit path next to it guards its steps.
\<close>

theorem generate_steps_nan_passes_through:
  "ig_steps (image_projectConfig (JStr ''flux1-schnell-fp8'') (JStr ''a cat'') (JStr ''fast'')
               (JObj [(''generationSettings'', JObj [(''steps'', JNum NaN)]),
                      (''steps'', JNum (Fin 30))]))
     = JNum NaN
   \<and> ig_steps (image_projectConfig (JStr ''flux1-schnell-fp8'') (JStr ''a cat'') (JStr ''fast'')
               (JObj [(''generationSettings'', JObj [(''steps'', JUndefined)]),
                      (''steps'', JNum (Fin 30))]))
     = JNum (Fin 30)
   \<and> ig_seed (image_projectConfig (JStr ''flux1-schnell-fp8'') (JStr ''a cat'') (JStr ''fast'')
               (JObj [(''generationSettings'', JObj [(''seed'', JNum NaN)])]))
     = JNum NaN
   \<and> ig_timeout (image_projectConfig (JStr ''flux1-schnell-fp8'') (JStr ''a cat'') (JStr ''fast'')
               (JObj [(''advanced'', JObj [(''timeout'', JNum NaN)]),
                      (''timeout'', JNum (Fin 5000))]))
     = JNum (Fin 60000)
   \<and> ig_timeout (image_projectConfig (JStr ''flux1-schnell-fp8'') (JStr ''a cat'') (JStr ''fast'')
               (JObj [(''advanced'', JObj [(''timeout'', JUndefined)]),
                      (''timeout'', JNum (Fin 5000))]))
     = JNum (Fin 5000)
   \<and> edit_steps ''qwen_image_edit_2511_fp8'' (JNum NaN) = JNum (Fin 20)
   \<and> edit_steps ''qwen_image_edit_2511_fp8'' JUndefined = JNum (Fin 20)"
proof -
  have plain: "\<not> isLightningModel ''qwen_image_edit_2511_fp8''" by code_simp
  show ?thesis
    by (simp add: image_projectConfig_def Let_def group_def or_else_def coalesce_def
        image_resolvedTimeoutMs_def edit_steps_def plain)
qed

section \<open>Named binaries\<close>

text \<open>
  A name that is no member of \<^verbatim>\<open>Object.prototype\<close> is found exactly when the binary
  object has an entry of its own for it, and then the node raises its own error exactly
  when the entry is missing.
\<close>

lemma binary_data_plain_name:
  "name \<notin> set object_prototype_names \<Longrightarrow> binary_data (Some b) name = own_entry b name"
  by (simp add: binary_data_def split: option.splits)

lemma binary_data_without_object [simp]: "binary_data None name = None"
  by (simp add: binary_data_def)

lemma required_context_image_plain_name:
  assumes "p \<notin> set object_prototype_names"
  shows "own_entry b p = None \<Longrightarrow>
           required_context_image (Some b) i p
             = Inl (NodeOperationError
                      (''No binary data found in property \"'' @ p @
                       ''\". Please provide a context image.'') i)"
    and "own_entry b p = Some r \<Longrightarrow> required_context_image (Some b) i p = r"
  using assms by (simp_all add: required_context_image_def binary_data_plain_name)

lemma readOptionalBinaryProperty_plain_name:
  assumes "name \<notin> set object_prototype_names" "name \<noteq> []"
  shows "own_entry b name = None \<Longrightarrow>
           readOptionalBinaryProperty (Some b) i name lbl
             = Inl (NodeOperationError
                      (''No binary data found in property \"'' @ name @ ''\" for '' @ lbl @ ''.'') i)"
    and "own_entry b name = Some (Inr buf) \<Longrightarrow>
           readOptionalBinaryProperty (Some b) i name lbl = Inr (Some buf)"
  using assms by (simp_all add: readOptionalBinaryProperty_def binary_data_plain_name)

lemma readOptionalBinaryProperty_unnamed [simp]:
  "readOptionalBinaryProperty binary i [] lbl = Inr None"
  by (simp add: readOptionalBinaryProperty_def)

lemma optional_context_image_plain_name:
  "p \<notin> set object_prototype_names \<Longrightarrow> own_entry b p = None \<Longrightarrow>
     optional_context_image (Some b) p = Inr []"
  by (simp add: optional_context_image_def binary_data_plain_name)

text \<open>
  Claim C6 says asset resolution raises, naming the property and the item, exactly when a
  required binary is absent, and leaves an absent optional one out. The guard
  \<^verbatim>\<open>!items[i].binary?.[name]\<close> reads the name on a plain object: \<^verbatim>\<open>toString\<close> and the
  other members of \<^verbatim>\<open>Object.prototype\<close> are found on every item. With such a name, and
  no binary of that name on the item, the guard lets the item through to
  \<^verbatim>\<open>getBinaryDataBuffer\<close>: a required image fails there without the node's error, and an
  optional image, which should have been left out, makes the item fail. A name that is
  not inherited behaves as the claim says.
\<close>

theorem inherited_name_passes_the_guard:
  "map_option (\<lambda>b. (own_entry b ''toString'', own_entry b ''constructor'', own_entry b ''mask''))
      example_binaries = Some (None, None, None)
   \<and> required_context_image example_binaries 0 ''toString''
       = Inl (JsError ''The first argument must be of type string or an instance of Buffer, ArrayBuffer, or Array or an Array-like Object. Received undefined'')
   \<and> collect_context_images example_binaries 0 ''data'' ''toString'' []
       = Inl (JsError ''The first argument must be of type string or an instance of Buffer, ArrayBuffer, or Array or an Array-like Object. Received undefined'')
   \<and> readOptionalBinaryProperty example_binaries 0 ''constructor'' ''reference image''
       = Inl (JsError ''The first argument must be of type string or an instance of Buffer, ArrayBuffer, or Array or an Array-like Object. Received undefined'')
   \<and> required_context_image example_binaries 0 ''mask''
       = Inl (NodeOperationError
                ''No binary data found in property \"mask\". Please provide a context image.'' 0)
   \<and> collect_context_images example_binaries 0 ''data'' ''mask'' [] = Inr [png_bytes]
   \<and> control_image (\<lambda>v. []) example_binaries 0
         (JObj [(''controlNet'', JObj [(''enableControlNet'', JBool True),
                                       (''controlNetImageProperty'', JStr ''valueOf'')])])
       = Inl (JsError ''The first argument must be of type string or an instance of Buffer, ArrayBuffer, or Array or an Array-like Object. Received undefined'')"
proof -
  have names: "''toString'' \<in> set object_prototype_names"
    "''constructor'' \<in> set object_prototype_names" "''valueOf'' \<in> set object_prototype_names"
    "''mask'' \<notin> set object_prototype_names" "''data'' \<notin> set object_prototype_names"
    by (simp_all add: object_prototype_names_def)
  have t: "trim ''toString'' = ''toString''" "trim ''mask'' = ''mask''" by code_simp+
  show ?thesis
    by (simp add: example_binaries_def required_context_image_def collect_context_images_def
        optional_context_image_def readOptionalBinaryProperty_def binary_data_def names t
        control_image_def Let_def group_def or_else_def coalesce_def)
qed

section \<open>SAM2 coordinates\<close>














section \<open>Output slots\<close>

lemma decimal_value_snoc: "decimal_value (s @ [c]) = 10 * decimal_value s + (of_char c - 48)"
  by (simp add: decimal_value_def)

lemma decimal_value_digit: "d < 10 \<Longrightarrow> (of_char (digit d) :: nat) - 48 = d"
  by (simp add: digit_def)

lemma decimal_value_decimal_of_nat: "decimal_value (decimal_of_nat n) = n"
proof (induction n rule: decimal_of_nat.induct)
  case (1 n)
  have last: "(of_char (digit (n mod 10)) :: nat) - 48 = n mod 10"
    by (rule decimal_value_digit) simp
  show ?case
  proof (cases "n < 10")
    case True
    then have "decimal_of_nat n = [digit (n mod 10)]"
      by (subst decimal_of_nat.simps) simp
    with True last show ?thesis by (simp add: decimal_value_def)
  next
    case False
    then have unfold: "decimal_of_nat n = decimal_of_nat (n div 10) @ [digit (n mod 10)]"
      by (subst decimal_of_nat.simps) simp
    from False 1 have ih: "decimal_value (decimal_of_nat (n div 10)) = n div 10" by simp
    show ?thesis unfolding unfold decimal_value_snoc ih last by simp
  qed
qed

lemma decimal_of_nat_inj:
  assumes "decimal_of_nat a = decimal_of_nat b"
  shows "a = b"
proof -
  from assms have "decimal_value (decimal_of_nat a) = decimal_value (decimal_of_nat b)"
    by (rule arg_cong)
  then show ?thesis by (simp only: decimal_value_decimal_of_nat)
qed

lemma decimal_of_nat_not_empty: "decimal_of_nat n \<noteq> []"
  by (subst decimal_of_nat.simps) simp

lemma image_slot_inj: "image_slot a = image_slot b \<Longrightarrow> a = b"
  by (auto simp add: image_slot_def decimal_of_nat_not_empty dest: decimal_of_nat_inj split: if_splits)

lemma video_slot_inj: "video_slot a = video_slot b \<Longrightarrow> a = b"
  by (auto simp add: video_slot_def decimal_of_nat_not_empty dest: decimal_of_nat_inj split: if_splits)


section \<open>The download loops\<close>

lemma images_loop_other:
  "(\<And>k. k < length urls \<Longrightarrow> name \<noteq> image_slot (i0 + k)) \<Longrightarrow>
   fst (download_images_loop h pid fb what i0 urls (bin, con)) name = bin name"
proof (induction urls arbitrary: i0 bin con)
  case Nil
  show ?case by simp
next
  case (Cons url rest)
  have later: "name \<noteq> image_slot (Suc i0 + k)" if "k < length rest" for k
    using Cons.prems [of "Suc k"] that by simp
  have here: "name \<noteq> image_slot i0"
    using Cons.prems [of 0] by simp
  show ?case
  proof (cases "download_image h pid fb i0 url")
    case (Inl e)
    then show ?thesis using Cons.IH [OF later] by simp
  next
    case (Inr art)
    then show ?thesis using Cons.IH [OF later] here by simp
  qed
qed

lemma images_loop_slot:
  "k < length urls \<Longrightarrow>
   fst (download_images_loop h pid fb what i0 urls (bin, con)) (image_slot (i0 + k)) =
     (case download_image h pid fb (i0 + k) (urls ! k) of
        Inr art \<Rightarrow> Some art
      | Inl e \<Rightarrow> bin (image_slot (i0 + k)))"
proof (induction urls arbitrary: i0 bin con k)
  case Nil
  then show ?case by simp
next
  case (Cons url rest)
  show ?case
  proof (cases k)
    case 0
    have untouched: "fst (download_images_loop h pid fb what (Suc i0) rest (b, c)) (image_slot i0)
                       = b (image_slot i0)" for b c
      by (rule images_loop_other) (auto dest: image_slot_inj)
    show ?thesis using 0 untouched by (cases "download_image h pid fb i0 url") simp_all
  next
    case (Suc j)
    with Cons.prems have j: "j < length rest" by simp
    have apart: "image_slot i0 \<noteq> image_slot (Suc i0 + j)"
      by (auto dest: image_slot_inj)
    show ?thesis
      using Suc Cons.IH [OF j, of "Suc i0"] apart
      by (cases "download_image h pid fb i0 url") (simp_all split: sum.splits)
  qed
qed

lemma images_loop_console_kept:
  "set con \<subseteq> set (snd (download_images_loop h pid fb what i0 urls (bin, con)))"
proof (induction urls arbitrary: i0 bin con)
  case Nil
  show ?case by simp
next
  case (Cons url rest)
  show ?case
  proof (cases "download_image h pid fb i0 url")
    case (Inl e)
    then show ?thesis using Cons.IH [of "con @ [ConsoleError (''Failed to download '' @ what @ '' '' @ decimal_of_nat i0 @ '':'') e]" "Suc i0" bin]
      by auto
  next
    case (Inr art)
    then show ?thesis using Cons.IH [of con "Suc i0"] by simp
  qed
qed

lemma images_loop_console:
  "k < length urls \<Longrightarrow> download_image h pid fb (i0 + k) (urls ! k) = Inl e \<Longrightarrow>
   ConsoleError (''Failed to download '' @ what @ '' '' @ decimal_of_nat (i0 + k) @ '':'') e
     \<in> set (snd (download_images_loop h pid fb what i0 urls (bin, con)))"
proof (induction urls arbitrary: i0 bin con k)
  case Nil
  then show ?case by simp
next
  case (Cons url rest)
  show ?case
  proof (cases k)
    case 0
    with Cons.prems have failed: "download_image h pid fb i0 url = Inl e" by simp
    have "ConsoleError (''Failed to download '' @ what @ '' '' @ decimal_of_nat i0 @ '':'') e
            \<in> set (con @ [ConsoleError (''Failed to download '' @ what @ '' '' @ decimal_of_nat i0 @ '':'') e])"
      by simp
    then show ?thesis
      using 0 failed images_loop_console_kept
              [of "con @ [ConsoleError (''Failed to download '' @ what @ '' '' @ decimal_of_nat i0 @ '':'') e]"
                  h pid fb what "Suc i0" rest bin]
      by auto
  next
    case (Suc j)
    with Cons.prems have j: "j < length rest"
      and failed: "download_image h pid fb (Suc i0 + j) (rest ! j) = Inl e"
      by simp_all
    show ?thesis
      using Suc Cons.IH [OF j failed]
      by (cases "download_image h pid fb i0 url") simp_all
  qed
qed

lemma videos_loop_other:
  "(\<And>k. k < length urls \<Longrightarrow> name \<noteq> video_slot (i0 + k)) \<Longrightarrow>
   fst (download_videos_loop h fmt pid i0 urls (bin, con)) name = bin name"
proof (induction urls arbitrary: i0 bin con)
  case Nil
  show ?case by simp
next
  case (Cons url rest)
  have later: "name \<noteq> video_slot (Suc i0 + k)" if "k < length rest" for k
    using Cons.prems [of "Suc k"] that by simp
  have here: "name \<noteq> video_slot i0"
    using Cons.prems [of 0] by simp
  show ?case
  proof (cases "download_video h fmt pid i0 url")
    case (Inl e)
    then show ?thesis using Cons.IH [OF later] by simp
  next
    case (Inr art)
    then show ?thesis using Cons.IH [OF later] here by simp
  qed
qed

lemma videos_loop_slot:
  "k < length urls \<Longrightarrow>
   fst (download_videos_loop h fmt pid i0 urls (bin, con)) (video_slot (i0 + k)) =
     (case download_video h fmt pid (i0 + k) (urls ! k) of
        Inr art \<Rightarrow> Some art
      | Inl e \<Rightarrow> bin (video_slot (i0 + k)))"
proof (induction urls arbitrary: i0 bin con k)
  case Nil
  then show ?case by simp
next
  case (Cons url rest)
  show ?case
  proof (cases k)
    case 0
    have untouched: "fst (download_videos_loop h fmt pid (Suc i0) rest (b, c)) (video_slot i0)
                       = b (video_slot i0)" for b c
      by (rule videos_loop_other) (auto dest: video_slot_inj)
    show ?thesis using 0 untouched by (cases "download_video h fmt pid i0 url") simp_all
  next
    case (Suc j)
    with Cons.prems have j: "j < length rest" by simp
    have apart: "video_slot i0 \<noteq> video_slot (Suc i0 + j)"
      by (auto dest: video_slot_inj)
    show ?thesis
      using Suc Cons.IH [OF j, of "Suc i0"] apart
      by (cases "download_video h fmt pid i0 url") (simp_all split: sum.splits)
  qed
qed

lemma videos_loop_console_kept:
  "set con \<subseteq> set (snd (download_videos_loop h fmt pid i0 urls (bin, con)))"
proof (induction urls arbitrary: i0 bin con)
  case Nil
  show ?case by simp
next
  case (Cons url rest)
  show ?case
  proof (cases "download_video h fmt pid i0 url")
    case (Inl e)
    then show ?thesis using Cons.IH [of "con @ [ConsoleError (''Failed to download video '' @ decimal_of_nat i0 @ '':'') e]" "Suc i0" bin]
      by auto
  next
    case (Inr art)
    then show ?thesis using Cons.IH [of con "Suc i0"] by simp
  qed
qed

lemma videos_loop_console:
  "k < length urls \<Longrightarrow> download_video h fmt pid (i0 + k) (urls ! k) = Inl e \<Longrightarrow>
   ConsoleError (''Failed to download video '' @ decimal_of_nat (i0 + k) @ '':'') e
     \<in> set (snd (download_videos_loop h fmt pid i0 urls (bin, con)))"
proof (induction urls arbitrary: i0 bin con k)
  case Nil
  then show ?case by simp
next
  case (Cons url rest)
  show ?case
  proof (cases k)
    case 0
    with Cons.prems have failed: "download_video h fmt pid i0 url = Inl e" by simp
    show ?thesis
      using 0 failed videos_loop_console_kept
              [of "con @ [ConsoleError (''Failed to download video '' @ decimal_of_nat i0 @ '':'') e]"
                  h fmt pid "Suc i0" rest bin]
      by auto
  next
    case (Suc j)
    with Cons.prems have j: "j < length rest"
      and failed: "download_video h fmt pid (Suc i0 + j) (rest ! j) = Inl e"
      by simp_all
    show ?thesis
      using Suc Cons.IH [OF j failed]
      by (cases "download_video h fmt pid i0 url") simp_all
  qed
qed


lemma download_image_fetch_throws:
  "fetch h k url = Inl e \<Longrightarrow> download_image h pid fb k url = Inl e"
  by (simp add: download_image_def bind_result_def)

lemma download_image_not_ok:
  "fetch h k url = Inr resp \<Longrightarrow> \<not> resp_ok resp \<Longrightarrow>
   download_image h pid fb k url
     = Inl (JsError (''Failed to download image: '' @ decimal_of_nat (resp_status resp) @
                     '' '' @ resp_statusText resp))"
  by (simp add: download_image_def bind_result_def)

lemma download_video_fetch_throws:
  "fetch h k url = Inl e \<Longrightarrow> download_video h fmt pid k url = Inl e"
  by (simp add: download_video_def bind_result_def)

lemma download_video_not_ok:
  "fetch h k url = Inr resp \<Longrightarrow> \<not> resp_ok resp \<Longrightarrow>
   download_video h fmt pid k url
     = Inl (JsError (''Failed to download video: '' @ decimal_of_nat (resp_status resp) @
                     '' '' @ resp_statusText resp))"
  by (simp add: download_video_def bind_result_def)

text \<open>
  Claim C7. With downloads enabled, every URL of the result is tried: where the body of
  the \<^verbatim>\<open>try\<close> succeeds for index \<open>k\<close>, its artifact is stored under \<^verbatim>\<open>image\<close> (or
  \<^verbatim>\<open>video\<close>) for \<open>k = 0\<close> and under \<^verbatim>\<open>image_k\<close> (\<^verbatim>\<open>video_k\<close>) otherwise; where it
  fails (a rejected \<^verbatim>\<open>fetch\<close>, a status that is not a success, or any later throw), the
  slot stays empty, a line with the index and the error goes to the console, and the
  other indices are unaffected. The loop has no way to fail, so the item's run goes on.
\<close>

theorem download_tolerates_failures:
  "(downloadImages \<noteq> JBool False \<and> k < length imageUrls \<longrightarrow>
      (case download_image h projectId fallback k (imageUrls ! k) of
         Inr art \<Rightarrow>
           fst (download_images h downloadImages projectId fallback what imageUrls) (image_slot k)
             = Some art
       | Inl err \<Rightarrow>
           fst (download_images h downloadImages projectId fallback what imageUrls) (image_slot k)
             = None
           \<and> ConsoleError (''Failed to download '' @ what @ '' '' @ decimal_of_nat k @ '':'') err
               \<in> set (snd (download_images h downloadImages projectId fallback what imageUrls))))
   \<and> (downloadVideos \<noteq> JBool False \<and> k < length videoUrls \<longrightarrow>
      (case download_video h outputFormat videoProjectId k (videoUrls ! k) of
         Inr art \<Rightarrow>
           fst (download_videos h downloadVideos outputFormat videoProjectId videoUrls) (video_slot k)
             = Some art
       | Inl err \<Rightarrow>
           fst (download_videos h downloadVideos outputFormat videoProjectId videoUrls) (video_slot k)
             = None
           \<and> ConsoleError (''Failed to download video '' @ decimal_of_nat k @ '':'') err
               \<in> set (snd (download_videos h downloadVideos outputFormat videoProjectId videoUrls))))
   \<and> image_slot 0 = ''image'' \<and> video_slot 0 = ''video''
   \<and> (0 < k \<longrightarrow> image_slot k = ''image_'' @ decimal_of_nat k
                \<and> video_slot k = ''video_'' @ decimal_of_nat k)
   \<and> (image_slot k = image_slot j \<longrightarrow> k = j) \<and> (video_slot k = video_slot j \<longrightarrow> k = j)
   \<and> (fetch h k url = Inl e \<longrightarrow>
        download_image h projectId fallback k url = Inl e
        \<and> download_video h outputFormat videoProjectId k url = Inl e)
   \<and> (fetch h k url = Inr resp \<and> \<not> resp_ok resp \<longrightarrow>
        download_image h projectId fallback k url
          = Inl (JsError (''Failed to download image: '' @ decimal_of_nat (resp_status resp) @
                          '' '' @ resp_statusText resp))
        \<and> download_video h outputFormat videoProjectId k url
          = Inl (JsError (''Failed to download video: '' @ decimal_of_nat (resp_status resp) @
                          '' '' @ resp_statusText resp)))"
proof -
  have images: "downloadImages \<noteq> JBool False \<and> k < length imageUrls \<longrightarrow>
      (case download_image h projectId fallback k (imageUrls ! k) of
         Inr art \<Rightarrow>
           fst (download_images h downloadImages projectId fallback what imageUrls) (image_slot k)
             = Some art
       | Inl err \<Rightarrow>
           fst (download_images h downloadImages projectId fallback what imageUrls) (image_slot k)
             = None
           \<and> ConsoleError (''Failed to download '' @ what @ '' '' @ decimal_of_nat k @ '':'') err
               \<in> set (snd (download_images h downloadImages projectId fallback what imageUrls)))"
  proof
    assume h: "downloadImages \<noteq> JBool False \<and> k < length imageUrls"
    then have k: "k < length imageUrls" and ne: "imageUrls \<noteq> []" by auto
    from h ne have run: "download_images h downloadImages projectId fallback what imageUrls
             = download_images_loop h projectId fallback what 0 imageUrls (Map.empty, [])"
      by (simp add: download_images_def)
    note slot = images_loop_slot [OF k, of h projectId fallback what 0 Map.empty "[]"]
    show "case download_image h projectId fallback k (imageUrls ! k) of
         Inr art \<Rightarrow>
           fst (download_images h downloadImages projectId fallback what imageUrls) (image_slot k)
             = Some art
       | Inl err \<Rightarrow>
           fst (download_images h downloadImages projectId fallback what imageUrls) (image_slot k)
             = None
           \<and> ConsoleError (''Failed to download '' @ what @ '' '' @ decimal_of_nat k @ '':'') err
               \<in> set (snd (download_images h downloadImages projectId fallback what imageUrls))"
    proof (cases "download_image h projectId fallback k (imageUrls ! k)")
      case (Inr art)
      with slot show ?thesis by (simp add: run)
    next
      case (Inl err)
      from Inl have failed: "download_image h projectId fallback (0 + k) (imageUrls ! k) = Inl err"
        by simp
      from images_loop_console [OF k failed, of what Map.empty "[]"] Inl slot
      show ?thesis by (simp add: run)
    qed
  qed
  have videos: "downloadVideos \<noteq> JBool False \<and> k < length videoUrls \<longrightarrow>
      (case download_video h outputFormat videoProjectId k (videoUrls ! k) of
         Inr art \<Rightarrow>
           fst (download_videos h downloadVideos outputFormat videoProjectId videoUrls) (video_slot k)
             = Some art
       | Inl err \<Rightarrow>
           fst (download_videos h downloadVideos outputFormat videoProjectId videoUrls) (video_slot k)
             = None
           \<and> ConsoleError (''Failed to download video '' @ decimal_of_nat k @ '':'') err
               \<in> set (snd (download_videos h downloadVideos outputFormat videoProjectId videoUrls)))"
  proof
    assume h: "downloadVideos \<noteq> JBool False \<and> k < length videoUrls"
    then have k: "k < length videoUrls" and ne: "videoUrls \<noteq> []" by auto
    from h ne have run: "download_videos h downloadVideos outputFormat videoProjectId videoUrls
             = download_videos_loop h outputFormat videoProjectId 0 videoUrls (Map.empty, [])"
      by (simp add: download_videos_def)
    note slot = videos_loop_slot [OF k, of h outputFormat videoProjectId 0 Map.empty "[]"]
    show "case download_video h outputFormat videoProjectId k (videoUrls ! k) of
         Inr art \<Rightarrow>
           fst (download_videos h downloadVideos outputFormat videoProjectId videoUrls) (video_slot k)
             = Some art
       | Inl err \<Rightarrow>
           fst (download_videos h downloadVideos outputFormat videoProjectId videoUrls) (video_slot k)
             = None
           \<and> ConsoleError (''Failed to download video '' @ decimal_of_nat k @ '':'') err
               \<in> set (snd (download_videos h downloadVideos outputFormat videoProjectId videoUrls))"
    proof (cases "download_video h outputFormat videoProjectId k (videoUrls ! k)")
      case (Inr art)
      with slot show ?thesis by (simp add: run)
    next
      case (Inl err)
      from Inl have failed: "download_video h outputFormat videoProjectId (0 + k) (videoUrls ! k) = Inl err"
        by simp
      from videos_loop_console [OF k failed, of Map.empty "[]"] Inl slot
      show ?thesis by (simp add: run)
    qed
  qed
  have s0: "image_slot 0 = ''image''" "video_slot 0 = ''video''"
    by (simp_all add: image_slot_def video_slot_def)
  have sk: "0 < k \<longrightarrow> image_slot k = ''image_'' @ decimal_of_nat k
                \<and> video_slot k = ''video_'' @ decimal_of_nat k"
    by (simp add: image_slot_def video_slot_def)
  have inj: "image_slot k = image_slot j \<longrightarrow> k = j" "video_slot k = video_slot j \<longrightarrow> k = j"
    using image_slot_inj video_slot_inj by blast+
  have thrown: "fetch h k url = Inl e \<longrightarrow>
        download_image h projectId fallback k url = Inl e
        \<and> download_video h outputFormat videoProjectId k url = Inl e"
    using download_image_fetch_throws download_video_fetch_throws by blast
  have status: "fetch h k url = Inr resp \<and> \<not> resp_ok resp \<longrightarrow>
        download_image h projectId fallback k url
          = Inl (JsError (''Failed to download image: '' @ decimal_of_nat (resp_status resp) @
                          '' '' @ resp_statusText resp))
        \<and> download_video h outputFormat videoProjectId k url
          = Inl (JsError (''Failed to download video: '' @ decimal_of_nat (resp_status resp) @
                          '' '' @ resp_statusText resp))"
    using download_image_not_ok download_video_not_ok by blast
  show ?thesis by (intro conjI images videos s0 sk inj thrown status)
qed


theorem download_tolerates_failures_witness:
  "JBool True \<noteq> JBool False \<and> (1::nat) < length example_urls
   \<and> fst (download_images example_host (JBool True) None ''sogni'' ''image'' example_urls) ''image''
       = Some \<lparr>art_data = png_bytes, art_fileName = ''sogni_0.png'', art_mimeType = ''image/png''\<rparr>
   \<and> fst (download_images example_host (JBool True) None ''sogni'' ''image'' example_urls) ''image_1''
       = None
   \<and> ConsoleError ''Failed to download image 1:'' (JsError ''Failed to download image: 404 Not Found'')
       \<in> set (snd (download_images example_host (JBool True) None ''sogni'' ''image'' example_urls))
   \<and> fst (download_images example_host (JBool True) None ''sogni'' ''image'' example_urls) ''image_2''
       = Some \<lparr>art_data = png_bytes, art_fileName = ''sogni_2.png'', art_mimeType = ''image/png''\<rparr>
   \<and> fst (download_videos example_host (JBool True) ''mp4'' (Some ''proj-7'') example_urls) ''video''
       = Some \<lparr>art_data = png_bytes, art_fileName = ''proj-7_0.mp4'', art_mimeType = ''video/mp4''\<rparr>
   \<and> fst (download_videos example_host (JBool True) ''mp4'' (Some ''proj-7'') example_urls) ''video_1''
       = None
   \<and> ConsoleError ''Failed to download video 1:'' (JsError ''Failed to download video: 404 Not Found'')
       \<in> set (snd (download_videos example_host (JBool True) ''mp4'' (Some ''proj-7'') example_urls))
   \<and> (0::nat) < 2 \<and> image_slot 2 = ''image_2'' \<and> video_slot 2 = ''video_2''
   \<and> fetch example_host 3 ''https://cdn/four'' = Inl (JsError ''fetch failed'')
   \<and> download_image example_host None ''sogni'' 3 ''https://cdn/four'' = Inl (JsError ''fetch failed'')
   \<and> download_video example_host ''mp4'' (Some ''proj-7'') 3 ''https://cdn/four''
       = Inl (JsError ''fetch failed'')"
proof -
  have d0: "download_image example_host None ''sogni'' 0 (example_urls ! 0)
              = Inr \<lparr>art_data = png_bytes, art_fileName = ''sogni_0.png'', art_mimeType = ''image/png''\<rparr>"
    by code_simp
  have d1: "download_image example_host None ''sogni'' 1 (example_urls ! 1)
              = Inl (JsError ''Failed to download image: 404 Not Found'')"
    by code_simp
  have d2: "download_image example_host None ''sogni'' 2 (example_urls ! 2)
              = Inr \<lparr>art_data = png_bytes, art_fileName = ''sogni_2.png'', art_mimeType = ''image/png''\<rparr>"
    by code_simp
  have slots: "image_slot 0 = ''image''" "image_slot 1 = ''image_1''" "image_slot 2 = ''image_2''"
    by code_simp+
  have line: "''Failed to download '' @ ''image'' @ '' '' @ decimal_of_nat 1 @ '':''
                = ''Failed to download image 1:''"
    by code_simp
  have on: "JBool True \<noteq> JBool False" by simp
  have len: "length example_urls = 3" by (simp add: example_urls_def)
  have h0: "JBool True \<noteq> JBool False \<and> 0 < length example_urls" by (simp add: len)
  have h1: "JBool True \<noteq> JBool False \<and> 1 < length example_urls" by (simp add: len)
  have h2: "JBool True \<noteq> JBool False \<and> 2 < length example_urls" by (simp add: len)
  note t = download_tolerates_failures
    [where h = example_host and downloadImages = "JBool True" and projectId = None
       and fallback = "''sogni''" and what = "''image''" and imageUrls = example_urls]
  have a: "fst (download_images example_host (JBool True) None ''sogni'' ''image'' example_urls) ''image''
       = Some \<lparr>art_data = png_bytes, art_fileName = ''sogni_0.png'', art_mimeType = ''image/png''\<rparr>"
    using t [where k = 0, THEN conjunct1, THEN mp, OF h0] unfolding d0 slots by simp
  have b: "fst (download_images example_host (JBool True) None ''sogni'' ''image'' example_urls) ''image_1''
       = None
     \<and> ConsoleError ''Failed to download image 1:'' (JsError ''Failed to download image: 404 Not Found'')
       \<in> set (snd (download_images example_host (JBool True) None ''sogni'' ''image'' example_urls))"
    using t [where k = 1, THEN conjunct1, THEN mp, OF h1] unfolding d1 slots line by simp
  have c: "fst (download_images example_host (JBool True) None ''sogni'' ''image'' example_urls) ''image_2''
       = Some \<lparr>art_data = png_bytes, art_fileName = ''sogni_2.png'', art_mimeType = ''image/png''\<rparr>"
    using t [where k = 2, THEN conjunct1, THEN mp, OF h2] unfolding d2 slots by simp
  have l1: "(1::nat) < length example_urls" by (simp add: len)
  have v0: "download_video example_host ''mp4'' (Some ''proj-7'') 0 (example_urls ! 0)
              = Inr \<lparr>art_data = png_bytes, art_fileName = ''proj-7_0.mp4'', art_mimeType = ''video/mp4''\<rparr>"
    by code_simp
  have answered: "fetch example_host 1 (example_urls ! 1)
                    = Inr \<lparr>resp_ok = False, resp_status = 404, resp_statusText = ''Not Found'',
                           resp_arrayBuffer = Inr [], resp_headers = []\<rparr>
      \<and> \<not> resp_ok \<lparr>resp_ok = False, resp_status = 404, resp_statusText = ''Not Found'',
                       resp_arrayBuffer = Inr [], resp_headers = []\<rparr>"
    by (simp add: example_host_def)
  have status: "decimal_of_nat 404 = ''404''" "decimal_of_nat 1 = ''1''"
    by code_simp+
  note u = download_tolerates_failures
    [where h = example_host and downloadVideos = "JBool True" and outputFormat = "''mp4''"
       and videoProjectId = "Some ''proj-7''" and videoUrls = example_urls]
  have v1: "download_video example_host ''mp4'' (Some ''proj-7'') 1 (example_urls ! 1)
              = Inl (JsError ''Failed to download video: 404 Not Found'')"
    using u [where k = 1 and url = "example_urls ! 1"
               and resp = "\<lparr>resp_ok = False, resp_status = 404, resp_statusText = ''Not Found'',
                              resp_arrayBuffer = Inr [], resp_headers = []\<rparr>",
             THEN conjunct2, THEN conjunct2, THEN conjunct2, THEN conjunct2, THEN conjunct2,
             THEN conjunct2, THEN conjunct2, THEN conjunct2, THEN mp, OF answered, THEN conjunct2]
    by (simp add: status)
  have vslots: "video_slot 0 = ''video''" "video_slot 1 = ''video_1''"
    by code_simp+
  have vline: "''Failed to download video '' @ decimal_of_nat 1 @ '':'' = ''Failed to download video 1:''"
    by code_simp
  have va: "fst (download_videos example_host (JBool True) ''mp4'' (Some ''proj-7'') example_urls) ''video''
       = Some \<lparr>art_data = png_bytes, art_fileName = ''proj-7_0.mp4'', art_mimeType = ''video/mp4''\<rparr>"
    using u [where k = 0, THEN conjunct2, THEN conjunct1, THEN mp, OF h0] unfolding v0 vslots by simp
  have vb: "fst (download_videos example_host (JBool True) ''mp4'' (Some ''proj-7'') example_urls) ''video_1''
       = None
     \<and> ConsoleError ''Failed to download video 1:'' (JsError ''Failed to download video: 404 Not Found'')
       \<in> set (snd (download_videos example_host (JBool True) ''mp4'' (Some ''proj-7'') example_urls))"
    using u [where k = 1, THEN conjunct2, THEN conjunct1, THEN mp, OF h1] unfolding v1 vslots vline
    by simp
  have pos: "(0::nat) < 2" by simp
  have two: "decimal_of_nat 2 = ''2''" by code_simp
  note named = t [where k = 2, THEN conjunct2, THEN conjunct2, THEN conjunct2, THEN conjunct2,
                  THEN conjunct1, THEN mp, OF pos]
  have s2: "image_slot 2 = ''image_2''" "video_slot 2 = ''video_2''"
    using named by (simp_all add: two)
  have rejected: "fetch example_host 3 ''https://cdn/four'' = Inl (JsError ''fetch failed'')"
    by (simp add: example_host_def)
  note thrown = download_tolerates_failures
    [where h = example_host and k = 3 and url = "''https://cdn/four''" and e = "JsError ''fetch failed''"
       and projectId = None and fallback = "''sogni''" and outputFormat = "''mp4''"
       and videoProjectId = "Some ''proj-7''",
     THEN conjunct2, THEN conjunct2, THEN conjunct2, THEN conjunct2, THEN conjunct2,
     THEN conjunct2, THEN conjunct2, THEN conjunct1, THEN mp, OF rejected]
  show ?thesis
    by (intro conjI on l1 a b [THEN conjunct1] b [THEN conjunct2] c va vb [THEN conjunct1]
          vb [THEN conjunct2] pos s2 rejected thrown [THEN conjunct1] thrown [THEN conjunct2])
qed

end
